theory Spec2Isabelle
  imports Main "HOL-Library.Word"
begin

unbundle bit_operations_syntax

section \<open>The DNS request engine of lib/dns/request.c\<close>

text \<open>
  A shallow embedding of the request engine: the request structure and its flag word,
  the event handlers (\<open>req_connected\<close>, \<open>req_senddone\<close>, \<open>req_response\<close>,
  \<open>req_timeout\<close>, \<open>do_cancel\<close>), the public \<open>dns_request_cancel\<close>, and the two
  factories \<open>dns_request_createraw\<close> and \<open>dns_request_createvia\<close>.

  The engine calls into libraries that are not part of request.c (sockets, timers,
  tasks, the dispatcher, the message renderer).  Every such call that has an effect is
  appended to a history of \<open>action\<close>s, and every result the code branches on comes from
  an environment \<open>env\<close> whose functions may depend on the history so far, so that two
  calls of the same library function may answer differently.  A failed \<open>REQUIRE\<close> or
  \<open>INSIST\<close>, a null dereference and a division by zero are values of type \<open>fault\<close>.
\<close>

subsection \<open>Basic types\<close>

type_synonym byte = "8 word"
type_synonym uint = "32 word"
type_synonym dns_messageid = "16 word"
type_synonym dns_dispatch = nat
type_synonym dns_dispentry = nat
type_synonym isc_socket = nat
type_synonym dns_acl = nat

datatype isc_result =
    ISC_R_SUCCESS
  | ISC_R_NOMEMORY
  | ISC_R_TIMEDOUT
  | ISC_R_CANCELED
  | ISC_R_SHUTTINGDOWN
  | ISC_R_FAILURE
  | ISC_R_NOTIMPLEMENTED
  | ISC_R_FAMILYMISMATCH
  | ISC_R_FAMILYNOSUPPORT
  | ISC_R_NOSPACE
  | DNS_R_BLACKHOLED
  | DNS_R_FORMERR
  | DNS_R_USETCP
  | ISC_R_OTHER nat

datatype fault = AssertionFailed | NullDereference | DivideByZero

datatype pf = PF_INET | PF_INET6 | PF_OTHER nat

record isc_sockaddr =
  sa_family :: pf
  sa_host :: nat
  sa_port :: nat

datatype isc_timertype = isc_timertype_once | isc_timertype_limited

datatype isc_eventtype = ISC_TIMEREVENT_TICK | ISC_TIMEREVENT_IDLE | ISC_TIMEREVENT_LIFE

datatype sockcancel = ISC_SOCKCANCEL_CONNECT | ISC_SOCKCANCEL_SEND

text \<open>
  The option and attribute words are bit sets whose bit values are declared in headers
  outside request.c; they are modelled as sets of named flags: \<open>(options & X) != 0\<close> is
  \<open>X \<in> options\<close> and \<open>options |= X\<close> is \<open>insert X options\<close>.
\<close>

datatype requestopt =
  DNS_REQUESTOPT_TCP | DNS_REQUESTOPT_CASE | DNS_REQUESTOPT_FIXEDID | DNS_REQUESTOPT_SHARE

datatype dispatchattr =
    DNS_DISPATCHATTR_TCP
  | DNS_DISPATCHATTR_UDP
  | DNS_DISPATCHATTR_IPV4
  | DNS_DISPATCHATTR_IPV6
  | DNS_DISPATCHATTR_MAKEQUERY
  | DNS_DISPATCHATTR_EXCLUSIVE

text \<open>
  The calls into other libraries that change something outside the request.  \<open>MemGet\<close>
  and \<open>MemPut\<close> are the allocation and the release of the request structure itself;
  \<open>MgrLock\<close> and \<open>MgrUnlock\<close> are \<open>LOCK\<close> and \<open>UNLOCK\<close> of the manager lock (the
  locks of the single requests, taken by every handler around its whole body, are not
  recorded).
\<close>

datatype action =
    MemGet
  | MemPut
  | MgrLock
  | MgrUnlock
  | TimerCreate
  | TimerReset isc_timertype uint uint
  | TimerDetach
  | EventAllocate
  | EventFree
  | TaskAttach
  | TaskDetach
  | TaskSendControl
  | TaskSendAndDetach isc_result
  | TaskSendShutdown nat
  | DispatchGetTcp isc_sockaddr bool
  | DispatchCreateTcp isc_socket
  | DispatchGetUdp isc_sockaddr
  | DispatchAttach dns_dispatch
  | DispatchDetach dns_dispatch
  | DispatchAddResponse dns_dispatch "dns_messageid option"
  | DispatchRemoveResponse dns_dispentry
  | DispatchStartTcp dns_dispatch
  | SocketCreate pf
  | SocketBind isc_socket "isc_sockaddr option"
  | SocketDscp isc_socket int
  | SocketDetach isc_socket
  | SocketConnect isc_socket isc_sockaddr
  | SocketSendto isc_socket "byte list" "isc_sockaddr option"
  | SocketCancel isc_socket sockcancel
  | MessageSetTsigKey
  | MessageRender bool
  | MessageRenderReset
  | MgrDestroy

text \<open>
  \<open>struct dns_request\<close>.  A pointer field is an option (\<open>None\<close> is \<open>NULL\<close>); \<open>event\<close>
  holds the \<open>result\<close> field of the pending completion event; \<open>timer\<close> and \<open>requestmgr\<close>
  say whether the pointer is set.
\<close>

record dns_request =
  hash :: nat
  flags :: uint
  query :: "byte list option"
  answer :: "byte list option"
  event :: "isc_result option"
  dispatch :: "dns_dispatch option"
  dispentry :: "dns_dispentry option"
  timer :: bool
  requestmgr :: bool
  tsig :: "byte list option"
  tsigkey :: "nat option"
  canceling :: bool
  destaddr :: isc_sockaddr
  udpcount :: uint
  dscp :: int

definition DNS_REQUEST_F_CONNECTING :: uint where "DNS_REQUEST_F_CONNECTING = 0x0001"
definition DNS_REQUEST_F_SENDING :: uint where "DNS_REQUEST_F_SENDING = 0x0002"
definition DNS_REQUEST_F_CANCELED :: uint where "DNS_REQUEST_F_CANCELED = 0x0004"
definition DNS_REQUEST_F_TIMEDOUT :: uint where "DNS_REQUEST_F_TIMEDOUT = 0x0008"
definition DNS_REQUEST_F_TCP :: uint where "DNS_REQUEST_F_TCP = 0x0010"

definition DNS_REQUEST_CANCELED :: "dns_request \<Rightarrow> bool" where
  "DNS_REQUEST_CANCELED r = (flags r AND DNS_REQUEST_F_CANCELED \<noteq> 0)"

definition DNS_REQUEST_CONNECTING :: "dns_request \<Rightarrow> bool" where
  "DNS_REQUEST_CONNECTING r = (flags r AND DNS_REQUEST_F_CONNECTING \<noteq> 0)"

definition DNS_REQUEST_SENDING :: "dns_request \<Rightarrow> bool" where
  "DNS_REQUEST_SENDING r = (flags r AND DNS_REQUEST_F_SENDING \<noteq> 0)"

definition DNS_REQUEST_TIMEDOUT :: "dns_request \<Rightarrow> bool" where
  "DNS_REQUEST_TIMEDOUT r = (flags r AND DNS_REQUEST_F_TIMEDOUT \<noteq> 0)"

text \<open>\<open>struct dns_requestmgr\<close>; \<open>requests\<close> lists the addresses of the linked requests.\<close>

record dns_requestmgr =
  eref :: int
  iref :: int
  dispatchv4 :: "dns_dispatch option"
  dispatchv6 :: "dns_dispatch option"
  exiting :: bool
  whenshutdown :: "nat list"
  mgr_hash :: uint
  requests :: "nat list"

text \<open>
  The environment: what the libraries answer.  A function that takes the history is
  asked with the actions recorded before the call.  An out-parameter is part of the
  returned tuple and is read only when the result is \<open>ISC_R_SUCCESS\<close>.  \<open>mem_get\<close>
  gives the address of the allocated request and what the memory holds in the two
  fields that \<open>new_request\<close> does not assign, \<open>hash\<close> and \<open>destaddr\<close>.
\<close>

record env =
  getblackhole :: "dns_acl option"
  acl_match :: "dns_acl \<Rightarrow> isc_sockaddr \<Rightarrow> isc_result \<times> int"
  mem_get :: "action list \<Rightarrow> nat \<times> nat \<times> isc_sockaddr"
  timer_create :: "action list \<Rightarrow> isc_result"
  dispatch_gettcp :: "action list \<Rightarrow> isc_sockaddr \<Rightarrow> isc_sockaddr option \<Rightarrow> bool
      \<Rightarrow> isc_result \<times> dns_dispatch \<times> bool"
  socket_create :: "action list \<Rightarrow> pf \<Rightarrow> isc_result \<times> isc_socket"
  socket_bind :: "action list \<Rightarrow> isc_socket \<Rightarrow> isc_result"
  dispatch_createtcp :: "action list \<Rightarrow> isc_socket \<Rightarrow> dispatchattr set
      \<Rightarrow> isc_result \<times> dns_dispatch"
  dispatch_getudp :: "action list \<Rightarrow> isc_sockaddr \<Rightarrow> dispatchattr set
      \<Rightarrow> isc_result \<times> dns_dispatch"
  dispatch_addresponse :: "action list \<Rightarrow> dns_dispatch \<Rightarrow> dns_messageid option
      \<Rightarrow> isc_result \<times> dns_messageid \<times> dns_dispentry"
  dispatch_getattributes :: "dns_dispatch \<Rightarrow> dispatchattr set"
  dispatch_getsocket :: "dns_dispatch \<Rightarrow> isc_socket option"
  dispatch_getentrysocket :: "dns_dispentry \<Rightarrow> isc_socket option"
  time_nowplusinterval :: "action list \<Rightarrow> uint \<Rightarrow> isc_result"
  timer_reset :: "action list \<Rightarrow> isc_result"
  socket_connect :: "action list \<Rightarrow> isc_result"
  socket_socketevent :: "action list \<Rightarrow> bool"
  socket_sendto2 :: "action list \<Rightarrow> isc_result"
  message_settsigkey :: "action list \<Rightarrow> isc_result"
  compress_init :: "action list \<Rightarrow> isc_result"
  message_render :: "action list \<Rightarrow> dns_messageid \<Rightarrow> bool \<Rightarrow> isc_result \<times> byte list"
  message_getquerytsig :: "action list \<Rightarrow> isc_result \<times> byte list option"

subsection \<open>Private helpers of a request\<close>

text \<open>
  \<open>req_getsocket\<close>.  \<open>dns_dispatch_getattributes\<close> requires a valid dispatch, and the
  exclusive branch insists on a dispatch entry.
\<close>

definition req_getsocket :: "env \<Rightarrow> dns_request \<Rightarrow> fault + isc_socket option" where
  "req_getsocket E r =
     (case dispatch r of
        None \<Rightarrow> Inl AssertionFailed
      | Some d \<Rightarrow>
          if DNS_DISPATCHATTR_EXCLUSIVE \<in> dispatch_getattributes E d
          then (case dispentry r of
                  None \<Rightarrow> Inl AssertionFailed
                | Some e \<Rightarrow> Inr (dispatch_getentrysocket E e))
          else Inr (dispatch_getsocket E d))"

text \<open>
  \<open>req_send\<close>: the socket is looked up and the used region of the query buffer taken,
  the send event is allocated (\<open>ISC_R_NOMEMORY\<close> when that fails), then \<open>SENDING\<close> is set
  and the region is handed to \<open>isc_socket_sendto2\<close>, which requires a socket and whose
  success is insisted on.
\<close>

definition req_send ::
  "env \<Rightarrow> dns_request \<Rightarrow> isc_sockaddr option \<Rightarrow> action list
     \<Rightarrow> fault + (isc_result \<times> dns_request \<times> action list)" where
  "req_send E r address tr =
     (case req_getsocket E r of
        Inl f \<Rightarrow> Inl f
      | Inr sock \<Rightarrow>
          (case query r of
             None \<Rightarrow> Inl NullDereference
           | Some q \<Rightarrow>
               if \<not> socket_socketevent E tr then Inr (ISC_R_NOMEMORY, r, tr)
               else
                 (case sock of
                    None \<Rightarrow> Inl AssertionFailed
                  | Some s \<Rightarrow>
                      if socket_sendto2 E tr \<noteq> ISC_R_SUCCESS then Inl AssertionFailed
                      else Inr (ISC_R_SUCCESS,
                                r\<lparr>flags := flags r OR DNS_REQUEST_F_SENDING\<rparr>,
                                tr @ [SocketSendto s q address]))))"

text \<open>
  \<open>req_sendevent\<close>: stores the result in the completion event and hands the event to
  the caller's task with \<open>isc_task_sendanddetach\<close>, which clears \<open>request->event\<close>.
\<close>

definition req_sendevent ::
  "dns_request \<Rightarrow> isc_result \<Rightarrow> action list \<Rightarrow> fault + (dns_request \<times> action list)" where
  "req_sendevent r result tr =
     (case event r of
        None \<Rightarrow> Inl NullDereference
      | Some _ \<Rightarrow> Inr (r\<lparr>event := None\<rparr>, tr @ [TaskSendAndDetach result]))"

definition send_if_done ::
  "dns_request \<Rightarrow> isc_result \<Rightarrow> action list \<Rightarrow> fault + (dns_request \<times> action list)" where
  "send_if_done r result tr =
     (if event r \<noteq> None \<and> \<not> canceling r then req_sendevent r result tr
      else Inr (r, tr))"

text \<open>
  \<open>req_cancel\<close>.  \<open>dns_dispatch_getattributes\<close> and \<open>dns_dispatch_detach\<close> require a valid
  dispatch, so a request whose dispatch is already detached fails the assertion.
\<close>

definition cancel_socket :: "env \<Rightarrow> dns_request \<Rightarrow> dns_dispatch \<Rightarrow> isc_socket option" where
  "cancel_socket E r d =
     (if DNS_REQUEST_CONNECTING r \<or> DNS_REQUEST_SENDING r
      then (if DNS_DISPATCHATTR_EXCLUSIVE \<in> dispatch_getattributes E d
            then (case dispentry r of
                    None \<Rightarrow> None
                  | Some e \<Rightarrow> dispatch_getentrysocket E e)
            else dispatch_getsocket E d)
      else None)"

definition cancel_actions :: "dns_request \<Rightarrow> isc_socket option \<Rightarrow> action list" where
  "cancel_actions r sock =
     (case sock of
        None \<Rightarrow> []
      | Some s \<Rightarrow>
          (if DNS_REQUEST_CONNECTING r then [SocketCancel s ISC_SOCKCANCEL_CONNECT] else [])
          @ (if DNS_REQUEST_SENDING r then [SocketCancel s ISC_SOCKCANCEL_SEND] else []))"

definition req_cancel ::
  "env \<Rightarrow> dns_request \<Rightarrow> action list \<Rightarrow> fault + (dns_request \<times> action list)" where
  "req_cancel E r tr =
     (let r1 = r\<lparr>flags := flags r OR DNS_REQUEST_F_CANCELED\<rparr>;
          tr1 = (if timer r1 then tr @ [TimerDetach] else tr);
          r2 = r1\<lparr>timer := False\<rparr>
      in case dispatch r2 of
           None \<Rightarrow> Inl AssertionFailed
         | Some d \<Rightarrow>
             let tr2 = tr1 @ cancel_actions r2 (cancel_socket E r2 d);
                 tr3 = (case dispentry r2 of
                          None \<Rightarrow> tr2
                        | Some e \<Rightarrow> tr2 @ [DispatchRemoveResponse e])
             in Inr (r2\<lparr>dispentry := None, dispatch := None\<rparr>, tr3 @ [DispatchDetach d]))"

subsection \<open>Event handlers\<close>

definition delayed_result :: "dns_request \<Rightarrow> isc_result" where
  "delayed_result r = (if DNS_REQUEST_TIMEDOUT r then ISC_R_TIMEDOUT else ISC_R_CANCELED)"

definition cancel_and_send ::
  "env \<Rightarrow> dns_request \<Rightarrow> isc_result \<Rightarrow> action list \<Rightarrow> fault + (dns_request \<times> action list)" where
  "cancel_and_send E r result tr =
     (case req_cancel E r tr of
        Inl f \<Rightarrow> Inl f
      | Inr (r', tr') \<Rightarrow> send_if_done r' result tr')"

definition req_connected ::
  "env \<Rightarrow> isc_result \<Rightarrow> dns_request \<Rightarrow> action list \<Rightarrow> fault + (dns_request \<times> action list)" where
  "req_connected E sevent_result r tr =
     (if \<not> DNS_REQUEST_CONNECTING r then Inl AssertionFailed
      else
        let r1 = r\<lparr>flags := flags r AND NOT DNS_REQUEST_F_CONNECTING\<rparr>
        in if DNS_REQUEST_CANCELED r1 then send_if_done r1 (delayed_result r1) tr
           else
             (case dispatch r1 of
                None \<Rightarrow> Inl AssertionFailed
              | Some d \<Rightarrow>
                  let tr1 = tr @ [DispatchStartTcp d]
                  in if sevent_result = ISC_R_SUCCESS
                     then (case req_send E r1 None tr1 of
                             Inl f \<Rightarrow> Inl f
                           | Inr (result, r2, tr2) \<Rightarrow>
                               if result \<noteq> ISC_R_SUCCESS
                               then cancel_and_send E r2 ISC_R_CANCELED tr2
                               else Inr (r2, tr2))
                     else cancel_and_send E r1 ISC_R_CANCELED tr1))"

definition req_senddone ::
  "env \<Rightarrow> isc_result \<Rightarrow> dns_request \<Rightarrow> action list \<Rightarrow> fault + (dns_request \<times> action list)" where
  "req_senddone E sevent_result r tr =
     (if \<not> DNS_REQUEST_SENDING r then Inl AssertionFailed
      else
        let r1 = r\<lparr>flags := flags r AND NOT DNS_REQUEST_F_SENDING\<rparr>
        in if DNS_REQUEST_CANCELED r1 then send_if_done r1 (delayed_result r1) tr
           else if sevent_result \<noteq> ISC_R_SUCCESS
           then cancel_and_send E r1 ISC_R_CANCELED tr
           else Inr (r1, tr))"

text \<open>
  \<open>req_response\<close>: on success the answer buffer is allocated to the size of the received
  region (\<open>isc_buffer_allocate\<close> requires the target pointer to be \<open>NULL\<close>) and the region is
  copied, which cannot fail; \<open>dns_dispatch_removeresponse\<close> requires the entry.
\<close>

definition req_response ::
  "env \<Rightarrow> isc_result \<Rightarrow> byte list \<Rightarrow> dns_request \<Rightarrow> action list
     \<Rightarrow> fault + (dns_request \<times> action list)" where
  "req_response E devent_result buffer r tr =
     (if devent_result = ISC_R_SUCCESS \<and> answer r \<noteq> None then Inl AssertionFailed
      else
        let r1 = (if devent_result = ISC_R_SUCCESS then r\<lparr>answer := Some buffer\<rparr> else r)
        in case dispentry r1 of
             None \<Rightarrow> Inl AssertionFailed
           | Some e \<Rightarrow>
               cancel_and_send E (r1\<lparr>dispentry := None\<rparr>) devent_result
                 (tr @ [DispatchRemoveResponse e]))"

text \<open>
  \<open>req_timeout\<close>.  The guard is \<open>ev_type == ISC_TIMEREVENT_TICK && udpcount-- != 0\<close>: the
  counter is read and decremented (wrapping) exactly when the event is a tick.
\<close>

definition req_timeout ::
  "env \<Rightarrow> isc_eventtype \<Rightarrow> dns_request \<Rightarrow> action list \<Rightarrow> fault + (dns_request \<times> action list)" where
  "req_timeout E ev_type r tr =
     (let tick = (ev_type = ISC_TIMEREVENT_TICK);
          r1 = (if tick then r\<lparr>udpcount := udpcount r - 1\<rparr> else r)
      in if tick \<and> udpcount r \<noteq> 0
         then (if \<not> DNS_REQUEST_SENDING r1
               then (case req_send E r1 (Some (destaddr r1)) tr of
                       Inl f \<Rightarrow> Inl f
                     | Inr (result, r2, tr2) \<Rightarrow>
                         if result \<noteq> ISC_R_SUCCESS
                         then cancel_and_send E r2 result tr2
                         else Inr (r2, tr2))
               else Inr (r1, tr))
         else cancel_and_send E (r1\<lparr>flags := flags r1 OR DNS_REQUEST_F_TIMEDOUT\<rparr>)
                ISC_R_TIMEDOUT tr)"

text \<open>\<open>do_cancel\<close>, the handler of the control event.\<close>

definition do_cancel ::
  "env \<Rightarrow> dns_request \<Rightarrow> action list \<Rightarrow> fault + (dns_request \<times> action list)" where
  "do_cancel E r tr =
     (let r1 = r\<lparr>canceling := False\<rparr>
      in if \<not> DNS_REQUEST_CANCELED r1 then cancel_and_send E r1 ISC_R_CANCELED tr
         else send_if_done r1 ISC_R_CANCELED tr)"

text \<open>
  \<open>dns_request_cancel\<close>: the control event goes to \<open>request->event->ev_sender\<close>, so the
  completion event is dereferenced when the guard holds.
\<close>

definition dns_request_cancel ::
  "dns_request \<Rightarrow> action list \<Rightarrow> fault + (dns_request \<times> action list)" where
  "dns_request_cancel r tr =
     (if \<not> canceling r \<and> \<not> DNS_REQUEST_CANCELED r
      then (case event r of
              None \<Rightarrow> Inl NullDereference
            | Some _ \<Rightarrow> Inr (r\<lparr>canceling := True\<rparr>, tr @ [TaskSendControl]))
      else Inr (r, tr))"

definition dns_request_usedtcp :: "dns_request \<Rightarrow> bool" where
  "dns_request_usedtcp r = (flags r AND DNS_REQUEST_F_TCP \<noteq> 0)"

text \<open>What can happen to an admitted request, and a sequence of such inputs.\<close>

datatype req_input =
    Connected isc_result
  | SendDone isc_result
  | Response isc_result "byte list"
  | Timer isc_eventtype
  | Control
  | Cancel

fun handle :: "env \<Rightarrow> req_input \<Rightarrow> dns_request \<times> action list \<Rightarrow> fault + (dns_request \<times> action list)" where
  "handle E (Connected res) (r, tr) = req_connected E res r tr"
| "handle E (SendDone res) (r, tr) = req_senddone E res r tr"
| "handle E (Response res buf) (r, tr) = req_response E res buf r tr"
| "handle E (Timer ty) (r, tr) = req_timeout E ty r tr"
| "handle E Control (r, tr) = do_cancel E r tr"
| "handle E Cancel (r, tr) = dns_request_cancel r tr"

fun run :: "env \<Rightarrow> req_input list \<Rightarrow> dns_request \<times> action list \<Rightarrow> fault + (dns_request \<times> action list)" where
  "run E [] s = Inr s"
| "run E (i # is) s = (case handle E i s of Inl f \<Rightarrow> Inl f | Inr s' \<Rightarrow> run E is s')"

subsection \<open>The request manager\<close>

definition DNS_REQUEST_NLOCKS :: nat where "DNS_REQUEST_NLOCKS = 7"

text \<open>\<open>mgr_gethash\<close>: the rolling counter is an \<open>unsigned int\<close> and wraps.\<close>

definition mgr_gethash :: "dns_requestmgr \<Rightarrow> dns_requestmgr \<times> nat" where
  "mgr_gethash mgr =
     (let mgr' = mgr\<lparr>mgr_hash := mgr_hash mgr + 1\<rparr>
      in (mgr', unat (mgr_hash mgr') mod DNS_REQUEST_NLOCKS))"

definition send_shutdown_events ::
  "dns_requestmgr \<Rightarrow> action list \<Rightarrow> dns_requestmgr \<times> action list" where
  "send_shutdown_events mgr tr =
     (mgr\<lparr>whenshutdown := []\<rparr>, tr @ map TaskSendShutdown (whenshutdown mgr))"

definition mgr_destroy ::
  "dns_requestmgr \<Rightarrow> action list \<Rightarrow> fault + (dns_requestmgr \<times> action list)" where
  "mgr_destroy mgr tr =
     (if eref mgr \<noteq> 0 \<or> iref mgr \<noteq> 0 then Inl AssertionFailed
      else Inr (mgr\<lparr>dispatchv4 := None, dispatchv6 := None\<rparr>,
                tr @ (case dispatchv4 mgr of None \<Rightarrow> [] | Some d \<Rightarrow> [DispatchDetach d])
                   @ (case dispatchv6 mgr of None \<Rightarrow> [] | Some d \<Rightarrow> [DispatchDetach d])
                   @ [MgrDestroy]))"

text \<open>
  \<open>requestmgr_detach\<close>: the count is decremented and the shutdown events are sent under
  the manager lock; the manager is destroyed after the lock is released.
\<close>

definition requestmgr_detach ::
  "dns_requestmgr \<Rightarrow> action list \<Rightarrow> fault + (dns_requestmgr \<times> action list)" where
  "requestmgr_detach mgr tr =
     (if \<not> iref mgr > 0 then Inl AssertionFailed
      else
        let mgr1 = mgr\<lparr>iref := iref mgr - 1\<rparr>
        in if iref mgr1 = 0 \<and> exiting mgr1
           then (if requests mgr1 \<noteq> [] then Inl AssertionFailed
                 else (case send_shutdown_events mgr1 (tr @ [MgrLock]) of
                         (mgr2, tr2) \<Rightarrow>
                           if eref mgr2 = 0 then mgr_destroy mgr2 (tr2 @ [MgrUnlock])
                           else Inr (mgr2, tr2 @ [MgrUnlock])))
           else Inr (mgr1, tr @ [MgrLock, MgrUnlock]))"

text \<open>
  \<open>new_request\<close> initialises the allocated structure; \<open>hash\<close> and \<open>destaddr\<close> are not
  assigned and keep what \<open>isc_mem_get\<close> returned in them (\<open>h\<close> and \<open>a\<close>).
\<close>

definition new_request :: "nat \<Rightarrow> isc_sockaddr \<Rightarrow> dns_request" where
  "new_request h a =
     \<lparr>hash = h, flags = 0, query = None, answer = None, event = None, dispatch = None,
      dispentry = None, timer = False, requestmgr = False, tsig = None, tsigkey = None,
      canceling = False, destaddr = a, udpcount = 0, dscp = - 1\<rparr>"

text \<open>
  \<open>req_destroy\<close>.  Releasing a buffer or a key has no action of its own; the event, the
  dispatch entry, the dispatch, the timer and the manager are released in this order,
  and the memory of the request is given back last.
\<close>

definition req_destroy ::
  "dns_requestmgr \<Rightarrow> dns_request \<Rightarrow> action list \<Rightarrow> fault + (dns_requestmgr \<times> action list)" where
  "req_destroy mgr r tr =
     (let tr1 = tr @ (if event r \<noteq> None then [EventFree] else [])
                   @ (case dispentry r of None \<Rightarrow> [] | Some e \<Rightarrow> [DispatchRemoveResponse e])
                   @ (case dispatch r of None \<Rightarrow> [] | Some d \<Rightarrow> [DispatchDetach d])
                   @ (if timer r then [TimerDetach] else [])
      in if requestmgr r
         then (case requestmgr_detach mgr tr1 of
                 Inl f \<Rightarrow> Inl f
               | Inr (mgr', tr2) \<Rightarrow> Inr (mgr', tr2 @ [MemPut]))
         else Inr (mgr, tr1 @ [MemPut]))"

subsection \<open>Choosing a dispatch and arming the timer\<close>

definition isblackholed :: "env \<Rightarrow> isc_sockaddr \<Rightarrow> bool" where
  "isblackholed E dest =
     (case getblackhole E of
        None \<Rightarrow> False
      | Some blackhole \<Rightarrow>
          (case acl_match E blackhole dest of
             (result, match) \<Rightarrow> result = ISC_R_SUCCESS \<and> match > 0))"

text \<open>
  The part of \<open>create_tcp_dispatch\<close> after the lookups: a new socket is created, bound
  (to the source address with port 0, or to the wildcard address when there is none) and
  handed to \<open>dns_dispatch_createtcp\<close>; the local socket reference is dropped at \<open>cleanup\<close>.
\<close>

definition new_tcp_dispatch ::
  "env \<Rightarrow> isc_sockaddr option \<Rightarrow> isc_sockaddr \<Rightarrow> int \<Rightarrow> bool \<Rightarrow> action list
     \<Rightarrow> isc_result \<times> bool \<times> dns_dispatch \<times> action list" where
  "new_tcp_dispatch E srcaddr dest dscpv connected tr =
     (case socket_create E tr (sa_family dest) of
        (result, sock) \<Rightarrow>
          let tr1 = tr @ [SocketCreate (sa_family dest)]
          in if result \<noteq> ISC_R_SUCCESS then (result, connected, 0, tr1)
             else
               let bind_to = map_option (\<lambda>s. s\<lparr>sa_port := 0\<rparr>) srcaddr;
                   result2 = socket_bind E tr1 sock;
                   tr2 = tr1 @ [SocketBind sock bind_to]
               in if result2 \<noteq> ISC_R_SUCCESS then (result2, connected, 0, tr2 @ [SocketDetach sock])
                  else
                    let attrs = {DNS_DISPATCHATTR_TCP,
                                 (if sa_family dest = PF_INET then DNS_DISPATCHATTR_IPV4
                                  else DNS_DISPATCHATTR_IPV6),
                                 DNS_DISPATCHATTR_MAKEQUERY};
                        tr3 = tr2 @ [SocketDscp sock dscpv]
                    in (case dispatch_createtcp E tr3 sock attrs of
                          (result3, disp) \<Rightarrow>
                            (result3, connected, disp,
                             tr3 @ [DispatchCreateTcp sock, SocketDetach sock])))"

definition create_tcp_dispatch ::
  "env \<Rightarrow> bool \<Rightarrow> bool \<Rightarrow> isc_sockaddr option \<Rightarrow> isc_sockaddr \<Rightarrow> int \<Rightarrow> bool \<Rightarrow> action list
     \<Rightarrow> isc_result \<times> bool \<times> dns_dispatch \<times> action list" where
  "create_tcp_dispatch E newtcp share srcaddr dest dscpv connected tr =
     (if \<not> newtcp \<and> share
      then (case dispatch_gettcp E tr dest srcaddr True of
              (result, disp, conn) \<Rightarrow>
                if result = ISC_R_SUCCESS
                then (result, conn, disp, tr @ [DispatchGetTcp dest True])
                else new_tcp_dispatch E srcaddr dest dscpv connected
                       (tr @ [DispatchGetTcp dest True]))
      else if \<not> newtcp
      then (case dispatch_gettcp E tr dest srcaddr False of
              (result, disp, conn) \<Rightarrow>
                if result = ISC_R_SUCCESS
                then (result, True, disp, tr @ [DispatchGetTcp dest False])
                else new_tcp_dispatch E srcaddr dest dscpv connected
                       (tr @ [DispatchGetTcp dest False]))
      else new_tcp_dispatch E srcaddr dest dscpv connected tr)"

definition find_udp_dispatch ::
  "env \<Rightarrow> dns_requestmgr \<Rightarrow> isc_sockaddr option \<Rightarrow> isc_sockaddr \<Rightarrow> action list
     \<Rightarrow> isc_result \<times> dns_dispatch \<times> action list" where
  "find_udp_dispatch E mgr srcaddr dest tr =
     (case srcaddr of
        None \<Rightarrow>
          (case sa_family dest of
             PF_OTHER _ \<Rightarrow> (ISC_R_NOTIMPLEMENTED, 0, tr)
           | fam \<Rightarrow>
               (case (if fam = PF_INET then dispatchv4 mgr else dispatchv6 mgr) of
                  None \<Rightarrow> (ISC_R_FAMILYNOSUPPORT, 0, tr)
                | Some disp \<Rightarrow> (ISC_R_SUCCESS, disp, tr @ [DispatchAttach disp])))
      | Some src \<Rightarrow>
          (case sa_family src of
             PF_OTHER _ \<Rightarrow> (ISC_R_NOTIMPLEMENTED, 0, tr)
           | fam \<Rightarrow>
               (case dispatch_getudp E tr src
                       {DNS_DISPATCHATTR_UDP,
                        (if fam = PF_INET then DNS_DISPATCHATTR_IPV4 else DNS_DISPATCHATTR_IPV6)} of
                  (result, disp) \<Rightarrow> (result, disp, tr @ [DispatchGetUdp src]))))"

definition get_dispatch ::
  "env \<Rightarrow> bool \<Rightarrow> bool \<Rightarrow> bool \<Rightarrow> dns_requestmgr \<Rightarrow> isc_sockaddr option \<Rightarrow> isc_sockaddr \<Rightarrow> int
     \<Rightarrow> bool \<Rightarrow> action list \<Rightarrow> isc_result \<times> bool \<times> dns_dispatch \<times> action list" where
  "get_dispatch E tcp newtcp share mgr srcaddr dest dscpv connected tr =
     (if tcp then create_tcp_dispatch E newtcp share srcaddr dest dscpv connected tr
      else (case find_udp_dispatch E mgr srcaddr dest tr of
              (result, disp, tr') \<Rightarrow> (result, connected, disp, tr')))"

text \<open>
  \<open>set_timer\<close>: the expiry is the current time plus \<open>timeout\<close> seconds, the interval is
  \<open>udpresend\<close> seconds; \<open>TimerReset ty timeout udpresend\<close> records the call of
  \<open>isc_timer_reset\<close>.
\<close>

definition set_timer :: "env \<Rightarrow> uint \<Rightarrow> uint \<Rightarrow> action list \<Rightarrow> isc_result \<times> action list" where
  "set_timer E timeout udpresend tr =
     (let result = time_nowplusinterval E tr timeout;
          timertype = (if udpresend \<noteq> 0 then isc_timertype_limited else isc_timertype_once)
      in if result = ISC_R_SUCCESS
         then (timer_reset E tr, tr @ [TimerReset timertype timeout udpresend])
         else (result, tr))"

subsection \<open>The factories\<close>

text \<open>
  What a factory returns: the result code, the request handed back through \<open>requestp\<close>
  (only on success), the manager and the history afterwards.
\<close>

record creation =
  cr_result :: isc_result
  cr_request :: "dns_request option"
  cr_mgr :: dns_requestmgr
  cr_trace :: "action list"

text \<open>The labels \<open>cleanup\<close> and \<open>unlink\<close> shared by both factories.\<close>

definition cleanup ::
  "dns_requestmgr \<Rightarrow> dns_request \<Rightarrow> bool \<Rightarrow> isc_result \<Rightarrow> action list \<Rightarrow> fault + creation" where
  "cleanup mgr r tclone result tr =
     (case req_destroy mgr r (if tclone then tr @ [TaskDetach] else tr) of
        Inl f \<Rightarrow> Inl f
      | Inr (mgr', tr') \<Rightarrow>
          Inr \<lparr>cr_result = result, cr_request = None, cr_mgr = mgr', cr_trace = tr'\<rparr>)"

definition unlink ::
  "nat \<Rightarrow> dns_requestmgr \<Rightarrow> dns_request \<Rightarrow> isc_result \<Rightarrow> action list \<Rightarrow> fault + creation" where
  "unlink p mgr r result tr =
     cleanup (mgr\<lparr>requests := remove1 p (requests mgr)\<rparr>) r True result
       (tr @ [MgrLock, MgrUnlock])"

text \<open>
  The retransmission period, computed on \<open>unsigned int\<close> in both factories:
  \<open>udpretries + 1\<close> wraps to 0 at \<open>UINT_MAX\<close>, and the division by it is then undefined.
\<close>

definition derive_udptimeout :: "uint \<Rightarrow> uint \<Rightarrow> uint \<Rightarrow> fault + uint" where
  "derive_udptimeout timeout udptimeout udpretries =
     (if udptimeout = 0 \<and> udpretries \<noteq> 0
      then (if udpretries + 1 = 0 then Inl DivideByZero
            else
              let u = timeout div (udpretries + 1)
              in Inr (if u = 0 then 1 else u))
      else Inr udptimeout)"

text \<open>\<open>isc_buffer_putuint16\<close> stores the high byte first.\<close>

definition putuint16 :: "16 word \<Rightarrow> byte list" where
  "putuint16 v = [ucast (drop_bit 8 v), ucast v]"

text \<open>
  The query buffer of \<open>dns_request_createraw\<close>: the length prefix on TCP, the copied
  message, and the message ID stored into the first two bytes after the prefix.
\<close>

definition raw_query :: "bool \<Rightarrow> dns_messageid \<Rightarrow> byte list \<Rightarrow> byte list" where
  "raw_query tcp msgid msg =
     (let q = (if tcp then putuint16 (of_nat (length msg)) else []) @ msg;
          off = (if tcp then 2 else 0)
      in q[off := ucast (drop_bit 8 msgid AND 0xff), off + 1 := ucast (msgid AND 0xff)])"

text \<open>
  The section of \<open>dns_request_createraw\<close> from the label \<open>again\<close> to the registration of
  the response slot; the jump back to \<open>again\<close> is the recursive call.
\<close>

datatype registration =
    Registered dns_request bool dns_messageid "action list"
  | NotRegistered isc_result dns_request "action list"

function raw_again ::
  "env \<Rightarrow> dns_requestmgr \<Rightarrow> bool \<Rightarrow> bool \<Rightarrow> isc_sockaddr option \<Rightarrow> isc_sockaddr \<Rightarrow> int \<Rightarrow> bool
     \<Rightarrow> byte list \<Rightarrow> bool \<Rightarrow> bool \<Rightarrow> dns_request \<Rightarrow> action list \<Rightarrow> registration" where
  "raw_again E mgr tcp share srcaddr dest dscpv fixedid msg newtcp connected r tr =
     (case get_dispatch E tcp newtcp share mgr srcaddr dest dscpv connected tr of
        (result, connected1, disp, tr1) \<Rightarrow>
          if result \<noteq> ISC_R_SUCCESS then NotRegistered result r tr1
          else
            let r1 = r\<lparr>dispatch := Some disp\<rparr>;
                idin = (if fixedid
                        then Some (push_bit 8 (ucast (msg ! 0)) OR ucast (msg ! 1))
                        else None)
            in (case dispatch_addresponse E tr1 disp idin of
                  (result2, msgid, entry) \<Rightarrow>
                    let tr2 = tr1 @ [DispatchAddResponse disp idin]
                    in if result2 \<noteq> ISC_R_SUCCESS
                       then (if fixedid \<and> \<not> newtcp
                             then raw_again E mgr tcp share srcaddr dest dscpv fixedid msg
                                    True False (r1\<lparr>dispatch := None\<rparr>)
                                    (tr2 @ [DispatchDetach disp])
                             else NotRegistered result2 r1 tr2)
                       else Registered (r1\<lparr>dispentry := Some entry\<rparr>) connected1 msgid tr2))"
  by pat_completeness auto
termination
  by (relation "measure (\<lambda>(E, mgr, tcp, share, srcaddr, dest, dscpv, fixedid, msg, newtcp,
        connected, r, tr). if newtcp then 0 else 1)") auto

declare raw_again.simps [simp del]

text \<open>
  Admission, between \<open>LOCK\<close> and \<open>UNLOCK\<close> of the manager lock in both factories:
  refused when the manager is exiting, otherwise \<open>requestmgr_attach\<close>, \<open>mgr_gethash\<close>
  and \<open>ISC_LIST_APPEND\<close>.  No library is called while the lock is held.
\<close>

definition admit ::
  "nat \<Rightarrow> dns_requestmgr \<Rightarrow> dns_request \<Rightarrow> action list
     \<Rightarrow> (dns_requestmgr \<times> dns_request) option \<times> action list" where
  "admit p mgr r tr =
     (if exiting mgr then (None, tr @ [MgrLock, MgrUnlock])
      else (case mgr_gethash (mgr\<lparr>iref := iref mgr + 1\<rparr>) of
              (mgr1, h) \<Rightarrow>
                (Some (mgr1\<lparr>requests := requests mgr1 @ [p]\<rparr>,
                       r\<lparr>requestmgr := True, hash := h\<rparr>),
                 tr @ [MgrLock, MgrUnlock])))"

text \<open>
  The end of both factories: \<open>set_timer\<close>, then \<open>isc_socket_connect\<close> on a TCP dispatch
  that is not connected yet, \<open>req_send\<close> otherwise.
\<close>

definition arm_and_start ::
  "env \<Rightarrow> nat \<Rightarrow> dns_requestmgr \<Rightarrow> dns_request \<Rightarrow> bool \<Rightarrow> bool \<Rightarrow> uint \<Rightarrow> uint \<Rightarrow> isc_sockaddr
     \<Rightarrow> isc_socket \<Rightarrow> action list \<Rightarrow> fault + creation" where
  "arm_and_start E p mgr r tcp connected timeout udptimeout dest sock tr =
     (case set_timer E timeout (if tcp then 0 else udptimeout) tr of
        (result, tr1) \<Rightarrow>
          if result \<noteq> ISC_R_SUCCESS then unlink p mgr r result tr1
          else
            let r1 = r\<lparr>destaddr := dest\<rparr>
            in if tcp \<and> \<not> connected
               then (let result2 = socket_connect E tr1;
                         tr2 = tr1 @ [SocketConnect sock dest]
                     in if result2 \<noteq> ISC_R_SUCCESS then unlink p mgr r1 result2 tr2
                        else Inr \<lparr>cr_result = ISC_R_SUCCESS,
                                  cr_request = Some (r1\<lparr>flags := flags r1 OR
                                    (DNS_REQUEST_F_CONNECTING OR DNS_REQUEST_F_TCP)\<rparr>),
                                  cr_mgr = mgr, cr_trace = tr2\<rparr>)
               else (case req_send E r1 (if connected then None else Some dest) tr1 of
                       Inl f \<Rightarrow> Inl f
                     | Inr (result3, r2, tr3) \<Rightarrow>
                         if result3 \<noteq> ISC_R_SUCCESS then unlink p mgr r2 result3 tr3
                         else Inr \<lparr>cr_result = ISC_R_SUCCESS, cr_request = Some r2,
                                   cr_mgr = mgr, cr_trace = tr3\<rparr>))"

definition DNS_MESSAGE_HEADERLEN :: nat where "DNS_MESSAGE_HEADERLEN = 12"

text \<open>
  \<open>dns_request_createraw\<close>.  \<open>msgbuf\<close> is the used region of the caller's buffer and \<open>tr\<close>
  the history at the call; the task, the action and its argument only travel with the
  events and are left out.
\<close>

definition dns_request_createraw ::
  "env \<Rightarrow> dns_requestmgr \<Rightarrow> byte list \<Rightarrow> isc_sockaddr option \<Rightarrow> isc_sockaddr \<Rightarrow> int
     \<Rightarrow> requestopt set \<Rightarrow> uint \<Rightarrow> uint \<Rightarrow> uint \<Rightarrow> action list \<Rightarrow> fault + creation" where
  "dns_request_createraw E mgr msgbuf srcaddr dest dscpv options timeout udptimeout udpretries tr =
     (if \<not> timeout > 0 then Inl AssertionFailed
      else if (case srcaddr of None \<Rightarrow> False | Some s \<Rightarrow> sa_family s \<noteq> sa_family dest)
      then Inl AssertionFailed
      else if isblackholed E dest
      then Inr \<lparr>cr_result = DNS_R_BLACKHOLED, cr_request = None, cr_mgr = mgr, cr_trace = tr\<rparr>
      else
        (case mem_get E tr of
           (p, h, a) \<Rightarrow>
        (case derive_udptimeout timeout udptimeout udpretries of
           Inl f \<Rightarrow> Inl f
         | Inr udptimeout1 \<Rightarrow>
             let r0 = (new_request h a)\<lparr>udpcount := udpretries, dscp := dscpv\<rparr>;
                 tr0 = tr @ [MemGet]
             in if timer_create E tr0 \<noteq> ISC_R_SUCCESS
                then cleanup mgr r0 False (timer_create E tr0) (tr0 @ [TimerCreate])
                else
                  let r1 = r0\<lparr>timer := True, event := Some ISC_R_FAILURE\<rparr>;
                      tr1 = tr0 @ [TimerCreate, EventAllocate, TaskAttach]
                  in if length msgbuf < DNS_MESSAGE_HEADERLEN \<or> length msgbuf > 65535
                     then cleanup mgr r1 True DNS_R_FORMERR tr1
                     else
                       let tcp = (DNS_REQUESTOPT_TCP \<in> options \<or> length msgbuf > 512);
                           share = (DNS_REQUESTOPT_SHARE \<in> options)
                       in (case raw_again E mgr tcp share srcaddr dest dscpv
                                  (DNS_REQUESTOPT_FIXEDID \<in> options) msgbuf False False r1 tr1 of
                             NotRegistered result r2 tr2 \<Rightarrow> cleanup mgr r2 True result tr2
                           | Registered r2 connected msgid tr2 \<Rightarrow>
                               (case req_getsocket E r2 of
                                  Inl f \<Rightarrow> Inl f
                                | Inr None \<Rightarrow> Inl AssertionFailed
                                | Inr (Some sock) \<Rightarrow>
                                    let r3 = r2\<lparr>query := Some (raw_query tcp msgid msgbuf)\<rparr>
                                    in (case admit p mgr r3 tr2 of
                                          (None, tr3) \<Rightarrow>
                                            cleanup mgr r3 True ISC_R_SHUTTINGDOWN tr3
                                        | (Some (mgr1, r4), tr3) \<Rightarrow>
                                            arm_and_start E p mgr1 r4 tcp connected timeout
                                              udptimeout1 dest sock tr3))))))"

text \<open>
  \<open>req_render\<close>.  The four sections are rendered by the message library into a buffer of
  65535 bytes, so a longer rendering ends as \<open>ISC_R_NOSPACE\<close>; the result is copied to a
  buffer of the exact size, behind the length prefix on TCP.
\<close>

definition req_render ::
  "env \<Rightarrow> dns_messageid \<Rightarrow> requestopt set \<Rightarrow> action list
     \<Rightarrow> isc_result \<times> byte list \<times> action list" where
  "req_render E msgid options tr =
     (if compress_init E tr \<noteq> ISC_R_SUCCESS then (compress_init E tr, [], tr)
      else
        (case message_render E tr msgid (DNS_REQUESTOPT_CASE \<in> options) of
           (result, rendered) \<Rightarrow>
             let tr1 = tr @ [MessageRender (DNS_REQUESTOPT_CASE \<in> options)]
             in if result \<noteq> ISC_R_SUCCESS then (result, [], tr1 @ [MessageRenderReset])
                else if length rendered > 65535
                then (ISC_R_NOSPACE, [], tr1 @ [MessageRenderReset])
                else if DNS_REQUESTOPT_TCP \<notin> options \<and> length rendered > 512
                then (DNS_R_USETCP, [], tr1 @ [MessageRenderReset])
                else (ISC_R_SUCCESS,
                      (if DNS_REQUESTOPT_TCP \<in> options
                       then putuint16 (of_nat (length rendered)) else []) @ rendered,
                      tr1)))"

text \<open>
  The section of \<open>dns_request_createvia\<close> from the label \<open>use_tcp\<close> to the rendering of
  the query; the jump back to \<open>use_tcp\<close> is the recursive call.
\<close>

datatype rendering =
    Rendered dns_request bool bool isc_socket "action list"
  | NotRendered isc_result dns_request "action list"

function via_use_tcp ::
  "env \<Rightarrow> dns_requestmgr \<Rightarrow> isc_sockaddr option \<Rightarrow> isc_sockaddr \<Rightarrow> int \<Rightarrow> requestopt set
     \<Rightarrow> bool \<Rightarrow> bool \<Rightarrow> dns_request \<Rightarrow> action list \<Rightarrow> fault + rendering" where
  "via_use_tcp E mgr srcaddr dest dscpv options settsigkey connected r tr =
     (let tcp = (DNS_REQUESTOPT_TCP \<in> options);
          share = (DNS_REQUESTOPT_SHARE \<in> options)
      in case get_dispatch E tcp False share mgr srcaddr dest dscpv connected tr of
           (result, connected1, disp, tr1) \<Rightarrow>
             if result \<noteq> ISC_R_SUCCESS then Inr (NotRendered result r tr1)
             else
               let r1 = r\<lparr>dispatch := Some disp\<rparr>
               in (case dispatch_addresponse E tr1 disp None of
                     (result2, msgid, entry) \<Rightarrow>
                       let tr2 = tr1 @ [DispatchAddResponse disp None]
                       in if result2 \<noteq> ISC_R_SUCCESS then Inr (NotRendered result2 r1 tr2)
                          else
                            let r2 = r1\<lparr>dispentry := Some entry\<rparr>
                            in (case req_getsocket E r2 of
                                  Inl f \<Rightarrow> Inl f
                                | Inr None \<Rightarrow> Inl AssertionFailed
                                | Inr (Some sock) \<Rightarrow>
                                    let result3 = (if settsigkey then message_settsigkey E tr2
                                                   else ISC_R_SUCCESS);
                                        tr3 = (if settsigkey then tr2 @ [MessageSetTsigKey]
                                               else tr2)
                                    in if result3 \<noteq> ISC_R_SUCCESS
                                       then Inr (NotRendered result3 r2 tr3)
                                       else
                                         (case req_render E msgid options tr3 of
                                            (result4, buf, tr4) \<Rightarrow>
                                              if result4 = DNS_R_USETCP
                                                 \<and> DNS_REQUESTOPT_TCP \<notin> options
                                              then via_use_tcp E mgr srcaddr dest dscpv
                                                     (insert DNS_REQUESTOPT_TCP options) False
                                                     connected1
                                                     (r2\<lparr>dispentry := None, dispatch := None\<rparr>)
                                                     (tr4 @ [MessageRenderReset,
                                                             DispatchRemoveResponse entry,
                                                             DispatchDetach disp])
                                              else if result4 \<noteq> ISC_R_SUCCESS
                                              then Inr (NotRendered result4 r2 tr4)
                                              else Inr (Rendered (r2\<lparr>query := Some buf\<rparr>)
                                                          tcp connected1 sock tr4)))))"
  by pat_completeness auto
termination
  by (relation "measure (\<lambda>(E, mgr, srcaddr, dest, dscpv, options, settsigkey, connected, r, tr).
        if DNS_REQUESTOPT_TCP \<in> options then 0 else 1)") auto

declare via_use_tcp.simps [simp del]

text \<open>
  \<open>dns_request_createvia\<close>.  The message is the one the environment renders; \<open>key\<close> is
  the optional TSIG key.
\<close>

definition dns_request_createvia ::
  "env \<Rightarrow> dns_requestmgr \<Rightarrow> isc_sockaddr option \<Rightarrow> isc_sockaddr \<Rightarrow> int \<Rightarrow> requestopt set
     \<Rightarrow> nat option \<Rightarrow> uint \<Rightarrow> uint \<Rightarrow> uint \<Rightarrow> action list \<Rightarrow> fault + creation" where
  "dns_request_createvia E mgr srcaddr dest dscpv options key timeout udptimeout udpretries tr =
     (if \<not> timeout > 0 then Inl AssertionFailed
      else if (case srcaddr of None \<Rightarrow> False | Some s \<Rightarrow> sa_family s \<noteq> sa_family dest)
      then Inr \<lparr>cr_result = ISC_R_FAMILYMISMATCH, cr_request = None, cr_mgr = mgr,
                cr_trace = tr\<rparr>
      else if isblackholed E dest
      then Inr \<lparr>cr_result = DNS_R_BLACKHOLED, cr_request = None, cr_mgr = mgr, cr_trace = tr\<rparr>
      else
        (case mem_get E tr of
           (p, h, a) \<Rightarrow>
        (case derive_udptimeout timeout udptimeout udpretries of
           Inl f \<Rightarrow> Inl f
         | Inr udptimeout1 \<Rightarrow>
             let r0 = (new_request h a)\<lparr>udpcount := udpretries, dscp := dscpv\<rparr>;
                 tr0 = tr @ [MemGet]
             in if timer_create E tr0 \<noteq> ISC_R_SUCCESS
                then cleanup mgr r0 False (timer_create E tr0) (tr0 @ [TimerCreate])
                else
                  let r1 = r0\<lparr>timer := True, event := Some ISC_R_FAILURE, tsigkey := key\<rparr>;
                      tr1 = tr0 @ [TimerCreate, EventAllocate, TaskAttach]
                  in (case via_use_tcp E mgr srcaddr dest dscpv options True False r1 tr1 of
                        Inl f \<Rightarrow> Inl f
                      | Inr (NotRendered result r2 tr2) \<Rightarrow> cleanup mgr r2 True result tr2
                      | Inr (Rendered r2 tcp connected sock tr2) \<Rightarrow>
                          (case message_getquerytsig E tr2 of
                             (result, querytsig) \<Rightarrow>
                               if result \<noteq> ISC_R_SUCCESS then cleanup mgr r2 True result tr2
                               else
                                 let r3 = r2\<lparr>tsig := querytsig\<rparr>
                                 in (case admit p mgr r3 tr2 of
                                       (None, tr3) \<Rightarrow>
                                         cleanup mgr r3 True ISC_R_SHUTTINGDOWN tr3
                                     | (Some (mgr1, r4), tr3) \<Rightarrow>
                                         arm_and_start E p mgr1 r4 tcp connected timeout
                                           udptimeout1 dest sock tr3))))))"


subsection \<open>Observations on a history\<close>

text \<open>
  The number of completion events and of control events in a history, the actions that
  put a request to work (arming the timer, connecting, sending, posting an event), and
  whether a TCP dispatch was looked up or a TCP socket created.
\<close>

definition completions :: "action list \<Rightarrow> nat" where
  "completions tr = length (filter (\<lambda>a. case a of TaskSendAndDetach _ \<Rightarrow> True | _ \<Rightarrow> False) tr)"

definition controls :: "action list \<Rightarrow> nat" where
  "controls tr = count_list tr TaskSendControl"

definition engages :: "action \<Rightarrow> bool" where
  "engages a =
     (case a of
        TimerReset _ _ _ \<Rightarrow> True
      | SocketConnect _ _ \<Rightarrow> True
      | SocketSendto _ _ _ \<Rightarrow> True
      | TaskSendAndDetach _ \<Rightarrow> True
      | TaskSendControl \<Rightarrow> True
      | _ \<Rightarrow> False)"

definition tcp_acquired :: "action list \<Rightarrow> bool" where
  "tcp_acquired tr =
     list_ex (\<lambda>a. case a of DispatchGetTcp _ _ \<Rightarrow> True | SocketCreate _ \<Rightarrow> True | _ \<Rightarrow> False) tr"

definition preparing :: "action list \<Rightarrow> bool" where
  "preparing tr = (filter engages tr = [])"

text \<open>
  A stretch of history in which nothing is put to work and the manager lock is not
  taken.
\<close>

definition staging :: "action list \<Rightarrow> bool" where
  "staging tr = (preparing tr \<and> MgrLock \<notin> set tr)"

text \<open>A cancel has been asked for: the control event is outstanding or has been handled.\<close>

definition cancel_requested :: "dns_request \<Rightarrow> bool" where
  "cancel_requested r = (canceling r \<or> DNS_REQUEST_CANCELED r)"

text \<open>
  The control paths of the handlers that end in a call of \<open>send_if_done\<close>: a connect or
  send completion on a canceled request or with a failure, every response, a timer
  event that is not a retransmission tick (or whose retransmission cannot be sent), and
  the control event.
\<close>

fun reaches_send_if_done :: "env \<Rightarrow> req_input \<Rightarrow> dns_request \<Rightarrow> action list \<Rightarrow> bool" where
  "reaches_send_if_done E (Connected res) r tr =
     (DNS_REQUEST_CANCELED r \<or> res \<noteq> ISC_R_SUCCESS
      \<or> (case dispatch r of
            None \<Rightarrow> False
          | Some d \<Rightarrow> \<not> socket_socketevent E (tr @ [DispatchStartTcp d])))"
| "reaches_send_if_done E (SendDone res) r tr = (DNS_REQUEST_CANCELED r \<or> res \<noteq> ISC_R_SUCCESS)"
| "reaches_send_if_done E (Response res buf) r tr = True"
| "reaches_send_if_done E (Timer ty) r tr =
     (ty \<noteq> ISC_TIMEREVENT_TICK \<or> udpcount r = 0
      \<or> (\<not> DNS_REQUEST_SENDING r \<and> \<not> socket_socketevent E tr))"
| "reaches_send_if_done E Control r tr = True"
| "reaches_send_if_done E Cancel r tr = False"

text \<open>
  A query buffer as \<open>req_render\<close> builds it from some successful rendering of the message.
\<close>

definition rendered_query :: "env \<Rightarrow> bool \<Rightarrow> bool \<Rightarrow> byte list \<Rightarrow> bool" where
  "rendered_query E case_sensitive tcp buf =
     (\<exists>h msgid wire. message_render E h msgid case_sensitive = (ISC_R_SUCCESS, wire)
        \<and> length wire \<le> 65535 \<and> (\<not> tcp \<longrightarrow> length wire \<le> 512)
        \<and> buf = (if tcp then putuint16 (of_nat (length wire)) else []) @ wire)"

subsection \<open>A concrete environment\<close>

text \<open>
  An environment in which every library call succeeds, with a manager that has an IPv4
  dispatch, a twelve-byte query and a request that waits for its response; they are the
  inputs at which the theorems below are instantiated.
\<close>

definition env0 :: env where
  "env0 =
     \<lparr>getblackhole = None,
      acl_match = (\<lambda>_ _. (ISC_R_SUCCESS, 0)),
      mem_get = (\<lambda>_. (100, 0, \<lparr>sa_family = PF_OTHER 0, sa_host = 0, sa_port = 0\<rparr>)),
      timer_create = (\<lambda>_. ISC_R_SUCCESS),
      dispatch_gettcp = (\<lambda>_ _ _ _. (ISC_R_FAILURE, 0, False)),
      socket_create = (\<lambda>_ _. (ISC_R_SUCCESS, 7)),
      socket_bind = (\<lambda>_ _. ISC_R_SUCCESS),
      dispatch_createtcp = (\<lambda>_ _ _. (ISC_R_SUCCESS, 3)),
      dispatch_getudp = (\<lambda>_ _ _. (ISC_R_SUCCESS, 4)),
      dispatch_addresponse =
        (\<lambda>_ _ idin. (ISC_R_SUCCESS, (case idin of None \<Rightarrow> 0xBEEF | Some i \<Rightarrow> i), 5)),
      dispatch_getattributes = (\<lambda>_. {}),
      dispatch_getsocket = (\<lambda>_. Some 7),
      dispatch_getentrysocket = (\<lambda>_. Some 8),
      time_nowplusinterval = (\<lambda>_ _. ISC_R_SUCCESS),
      timer_reset = (\<lambda>_. ISC_R_SUCCESS),
      socket_connect = (\<lambda>_. ISC_R_SUCCESS),
      socket_socketevent = (\<lambda>_. True),
      socket_sendto2 = (\<lambda>_. ISC_R_SUCCESS),
      message_settsigkey = (\<lambda>_. ISC_R_SUCCESS),
      compress_init = (\<lambda>_. ISC_R_SUCCESS),
      message_render =
        (\<lambda>_ msgid _. (ISC_R_SUCCESS,
           [ucast (drop_bit 8 msgid), ucast msgid, 1, 0, 0, 1, 0, 0, 0, 0, 0, 0])),
      message_getquerytsig = (\<lambda>_. (ISC_R_SUCCESS, None))\<rparr>"

definition dest0 :: isc_sockaddr where
  "dest0 = \<lparr>sa_family = PF_INET, sa_host = 2130706433, sa_port = 53\<rparr>"

definition mgr0 :: dns_requestmgr where
  "mgr0 = \<lparr>eref = 1, iref = 0, dispatchv4 = Some 1, dispatchv6 = None, exiting = False,
            whenshutdown = [], mgr_hash = 0, requests = []\<rparr>"

definition msg0 :: "byte list" where
  "msg0 = [0x12, 0x34, 1, 0, 0, 1, 0, 0, 0, 0, 0, 0]"

definition waiting_request :: dns_request where
  "waiting_request =
     \<lparr>hash = 1, flags = 0, query = Some msg0, answer = None, event = Some ISC_R_FAILURE,
      dispatch = Some 1, dispentry = Some 5, timer = True, requestmgr = True, tsig = None,
      tsigkey = None, canceling = False, destaddr = dest0, udpcount = 2, dscp = - 1\<rparr>"

definition sending_request :: dns_request where
  "sending_request = waiting_request\<lparr>flags := DNS_REQUEST_F_SENDING\<rparr>"


text \<open>
  Variations: a manager that is exiting, a dispatcher that hands out a TCP dispatch
  which is already connected, and dispatchers whose shared TCP dispatch (number 3) is
  connected but refuses the registration of the response, the dispatch created
  afterwards being number 6, on which the registration succeeds or fails as well.
\<close>

definition mgr_exiting :: dns_requestmgr where
  "mgr_exiting = mgr0\<lparr>exiting := True\<rparr>"

definition env_connected :: env where
  "env_connected = env0\<lparr>dispatch_gettcp := (\<lambda>_ _ _ _. (ISC_R_SUCCESS, 9, True))\<rparr>"

definition env_collision :: env where
  "env_collision =
     env0\<lparr>dispatch_gettcp := (\<lambda>_ _ _ _. (ISC_R_SUCCESS, 3, True)),
          dispatch_createtcp := (\<lambda>_ _ _. (ISC_R_SUCCESS, 6)),
          dispatch_addresponse :=
            (\<lambda>_ d idin. if d = 3 then (ISC_R_OTHER 1, 0, 0)
                        else (ISC_R_SUCCESS, (case idin of None \<Rightarrow> 0xBEEF | Some i \<Rightarrow> i), 5))\<rparr>"

definition env_collision_twice :: env where
  "env_collision_twice =
     env_collision\<lparr>dispatch_addresponse := (\<lambda>_ _ _. (ISC_R_OTHER 1, 0, 0))\<rparr>"

text \<open>The payloads handed to \<open>isc_socket_sendto2\<close> in a history, in order.\<close>

definition payloads :: "action list \<Rightarrow> byte list list" where
  "payloads tr = concat (map (\<lambda>a. case a of SocketSendto _ q _ \<Rightarrow> [q] | _ \<Rightarrow> []) tr)"



section \<open>Properties\<close>

subsection \<open>The flag word\<close>

lemma or_and_same: "(f OR m) AND m = (m::uint)"
  by (rule bit_eqI) (auto simp add: bit_simps)

lemma and_not_and_same: "(f AND NOT m) AND m = (0::uint)"
  by (rule bit_eqI) (auto simp add: bit_simps)

lemma or_and_other: "a AND b = 0 \<Longrightarrow> (f OR a) AND b = f AND (b::uint)"
  by (simp add: bit.conj_disj_distrib2)

lemma and_not_and_other: "a AND b = 0 \<Longrightarrow> (f AND NOT a) AND b = f AND (b::uint)"
proof -
  assume h: "a AND b = 0"
  have "\<And>n. \<not> (bit a n \<and> bit b n)"
  proof -
    fix n
    have "bit (a AND b) n = False" using h by simp
    then show "\<not> (bit a n \<and> bit b n)" by (simp add: bit_simps)
  qed
  then show ?thesis
    by (intro bit_eqI) (auto simp add: bit_simps)
qed

lemmas flag_defs = DNS_REQUEST_F_CONNECTING_def DNS_REQUEST_F_SENDING_def
  DNS_REQUEST_F_CANCELED_def DNS_REQUEST_F_TIMEDOUT_def DNS_REQUEST_F_TCP_def

lemmas test_defs = DNS_REQUEST_CANCELED_def DNS_REQUEST_CONNECTING_def
  DNS_REQUEST_SENDING_def DNS_REQUEST_TIMEDOUT_def dns_request_usedtcp_def

lemma flag_disjoint:
  "DNS_REQUEST_F_CONNECTING AND DNS_REQUEST_F_SENDING = 0"
  "DNS_REQUEST_F_CONNECTING AND DNS_REQUEST_F_CANCELED = 0"
  "DNS_REQUEST_F_CONNECTING AND DNS_REQUEST_F_TIMEDOUT = 0"
  "DNS_REQUEST_F_CONNECTING AND DNS_REQUEST_F_TCP = 0"
  "DNS_REQUEST_F_SENDING AND DNS_REQUEST_F_CONNECTING = 0"
  "DNS_REQUEST_F_SENDING AND DNS_REQUEST_F_CANCELED = 0"
  "DNS_REQUEST_F_SENDING AND DNS_REQUEST_F_TIMEDOUT = 0"
  "DNS_REQUEST_F_SENDING AND DNS_REQUEST_F_TCP = 0"
  "DNS_REQUEST_F_CANCELED AND DNS_REQUEST_F_CONNECTING = 0"
  "DNS_REQUEST_F_CANCELED AND DNS_REQUEST_F_SENDING = 0"
  "DNS_REQUEST_F_CANCELED AND DNS_REQUEST_F_TIMEDOUT = 0"
  "DNS_REQUEST_F_CANCELED AND DNS_REQUEST_F_TCP = 0"
  "DNS_REQUEST_F_TIMEDOUT AND DNS_REQUEST_F_CONNECTING = 0"
  "DNS_REQUEST_F_TIMEDOUT AND DNS_REQUEST_F_SENDING = 0"
  "DNS_REQUEST_F_TIMEDOUT AND DNS_REQUEST_F_CANCELED = 0"
  "DNS_REQUEST_F_TIMEDOUT AND DNS_REQUEST_F_TCP = 0"
  by (simp_all add: flag_defs)

lemma flag_nonzero:
  "DNS_REQUEST_F_CONNECTING \<noteq> 0" "DNS_REQUEST_F_SENDING \<noteq> 0"
  "DNS_REQUEST_F_CANCELED \<noteq> 0" "DNS_REQUEST_F_TIMEDOUT \<noteq> 0" "DNS_REQUEST_F_TCP \<noteq> 0"
  by (simp_all add: flag_defs)

lemmas flag_simps = or_and_same and_not_and_same flag_nonzero
  flag_disjoint [THEN or_and_other] flag_disjoint [THEN and_not_and_other]

subsection \<open>Histories and the helpers of a request\<close>

lemma completions_simps [simp]:
  "completions [] = 0"
  "completions (xs @ ys) = completions xs + completions ys"
  "completions (a # xs) = (case a of TaskSendAndDetach _ \<Rightarrow> 1 | _ \<Rightarrow> 0) + completions xs"
  by (simp_all add: completions_def split: action.splits)

lemma controls_simps [simp]:
  "controls [] = 0"
  "controls (xs @ ys) = controls xs + controls ys"
  "controls (a # xs) = (if a = TaskSendControl then 1 else 0) + controls xs"
  by (simp_all add: controls_def)

lemma completions_cancel_actions [simp]: "completions (cancel_actions r s) = 0"
  by (simp add: cancel_actions_def split: option.splits)

lemma controls_cancel_actions [simp]: "controls (cancel_actions r s) = 0"
  by (simp add: cancel_actions_def split: option.splits)

lemma send_if_done_eq:
  "send_if_done r res tr =
     Inr (if event r \<noteq> None \<and> \<not> canceling r
          then (r\<lparr>event := None\<rparr>, tr @ [TaskSendAndDetach res]) else (r, tr))"
  by (auto simp: send_if_done_def req_sendevent_def split: option.splits)

lemma req_cancel_Inr:
  assumes "req_cancel E r tr = Inr (r', tr')"
  shows "r' = r\<lparr>flags := flags r OR DNS_REQUEST_F_CANCELED, timer := False,
                 dispentry := None, dispatch := None\<rparr>
         \<and> (\<exists>added. tr' = tr @ added \<and> completions added = 0 \<and> controls added = 0)"
  using assms
  by (auto simp: req_cancel_def Let_def split: option.splits if_splits)

lemma req_send_Inr:
  assumes "req_send E r a tr = Inr (res, r', tr')"
  shows "(res = ISC_R_SUCCESS \<and> socket_socketevent E tr
            \<and> r' = r\<lparr>flags := flags r OR DNS_REQUEST_F_SENDING\<rparr>
            \<and> (\<exists>sock q. req_getsocket E r = Inr (Some sock) \<and> query r = Some q
                  \<and> tr' = tr @ [SocketSendto sock q a]))
         \<or> (res = ISC_R_NOMEMORY \<and> \<not> socket_socketevent E tr \<and> r' = r \<and> tr' = tr)"
  using assms
  by (auto simp: req_send_def split: sum.splits option.splits if_splits)

lemma req_cancel_exact:
  assumes "req_cancel E r tr = Inr (r', tr')"
  shows "dispatch r \<noteq> None
    \<and> r' = r\<lparr>flags := flags r OR DNS_REQUEST_F_CANCELED, timer := False,
                 dispentry := None, dispatch := None\<rparr>
    \<and> tr' = tr @ (if timer r then [TimerDetach] else [])
             @ (case (if DNS_REQUEST_CONNECTING r \<or> DNS_REQUEST_SENDING r
                      then (if DNS_DISPATCHATTR_EXCLUSIVE
                                 \<in> dispatch_getattributes E (the (dispatch r))
                            then (case dispentry r of
                                    None \<Rightarrow> None
                                  | Some e \<Rightarrow> dispatch_getentrysocket E e)
                            else dispatch_getsocket E (the (dispatch r)))
                      else None) of
                  None \<Rightarrow> []
                | Some s \<Rightarrow>
                    (if DNS_REQUEST_CONNECTING r then [SocketCancel s ISC_SOCKCANCEL_CONNECT]
                     else [])
                    @ (if DNS_REQUEST_SENDING r then [SocketCancel s ISC_SOCKCANCEL_SEND]
                       else []))
             @ (case dispentry r of None \<Rightarrow> [] | Some e \<Rightarrow> [DispatchRemoveResponse e])
             @ [DispatchDetach (the (dispatch r))]"
  using assms
  by (auto simp: req_cancel_def cancel_socket_def cancel_actions_def Let_def test_defs flag_simps
      split: option.splits if_splits)

lemma cancel_and_send_Inr:
  assumes "cancel_and_send E r res tr = Inr (r', tr')"
  shows "\<exists>added. completions added = 0 \<and> controls added = 0 \<and>
           (if event r \<noteq> None \<and> \<not> canceling r
            then r' = r\<lparr>flags := flags r OR DNS_REQUEST_F_CANCELED, timer := False,
                          dispentry := None, dispatch := None, event := None\<rparr>
                 \<and> tr' = tr @ added @ [TaskSendAndDetach res]
            else r' = r\<lparr>flags := flags r OR DNS_REQUEST_F_CANCELED, timer := False,
                          dispentry := None, dispatch := None\<rparr>
                 \<and> tr' = tr @ added)"
  using assms
  by (auto simp: cancel_and_send_def send_if_done_eq split: sum.splits dest!: req_cancel_Inr)

lemma handle_cancel_requested:
  assumes "handle E i (r, tr) = Inr (r', tr')" "cancel_requested r"
  shows "cancel_requested r'"
  using assms
  by (cases i)
     (auto simp: cancel_requested_def req_connected_def req_senddone_def req_response_def
        req_timeout_def do_cancel_def dns_request_cancel_def Let_def send_if_done_eq
        test_defs flag_simps
        split: sum.splits option.splits if_splits
        dest!: cancel_and_send_Inr req_send_Inr)

lemmas handler_defs = req_connected_def req_senddone_def req_response_def
  req_timeout_def do_cancel_def dns_request_cancel_def

lemmas example_defs = env0_def dest0_def mgr0_def msg0_def waiting_request_def
  mgr_exiting_def env_connected_def env_collision_def env_collision_twice_def
  sending_request_def

lemmas helper_defs = req_getsocket_def req_send_def req_sendevent_def send_if_done_def
  cancel_socket_def cancel_actions_def req_cancel_def delayed_result_def cancel_and_send_def

subsection \<open>Delivery of the completion event\<close>

lemma handle_delivery:
  assumes "handle E i (r, tr) = Inr (r', tr')"
  shows "((completions tr' = completions tr + 1)
            = (reaches_send_if_done E i r tr \<and> event r \<noteq> None \<and> \<not> canceling r'))
         \<and> (completions tr' = completions tr + 1 \<longrightarrow> event r' = None)
         \<and> (completions tr' \<noteq> completions tr + 1
              \<longrightarrow> completions tr' = completions tr \<and> event r' = event r)"
  using assms
  by (cases i)
     (auto simp: handler_defs Let_def send_if_done_eq test_defs flag_simps
        split: sum.splits option.splits if_splits
        dest!: cancel_and_send_Inr req_send_Inr)

text \<open>
  Claim C1, as the code has it.  When a handler returns, it has sent the completion event
  exactly when its control path reached \<open>send_if_done\<close>, the request still held its event
  and no control event was outstanding at that point (\<open>do_cancel\<close> clears \<open>canceling\<close>
  first).  The flags \<open>CONNECTING\<close> and \<open>SENDING\<close> are not consulted.  A handler sends at
  most one completion event and clears \<open>request->event\<close> with it; a handler that sends
  nothing leaves the event and its result field as they were.
\<close>

theorem send_if_done_delivery:
  assumes "handle E i (r, tr) = Inr (r', tr')"
  shows "((completions tr' = completions tr + 1)
            = (reaches_send_if_done E i r tr \<and> event r \<noteq> None \<and> \<not> canceling r'))
         \<and> (completions tr' = completions tr + 1 \<longrightarrow> event r' = None)
         \<and> (completions tr' \<noteq> completions tr + 1
              \<longrightarrow> completions tr' = completions tr \<and> event r' = event r)"
  using assms by (rule handle_delivery)

theorem send_if_done_delivery_witness:
  "handle env0 (Timer ISC_TIMEREVENT_LIFE) (waiting_request, [])
     = Inr (waiting_request\<lparr>flags := 0x0C, timer := False, dispentry := None, dispatch := None,
              event := None\<rparr>,
            [TimerDetach, DispatchRemoveResponse 5, DispatchDetach 1,
             TaskSendAndDetach ISC_R_TIMEDOUT])
   \<and> completions [TimerDetach, DispatchRemoveResponse 5, DispatchDetach 1,
                    TaskSendAndDetach ISC_R_TIMEDOUT] = completions [] + 1
   \<and> reaches_send_if_done env0 (Timer ISC_TIMEREVENT_LIFE) waiting_request []
   \<and> event waiting_request \<noteq> None \<and> \<not> canceling waiting_request"
proof -
  have h: "handle env0 (Timer ISC_TIMEREVENT_LIFE) (waiting_request, [])
     = Inr (waiting_request\<lparr>flags := 0x0C, timer := False, dispentry := None, dispatch := None,
              event := None\<rparr>,
            [TimerDetach, DispatchRemoveResponse 5, DispatchDetach 1,
             TaskSendAndDetach ISC_R_TIMEDOUT])"
    by (simp add: req_timeout_def helper_defs example_defs test_defs flag_defs Let_def)
  from send_if_done_delivery [OF h] h show ?thesis
    by (simp add: waiting_request_def)
qed

text \<open>
  The claim as stated fails: on the final timer event a request whose send is still in
  flight (\<open>SENDING\<close> set before and after) gets its completion event.
\<close>

theorem completion_while_sending:
  "handle env0 (Timer ISC_TIMEREVENT_LIFE) (sending_request, [])
     = Inr (sending_request\<lparr>flags := 0x0E, timer := False, dispentry := None, dispatch := None,
              event := None\<rparr>,
            [TimerDetach, SocketCancel 7 ISC_SOCKCANCEL_SEND, DispatchRemoveResponse 5,
             DispatchDetach 1, TaskSendAndDetach ISC_R_TIMEDOUT])
   \<and> DNS_REQUEST_SENDING sending_request
   \<and> DNS_REQUEST_SENDING (sending_request\<lparr>flags := 0x0E, timer := False, dispentry := None,
         dispatch := None, event := None\<rparr>)
   \<and> \<not> (event sending_request \<noteq> None \<and> \<not> canceling sending_request
          \<and> \<not> DNS_REQUEST_CONNECTING sending_request \<and> \<not> DNS_REQUEST_SENDING sending_request)"
  by (simp add: req_timeout_def helper_defs example_defs test_defs flag_defs Let_def)

subsection \<open>Cancellation\<close>

lemma handle_controls:
  assumes "handle E i (r, tr) = Inr (r', tr')"
  shows "controls tr' = controls tr + (if i = Cancel \<and> \<not> cancel_requested r then 1 else 0)
         \<and> (i = Cancel \<longrightarrow> cancel_requested r')"
  using assms
  by (cases i)
     (auto simp: cancel_requested_def handler_defs Let_def send_if_done_eq test_defs flag_simps
        split: sum.splits option.splits if_splits
        dest!: cancel_and_send_Inr req_send_Inr)

lemma cancel_noop: "cancel_requested r \<Longrightarrow> handle E Cancel (r, tr) = Inr (r, tr)"
  by (auto simp: cancel_requested_def dns_request_cancel_def)

lemma run_append:
  "run E (xs @ ys) s = (case run E xs s of Inl f \<Rightarrow> Inl f | Inr s' \<Rightarrow> run E ys s')"
  by (induction xs arbitrary: s) (auto split: sum.splits)

lemma run_cancel_requested:
  "run E xs (r, tr) = Inr (r', tr') \<Longrightarrow> cancel_requested r
     \<Longrightarrow> cancel_requested r' \<and> controls tr' = controls tr"
proof (induction xs arbitrary: r tr)
  case Nil
  then show ?case by simp
next
  case (Cons i xs)
  then obtain r1 tr1 where h: "handle E i (r, tr) = Inr (r1, tr1)"
    and rest: "run E xs (r1, tr1) = Inr (r', tr')"
    by (auto split: sum.splits)
  from handle_cancel_requested [OF h Cons.prems(2)] have "cancel_requested r1" .
  moreover from handle_controls [OF h] Cons.prems(2) have "controls tr1 = controls tr" by simp
  ultimately show ?case using Cons.IH [OF rest] by simp
qed

lemma run_controls_le:
  "run E xs (r, tr) = Inr (r', tr') \<Longrightarrow> controls tr' \<le> controls tr + 1"
proof (induction xs arbitrary: r tr)
  case Nil
  then show ?case by simp
next
  case (Cons i xs)
  then obtain r1 tr1 where h: "handle E i (r, tr) = Inr (r1, tr1)"
    and rest: "run E xs (r1, tr1) = Inr (r', tr')"
    by (auto split: sum.splits)
  show ?case
  proof (cases "i = Cancel \<and> \<not> cancel_requested r")
    case True
    with handle_controls [OF h] have "cancel_requested r1" "controls tr1 = controls tr + 1"
      by simp_all
    with run_cancel_requested [OF rest] show ?thesis by simp
  next
    case False
    with handle_controls [OF h] have "controls tr1 = controls tr" by auto
    with Cons.IH [OF rest] show ?thesis by simp
  qed
qed

lemma handle_event_gone:
  assumes "handle E i (r, tr) = Inr (r', tr')" "event r = None"
  shows "event r' = None \<and> completions tr' = completions tr"
  using handle_delivery [OF assms(1)] assms(2) by auto

lemma run_event_gone:
  "run E xs (r, tr) = Inr (r', tr') \<Longrightarrow> event r = None
     \<Longrightarrow> event r' = None \<and> completions tr' = completions tr"
proof (induction xs arbitrary: r tr)
  case Nil
  then show ?case by simp
next
  case (Cons i xs)
  then obtain r1 tr1 where h: "handle E i (r, tr) = Inr (r1, tr1)"
    and rest: "run E xs (r1, tr1) = Inr (r', tr')"
    by (auto split: sum.splits)
  from handle_event_gone [OF h Cons.prems(2)] Cons.IH [OF rest] show ?case by simp
qed

lemma run_completions_le:
  "run E xs (r, tr) = Inr (r', tr') \<Longrightarrow> completions tr' \<le> completions tr + 1"
proof (induction xs arbitrary: r tr)
  case Nil
  then show ?case by simp
next
  case (Cons i xs)
  then obtain r1 tr1 where h: "handle E i (r, tr) = Inr (r1, tr1)"
    and rest: "run E xs (r1, tr1) = Inr (r', tr')"
    by (auto split: sum.splits)
  show ?case
  proof (cases "completions tr1 = completions tr + 1")
    case True
    with handle_delivery [OF h] have "event r1 = None" by simp
    with run_event_gone [OF rest] True show ?thesis by simp
  next
    case False
    with handle_delivery [OF h] have "completions tr1 = completions tr" by simp
    with Cons.IH [OF rest] show ?thesis by simp
  qed
qed

lemma run_extra_cancel:
  "run E (xs @ Cancel # ys @ Cancel # zs) s = run E (xs @ Cancel # ys @ zs) s"
proof (cases "run E xs s")
  case (Inl f)
  then show ?thesis by (simp add: run_append)
next
  case (Inr s1)
  show ?thesis
  proof (cases "handle E Cancel s1")
    case (Inl f)
    with Inr show ?thesis by (simp add: run_append)
  next
    case (Inr s2)
    obtain r1 tr1 where s1: "s1 = (r1, tr1)" by (cases s1)
    obtain r2 tr2 where s2: "s2 = (r2, tr2)" by (cases s2)
    from handle_controls [of E Cancel r1 tr1 r2 tr2] Inr s1 s2
    have c2: "cancel_requested r2" by simp
    show ?thesis
    proof (cases "run E ys s2")
      case (Inl f)
      with \<open>run E xs s = Inr s1\<close> \<open>handle E Cancel s1 = Inr s2\<close>
      show ?thesis by (simp add: run_append)
    next
      case (Inr s3)
      obtain r3 tr3 where s3: "s3 = (r3, tr3)" by (cases s3)
      from run_cancel_requested [of E ys r2 tr2 r3 tr3] Inr s2 s3 c2
      have "cancel_requested r3" by simp
      then have "handle E Cancel s3 = Inr s3" using s3 cancel_noop [of r3 E tr3] by simp
      with Inr \<open>run E xs s = Inr s1\<close> \<open>handle E Cancel s1 = Inr s2\<close>
      show ?thesis by (simp add: run_append)
    qed
  qed
qed

text \<open>
  Claim C2.  One call of \<open>dns_request_cancel\<close> posts the control event exactly when
  neither \<open>canceling\<close> nor \<open>CANCELED\<close> is set, and sets \<open>canceling\<close> then; a second call
  right after it changes nothing.  Over any sequence of handler runs and cancel calls
  that ends without a fault, at most one control event is posted and at most one
  completion event is sent, and a further cancel call anywhere after the first one does
  not change the outcome.
\<close>

theorem cancel_idempotent:
  "(\<forall>r' tr'. dns_request_cancel r tr = Inr (r', tr') \<longrightarrow>
      (if \<not> canceling r \<and> \<not> DNS_REQUEST_CANCELED r
       then r' = r\<lparr>canceling := True\<rparr> \<and> tr' = tr @ [TaskSendControl]
       else r' = r \<and> tr' = tr)
      \<and> dns_request_cancel r' tr' = Inr (r', tr'))
   \<and> (\<forall>r' tr'. run E xs (r, tr) = Inr (r', tr') \<longrightarrow>
         controls tr' \<le> controls tr + 1 \<and> completions tr' \<le> completions tr + 1)
   \<and> run E (xs @ Cancel # ys @ Cancel # zs) (r, tr) = run E (xs @ Cancel # ys @ zs) (r, tr)"
proof (intro conjI allI impI)
  fix r' tr'
  assume "dns_request_cancel r tr = Inr (r', tr')"
  then show "if \<not> canceling r \<and> \<not> DNS_REQUEST_CANCELED r
       then r' = r\<lparr>canceling := True\<rparr> \<and> tr' = tr @ [TaskSendControl]
       else r' = r \<and> tr' = tr"
    and "dns_request_cancel r' tr' = Inr (r', tr')"
    by (auto simp: dns_request_cancel_def test_defs split: if_splits option.splits)
next
  fix r' tr'
  assume "run E xs (r, tr) = Inr (r', tr')"
  then show "controls tr' \<le> controls tr + 1" "completions tr' \<le> completions tr + 1"
    by (rule run_controls_le, rule run_completions_le)
next
  show "run E (xs @ Cancel # ys @ Cancel # zs) (r, tr) = run E (xs @ Cancel # ys @ zs) (r, tr)"
    by (rule run_extra_cancel)
qed

theorem cancel_idempotent_witness:
  "dns_request_cancel waiting_request [] = Inr (waiting_request\<lparr>canceling := True\<rparr>, [TaskSendControl])
   \<and> run env0 [Cancel, Cancel, Control, Cancel] (waiting_request, [])
       = Inr (waiting_request\<lparr>flags := 4, timer := False, dispentry := None, dispatch := None,
                event := None\<rparr>,
              [TaskSendControl, TimerDetach, DispatchRemoveResponse 5, DispatchDetach 1,
               TaskSendAndDetach ISC_R_CANCELED])
   \<and> run env0 ([] @ Cancel # [] @ Cancel # [Control, Cancel]) (waiting_request, [])
       = run env0 ([] @ Cancel # [] @ [Control, Cancel]) (waiting_request, [])
   \<and> controls [TaskSendControl, TimerDetach, DispatchRemoveResponse 5, DispatchDetach 1,
                 TaskSendAndDetach ISC_R_CANCELED] \<le> controls [] + 1"
proof -
  have h: "run env0 [Cancel, Cancel, Control, Cancel] (waiting_request, [])
       = Inr (waiting_request\<lparr>flags := 4, timer := False, dispentry := None, dispatch := None,
                event := None\<rparr>,
              [TaskSendControl, TimerDetach, DispatchRemoveResponse 5, DispatchDetach 1,
               TaskSendAndDetach ISC_R_CANCELED])"
    by (simp add: handler_defs helper_defs example_defs test_defs flag_defs Let_def)
  have c: "dns_request_cancel waiting_request []
             = Inr (waiting_request\<lparr>canceling := True\<rparr>, [TaskSendControl])"
    by (simp add: dns_request_cancel_def example_defs test_defs flag_defs)
  from cancel_idempotent [where r = waiting_request and tr = "[]" and E = env0
      and xs = "[Cancel, Cancel, Control, Cancel]" and ys = "[]" and zs = "[Control, Cancel]"] h c
  show ?thesis by simp
qed

subsection \<open>The timer\<close>

text \<open>
  A cancel that is still outstanding keeps the timeout from being delivered: after
  \<open>dns_request_cancel\<close>, the final timer event sets \<open>TIMEDOUT\<close> and cancels the request
  but sends nothing, and the control event then delivers \<open>ISC_R_CANCELED\<close>.
\<close>

theorem timeout_while_canceling:
  "run env0 [Cancel, Timer ISC_TIMEREVENT_LIFE] (waiting_request, [])
     = Inr (waiting_request\<lparr>canceling := True, flags := 0x0C, timer := False,
              dispentry := None, dispatch := None\<rparr>,
            [TaskSendControl, TimerDetach, DispatchRemoveResponse 5, DispatchDetach 1])
   \<and> run env0 [Cancel, Timer ISC_TIMEREVENT_LIFE, Control] (waiting_request, [])
     = Inr (waiting_request\<lparr>canceling := False, flags := 0x0C, timer := False,
              dispentry := None, dispatch := None, event := None\<rparr>,
            [TaskSendControl, TimerDetach, DispatchRemoveResponse 5, DispatchDetach 1,
             TaskSendAndDetach ISC_R_CANCELED])"
  by (simp add: handler_defs helper_defs example_defs test_defs flag_defs Let_def)

text \<open>
  Claim C4, as the code has it.  \<open>req_timeout\<close> decrements the counter on every tick,
  also on one that finds it at zero, and on no other event.  A tick that finds the
  counter nonzero is a retransmission: nothing happens while \<open>SENDING\<close> is set; otherwise
  the query is sent again on the socket of the request to the saved destination, and
  only when the send event cannot be allocated is the request canceled and
  \<open>ISC_R_NOMEMORY\<close> handed to \<open>send_if_done\<close>.  Every other timer event sets \<open>TIMEDOUT\<close>,
  cancels the request (the timer is detached, a connect or send in flight is canceled
  on the socket, the response slot is removed and the dispatch detached) and hands
  \<open>ISC_R_TIMEDOUT\<close> to \<open>send_if_done\<close>, which delivers it exactly when the completion
  event is still there and no cancel is outstanding.
\<close>

theorem req_timeout_guard:
  assumes "req_timeout E ty r tr = Inr (r', tr')"
  defines "retransmit \<equiv> ty = ISC_TIMEREVENT_TICK \<and> udpcount r \<noteq> 0"
    and "count \<equiv> (if ty = ISC_TIMEREVENT_TICK then udpcount r - 1 else udpcount r)"
    and "deliver \<equiv> event r \<noteq> None \<and> \<not> canceling r"
    and "sock \<equiv> (if DNS_REQUEST_CONNECTING r \<or> DNS_REQUEST_SENDING r
                   then (if DNS_DISPATCHATTR_EXCLUSIVE
                              \<in> dispatch_getattributes E (the (dispatch r))
                         then (case dispentry r of
                                 None \<Rightarrow> None
                               | Some e \<Rightarrow> dispatch_getentrysocket E e)
                         else dispatch_getsocket E (the (dispatch r)))
                   else None)"
  defines "canceled \<equiv>
             (if timer r then [TimerDetach] else [])
             @ (case sock of
                  None \<Rightarrow> []
                | Some s \<Rightarrow>
                    (if DNS_REQUEST_CONNECTING r then [SocketCancel s ISC_SOCKCANCEL_CONNECT]
                     else [])
                    @ (if DNS_REQUEST_SENDING r then [SocketCancel s ISC_SOCKCANCEL_SEND]
                       else []))
             @ (case dispentry r of None \<Rightarrow> [] | Some e \<Rightarrow> [DispatchRemoveResponse e])
             @ [DispatchDetach (the (dispatch r))]"
  shows "udpcount r' = count
    \<and> (retransmit \<and> DNS_REQUEST_SENDING r \<longrightarrow> tr' = tr \<and> r' = r\<lparr>udpcount := count\<rparr>)
    \<and> (retransmit \<and> \<not> DNS_REQUEST_SENDING r \<and> socket_socketevent E tr \<longrightarrow>
          (\<exists>s q. req_getsocket E r = Inr (Some s) \<and> query r = Some q
             \<and> tr' = tr @ [SocketSendto s q (Some (destaddr r))])
          \<and> r' = r\<lparr>udpcount := count, flags := flags r OR DNS_REQUEST_F_SENDING\<rparr>)
    \<and> (retransmit \<and> \<not> DNS_REQUEST_SENDING r \<and> \<not> socket_socketevent E tr \<longrightarrow>
          dispatch r \<noteq> None
          \<and> tr' = tr @ canceled @ (if deliver then [TaskSendAndDetach ISC_R_NOMEMORY] else [])
          \<and> r' = r\<lparr>udpcount := count, flags := flags r OR DNS_REQUEST_F_CANCELED,
                     timer := False, dispentry := None, dispatch := None,
                     event := (if deliver then None else event r)\<rparr>)
    \<and> (\<not> retransmit \<longrightarrow>
          dispatch r \<noteq> None
          \<and> tr' = tr @ canceled @ (if deliver then [TaskSendAndDetach ISC_R_TIMEDOUT] else [])
          \<and> r' = r\<lparr>udpcount := count,
                     flags := (flags r OR DNS_REQUEST_F_TIMEDOUT) OR DNS_REQUEST_F_CANCELED,
                     timer := False, dispentry := None, dispatch := None,
                     event := (if deliver then None else event r)\<rparr>)"
proof -
  have resend: "retransmit \<and> \<not> DNS_REQUEST_SENDING r \<and> socket_socketevent E tr \<longrightarrow>
          (\<exists>s q. req_getsocket E r = Inr (Some s) \<and> query r = Some q
             \<and> tr' = tr @ [SocketSendto s q (Some (destaddr r))])
          \<and> r' = r\<lparr>udpcount := count, flags := flags r OR DNS_REQUEST_F_SENDING\<rparr>"
    using assms(1) unfolding retransmit_def count_def
    by (auto simp: req_timeout_def Let_def test_defs req_getsocket_def
          split: sum.splits if_splits option.splits dest!: req_send_Inr)
  have busy: "retransmit \<and> DNS_REQUEST_SENDING r \<longrightarrow> tr' = tr \<and> r' = r\<lparr>udpcount := count\<rparr>"
    using assms(1) unfolding retransmit_def count_def
    by (auto simp: req_timeout_def Let_def test_defs split: sum.splits if_splits)
  have nomem: "retransmit \<and> \<not> DNS_REQUEST_SENDING r \<and> \<not> socket_socketevent E tr \<longrightarrow>
          dispatch r \<noteq> None
          \<and> tr' = tr @ canceled @ (if deliver then [TaskSendAndDetach ISC_R_NOMEMORY] else [])
          \<and> r' = r\<lparr>udpcount := count, flags := flags r OR DNS_REQUEST_F_CANCELED,
                     timer := False, dispentry := None, dispatch := None,
                     event := (if deliver then None else event r)\<rparr>"
  proof (intro impI)
    assume a: "retransmit \<and> \<not> DNS_REQUEST_SENDING r \<and> \<not> socket_socketevent E tr"
    define r1 where "r1 = r\<lparr>udpcount := udpcount r - 1\<rparr>"
    have p: "DNS_REQUEST_CONNECTING r1 = DNS_REQUEST_CONNECTING r"
      "DNS_REQUEST_SENDING r1 = DNS_REQUEST_SENDING r"
      "timer r1 = timer r" "dispatch r1 = dispatch r" "dispentry r1 = dispentry r"
      "event r1 = event r" "canceling r1 = canceling r" "flags r1 = flags r"
      by (simp_all add: r1_def test_defs)
    from a assms(1) have t: "(case req_send E r1 (Some (destaddr r1)) tr of
                       Inl f \<Rightarrow> Inl f
                     | Inr (result, r2, tr2) \<Rightarrow>
                         if result \<noteq> ISC_R_SUCCESS
                         then cancel_and_send E r2 result tr2
                         else Inr (r2, tr2)) = Inr (r', tr')"
      unfolding retransmit_def r1_def
      by (simp add: req_timeout_def Let_def test_defs)
    then obtain res r2 tr2 where s: "req_send E r1 (Some (destaddr r1)) tr = Inr (res, r2, tr2)"
      by (cases "req_send E r1 (Some (destaddr r1)) tr") auto
    from t s have c: "(if res \<noteq> ISC_R_SUCCESS then cancel_and_send E r2 res tr2 else Inr (r2, tr2))
             = Inr (r', tr')"
      by simp
    from req_send_Inr [OF s] a have e: "res = ISC_R_NOMEMORY" "r2 = r1" "tr2 = tr" by auto
    from c e have "cancel_and_send E r1 ISC_R_NOMEMORY tr = Inr (r', tr')" by simp
    then obtain r3 tr3 where k: "req_cancel E r1 tr = Inr (r3, tr3)"
      and d: "send_if_done r3 ISC_R_NOMEMORY tr3 = Inr (r', tr')"
      by (auto simp: cancel_and_send_def split: sum.splits)
    note x = req_cancel_exact [OF k, unfolded p]
    from x have x1: "dispatch r \<noteq> None" and x3: "tr3 = tr @ canceled"
      and x2: "r3 = r1\<lparr>flags := flags r OR DNS_REQUEST_F_CANCELED, timer := False,
                 dispentry := None, dispatch := None\<rparr>"
      unfolding canceled_def sock_def by simp_all
    have cnt1: "count = udpcount r - 1" using a unfolding count_def retransmit_def by simp
    have ev: "event r3 = event r" "canceling r3 = canceling r"
      unfolding x2 r1_def by simp_all
    from d have "(r', tr') = (if deliver then (r3\<lparr>event := None\<rparr>, tr3 @ [TaskSendAndDetach ISC_R_NOMEMORY])
                              else (r3, tr3))"
      unfolding send_if_done_eq ev deliver_def by simp
    then have r': "r' = (if deliver then r3\<lparr>event := None\<rparr> else r3)"
      and tr': "tr' = tr3 @ (if deliver then [TaskSendAndDetach ISC_R_NOMEMORY] else [])"
      by (simp_all split: if_splits)
    have "r' = r\<lparr>udpcount := count, flags := flags r OR DNS_REQUEST_F_CANCELED,
                     timer := False, dispentry := None, dispatch := None,
                     event := (if deliver then None else event r)\<rparr>"
      unfolding r' x2 r1_def cnt1 by simp
    with x1 tr' x3 show "dispatch r \<noteq> None
          \<and> tr' = tr @ canceled @ (if deliver then [TaskSendAndDetach ISC_R_NOMEMORY] else [])
          \<and> r' = r\<lparr>udpcount := count, flags := flags r OR DNS_REQUEST_F_CANCELED,
                     timer := False, dispentry := None, dispatch := None,
                     event := (if deliver then None else event r)\<rparr>"
      by simp
  qed
  have final: "\<not> retransmit \<longrightarrow>
          dispatch r \<noteq> None
          \<and> tr' = tr @ canceled @ (if deliver then [TaskSendAndDetach ISC_R_TIMEDOUT] else [])
          \<and> r' = r\<lparr>udpcount := count,
                     flags := (flags r OR DNS_REQUEST_F_TIMEDOUT) OR DNS_REQUEST_F_CANCELED,
                     timer := False, dispentry := None, dispatch := None,
                     event := (if deliver then None else event r)\<rparr>"
  proof (intro impI)
    assume a: "\<not> retransmit"
    define r1 where "r1 = (if ty = ISC_TIMEREVENT_TICK then r\<lparr>udpcount := udpcount r - 1\<rparr> else r)
                            \<lparr>flags := flags r OR DNS_REQUEST_F_TIMEDOUT\<rparr>"
    have p: "DNS_REQUEST_CONNECTING r1 = DNS_REQUEST_CONNECTING r"
      "DNS_REQUEST_SENDING r1 = DNS_REQUEST_SENDING r"
      "timer r1 = timer r" "dispatch r1 = dispatch r" "dispentry r1 = dispentry r"
      "event r1 = event r" "canceling r1 = canceling r"
      "flags r1 = flags r OR DNS_REQUEST_F_TIMEDOUT"
      by (simp_all add: r1_def test_defs flag_simps)
    have u: "r1 = r\<lparr>udpcount := count, flags := flags r OR DNS_REQUEST_F_TIMEDOUT\<rparr>"
      unfolding r1_def count_def by simp
    from a assms(1) have "cancel_and_send E r1 ISC_R_TIMEDOUT tr = Inr (r', tr')"
      unfolding retransmit_def r1_def
      by (simp add: req_timeout_def Let_def split: if_splits)
    then obtain r3 tr3 where k: "req_cancel E r1 tr = Inr (r3, tr3)"
      and d: "send_if_done r3 ISC_R_TIMEDOUT tr3 = Inr (r', tr')"
      by (auto simp: cancel_and_send_def split: sum.splits)
    note x = req_cancel_exact [OF k, unfolded p]
    from x have x1: "dispatch r \<noteq> None" and x3: "tr3 = tr @ canceled"
      and x2: "r3 = r1\<lparr>flags := (flags r OR DNS_REQUEST_F_TIMEDOUT) OR DNS_REQUEST_F_CANCELED,
                 timer := False, dispentry := None, dispatch := None\<rparr>"
      unfolding canceled_def sock_def by simp_all
    have ev: "event r3 = event r" "canceling r3 = canceling r"
      unfolding x2 u by simp_all
    from d have "(r', tr') = (if deliver then (r3\<lparr>event := None\<rparr>, tr3 @ [TaskSendAndDetach ISC_R_TIMEDOUT])
                              else (r3, tr3))"
      unfolding send_if_done_eq ev deliver_def by simp
    then have r': "r' = (if deliver then r3\<lparr>event := None\<rparr> else r3)"
      and tr': "tr' = tr3 @ (if deliver then [TaskSendAndDetach ISC_R_TIMEDOUT] else [])"
      by (simp_all split: if_splits)
    have "r' = r\<lparr>udpcount := count,
                     flags := (flags r OR DNS_REQUEST_F_TIMEDOUT) OR DNS_REQUEST_F_CANCELED,
                     timer := False, dispentry := None, dispatch := None,
                     event := (if deliver then None else event r)\<rparr>"
      unfolding r' x2 u by simp
    with x1 tr' x3 show "dispatch r \<noteq> None
          \<and> tr' = tr @ canceled @ (if deliver then [TaskSendAndDetach ISC_R_TIMEDOUT] else [])
          \<and> r' = r\<lparr>udpcount := count,
                     flags := (flags r OR DNS_REQUEST_F_TIMEDOUT) OR DNS_REQUEST_F_CANCELED,
                     timer := False, dispentry := None, dispatch := None,
                     event := (if deliver then None else event r)\<rparr>"
      by simp
  qed
  have cnt: "udpcount r' = count"
    using assms(1) unfolding count_def
    by (auto simp: req_timeout_def Let_def
          split: sum.splits if_splits dest!: req_send_Inr cancel_and_send_Inr)
  from cnt busy resend nomem final show ?thesis by blast
qed

theorem req_timeout_guard_witness:
  "req_timeout env0 ISC_TIMEREVENT_TICK waiting_request []
     = Inr (waiting_request\<lparr>udpcount := 1, flags := DNS_REQUEST_F_SENDING\<rparr>,
            [SocketSendto 7 msg0 (Some dest0)])
   \<and> udpcount waiting_request \<noteq> 0 \<and> \<not> DNS_REQUEST_SENDING waiting_request
   \<and> socket_socketevent env0 []
   \<and> req_timeout env0 ISC_TIMEREVENT_TICK (sending_request\<lparr>udpcount := 0\<rparr>) []
     = Inr (sending_request\<lparr>udpcount := - 1, flags := 0x0E, timer := False, dispentry := None,
              dispatch := None, event := None\<rparr>,
            [TimerDetach, SocketCancel 7 ISC_SOCKCANCEL_SEND, DispatchRemoveResponse 5,
             DispatchDetach 1, TaskSendAndDetach ISC_R_TIMEDOUT])"
proof -
  have h: "req_timeout env0 ISC_TIMEREVENT_TICK waiting_request []
     = Inr (waiting_request\<lparr>udpcount := 1, flags := DNS_REQUEST_F_SENDING\<rparr>,
            [SocketSendto 7 msg0 (Some dest0)])"
    by (simp add: req_timeout_def helper_defs example_defs test_defs flag_defs Let_def)
  have h0: "req_timeout env0 ISC_TIMEREVENT_TICK (sending_request\<lparr>udpcount := 0\<rparr>) []
     = Inr (sending_request\<lparr>udpcount := - 1, flags := 0x0E, timer := False, dispentry := None,
              dispatch := None, event := None\<rparr>,
            [TimerDetach, SocketCancel 7 ISC_SOCKCANCEL_SEND, DispatchRemoveResponse 5,
             DispatchDetach 1, TaskSendAndDetach ISC_R_TIMEDOUT])"
    by (simp add: req_timeout_def helper_defs example_defs test_defs flag_defs Let_def)
  from req_timeout_guard [OF h] req_timeout_guard [OF h0] h h0 show ?thesis
    by (simp add: example_defs test_defs flag_defs)
qed

subsection \<open>The blackhole list\<close>




subsection \<open>Dispatch selection, registration and cleanup\<close>

lemma tcp_acquired_simps [simp]:
  "tcp_acquired [] = False"
  "tcp_acquired (xs @ ys) = (tcp_acquired xs \<or> tcp_acquired ys)"
  "tcp_acquired (a # xs) =
     ((case a of DispatchGetTcp _ _ \<Rightarrow> True | SocketCreate _ \<Rightarrow> True | _ \<Rightarrow> False) \<or> tcp_acquired xs)"
  by (simp_all add: tcp_acquired_def)

lemma preparing_simps [simp]:
  "preparing []"
  "preparing (xs @ ys) = (preparing xs \<and> preparing ys)"
  "preparing (a # xs) = (\<not> engages a \<and> preparing xs)"
  by (auto simp: preparing_def)

lemma staging_simps [simp]:
  "staging []"
  "staging (xs @ ys) = (staging xs \<and> staging ys)"
  "staging (a # xs) = (\<not> engages a \<and> a \<noteq> MgrLock \<and> staging xs)"
  by (auto simp: staging_def)

lemma staging_preparing: "staging xs \<Longrightarrow> preparing xs"
  by (simp add: staging_def)


lemma new_tcp_dispatch_trace:
  assumes "new_tcp_dispatch E srcaddr dest dscpv connected tr = (res, conn, d, tr')"
  shows "conn = connected \<and> (\<exists>added. tr' = tr @ added \<and> staging added \<and> tcp_acquired added)"
  using assms
  by (auto simp: new_tcp_dispatch_def Let_def engages_def split: prod.splits if_splits)

lemma create_tcp_dispatch_trace:
  assumes "create_tcp_dispatch E newtcp share srcaddr dest dscpv connected tr = (res, conn, d, tr')"
  shows "(newtcp \<longrightarrow> conn = connected)
         \<and> (\<exists>added. tr' = tr @ added \<and> staging added \<and> tcp_acquired added)"
  using assms
  by (auto simp: create_tcp_dispatch_def Let_def engages_def split: prod.splits if_splits
      dest!: new_tcp_dispatch_trace)

lemma find_udp_dispatch_trace:
  assumes "find_udp_dispatch E mgr srcaddr dest tr = (res, d, tr')"
  shows "\<exists>added. tr' = tr @ added \<and> staging added \<and> \<not> tcp_acquired added"
  using assms
  by (auto simp: find_udp_dispatch_def Let_def engages_def
      split: prod.splits if_splits option.splits pf.splits)

lemma get_dispatch_trace:
  assumes "get_dispatch E tcp newtcp share mgr srcaddr dest dscpv connected tr = (res, conn, d, tr')"
  shows "(newtcp \<or> \<not> tcp \<longrightarrow> conn = connected)
         \<and> (\<exists>added. tr' = tr @ added \<and> staging added \<and> tcp_acquired added = tcp)"
  using assms
  by (auto simp: get_dispatch_def split: prod.splits if_splits
      dest!: create_tcp_dispatch_trace find_udp_dispatch_trace)

lemma raw_again_newtcp:
  "raw_again E mgr tcp share srcaddr dest dscpv fixedid msg True connected r tr =
     (case get_dispatch E tcp True share mgr srcaddr dest dscpv connected tr of
        (result, connected1, disp, tr1) \<Rightarrow>
          if result \<noteq> ISC_R_SUCCESS then NotRegistered result r tr1
          else
            let idin = (if fixedid
                        then Some (push_bit 8 (ucast (msg ! 0)) OR ucast (msg ! 1))
                        else None)
            in (case dispatch_addresponse E tr1 disp idin of
                  (result2, msgid, entry) \<Rightarrow>
                    if result2 \<noteq> ISC_R_SUCCESS
                    then NotRegistered result2 (r\<lparr>dispatch := Some disp\<rparr>)
                           (tr1 @ [DispatchAddResponse disp idin])
                    else Registered (r\<lparr>dispatch := Some disp, dispentry := Some entry\<rparr>)
                           connected1 msgid (tr1 @ [DispatchAddResponse disp idin])))"
  by (subst raw_again.simps) (simp add: Let_def split: prod.splits)

lemma raw_again_first:
  "raw_again E mgr tcp share srcaddr dest dscpv fixedid msg False connected r tr =
     (case get_dispatch E tcp False share mgr srcaddr dest dscpv connected tr of
        (result, connected1, disp, tr1) \<Rightarrow>
          if result \<noteq> ISC_R_SUCCESS then NotRegistered result r tr1
          else
            let idin = (if fixedid
                        then Some (push_bit 8 (ucast (msg ! 0)) OR ucast (msg ! 1))
                        else None)
            in (case dispatch_addresponse E tr1 disp idin of
                  (result2, msgid, entry) \<Rightarrow>
                    if result2 \<noteq> ISC_R_SUCCESS
                    then (if fixedid
                          then raw_again E mgr tcp share srcaddr dest dscpv fixedid msg
                                 True False (r\<lparr>dispatch := None\<rparr>)
                                 (tr1 @ [DispatchAddResponse disp idin, DispatchDetach disp])
                          else NotRegistered result2 (r\<lparr>dispatch := Some disp\<rparr>)
                                 (tr1 @ [DispatchAddResponse disp idin]))
                    else Registered (r\<lparr>dispatch := Some disp, dispentry := Some entry\<rparr>)
                           connected1 msgid (tr1 @ [DispatchAddResponse disp idin])))"
  apply (subst raw_again.simps)
  apply (simp only: Let_def)
  apply (clarsimp split: prod.splits)
  done

lemma raw_again_newtcp_Registered:
  assumes "raw_again E mgr tcp share srcaddr dest dscpv fixedid msg True connected r tr
             = Registered r' conn msgid tr'"
  shows "conn = connected \<and> (\<exists>d e. dispatch r' = Some d \<and> dispentry r' = Some e
                  \<and> r' = r\<lparr>dispatch := Some d, dispentry := Some e\<rparr>
                  \<and> (\<exists>hh idin. dispatch_addresponse E hh d idin = (ISC_R_SUCCESS, msgid, e)))
         \<and> (\<exists>added. tr' = tr @ added \<and> staging added \<and> tcp_acquired added = tcp)"
proof -
  obtain res c1 d tr1 where
    g: "get_dispatch E tcp True share mgr srcaddr dest dscpv connected tr = (res, c1, d, tr1)"
    by (metis prod_cases4)
  from get_dispatch_trace [OF g] obtain a1 where
    a1: "tr1 = tr @ a1" "staging a1" "tcp_acquired a1 = tcp" and c1: "c1 = connected"
    by auto
  define idin where
    "idin = (if fixedid then Some (push_bit 8 (ucast (msg ! 0)) OR ucast (msg ! 1) :: dns_messageid)
             else None)"
  obtain res2 id2 e where ar: "dispatch_addresponse E tr1 d idin = (res2, id2, e)"
    by (metis prod_cases3)
  from assms g ar have f: "res2 = ISC_R_SUCCESS" "id2 = msgid" "conn = c1"
    "r' = r\<lparr>dispatch := Some d, dispentry := Some e\<rparr>"
    "tr' = tr1 @ [DispatchAddResponse d idin]"
    by (simp_all add: raw_again_newtcp Let_def idin_def split: if_splits)
  from ar f have "\<exists>hh idin. dispatch_addresponse E hh d idin = (ISC_R_SUCCESS, msgid, e)"
    by blast
  with f a1 c1 show ?thesis by (auto simp: engages_def)
qed

lemma raw_again_newtcp_NotRegistered:
  assumes "raw_again E mgr tcp share srcaddr dest dscpv fixedid msg True connected r tr
             = NotRegistered res r' tr'"
  shows "res \<noteq> ISC_R_SUCCESS \<and> (r' = r \<or> (\<exists>d. r' = r\<lparr>dispatch := Some d\<rparr>))
         \<and> (\<exists>added. tr' = tr @ added \<and> staging added)"
  using assms
  by (auto simp: raw_again_newtcp Let_def engages_def split: prod.splits if_splits
      dest!: get_dispatch_trace)

lemma raw_again_Registered:
  assumes h: "raw_again E mgr tcp share srcaddr dest dscpv fixedid msg False False r tr
             = Registered r' conn msgid tr'"
  shows "(conn \<longrightarrow> tcp) \<and> (\<exists>d e. dispatch r' = Some d \<and> dispentry r' = Some e
                  \<and> r' = r\<lparr>dispatch := Some d, dispentry := Some e\<rparr>
                  \<and> (\<exists>hh idin. dispatch_addresponse E hh d idin = (ISC_R_SUCCESS, msgid, e)))
         \<and> (\<exists>added. tr' = tr @ added \<and> staging added \<and> tcp_acquired added = tcp)"
proof -
  obtain res c1 d tr1 where
    g: "get_dispatch E tcp False share mgr srcaddr dest dscpv False tr = (res, c1, d, tr1)"
    by (metis prod_cases4)
  from get_dispatch_trace [OF g] obtain a1 where
    a1: "tr1 = tr @ a1" "staging a1" "tcp_acquired a1 = tcp" and c1: "\<not> tcp \<longrightarrow> \<not> c1"
    by auto
  define idin where
    "idin = (if fixedid then Some (push_bit 8 (ucast (msg ! 0)) OR ucast (msg ! 1) :: dns_messageid)
             else None)"
  obtain res2 id2 e where ar: "dispatch_addresponse E tr1 d idin = (res2, id2, e)"
    by (metis prod_cases3)
  show ?thesis
  proof (cases "res2 = ISC_R_SUCCESS")
    case True
    with h g ar have f: "r' = r\<lparr>dispatch := Some d, dispentry := Some e\<rparr>" "conn = c1"
      "tr' = tr1 @ [DispatchAddResponse d idin]" "id2 = msgid"
      by (simp_all add: raw_again_first Let_def idin_def split: if_splits)
    from ar f True
    have "\<exists>hh idin. dispatch_addresponse E hh d idin = (ISC_R_SUCCESS, msgid, e)"
      by blast
    with f a1 c1 show ?thesis by (auto simp: engages_def)
  next
    case False
    with h g ar have
      again: "raw_again E mgr tcp share srcaddr dest dscpv fixedid msg True False
                (r\<lparr>dispatch := None\<rparr>)
                (tr1 @ [DispatchAddResponse d idin, DispatchDetach d])
              = Registered r' conn msgid tr'"
      by (simp add: raw_again_first Let_def idin_def split: if_splits)
    note x = raw_again_newtcp_Registered [OF again]
    from x have cn: "conn = False" by simp
    from x obtain d2 e2 where de: "dispatch r' = Some d2" "dispentry r' = Some e2"
      "r' = r\<lparr>dispatch := None\<rparr>\<lparr>dispatch := Some d2, dispentry := Some e2\<rparr>"
      "\<exists>hh idin. dispatch_addresponse E hh d2 idin = (ISC_R_SUCCESS, msgid, e2)"
      by blast
    from x obtain a2 where a2:
      "tr' = (tr1 @ [DispatchAddResponse d idin, DispatchDetach d]) @ a2" "staging a2"
      "tcp_acquired a2 = tcp"
      by blast
    from de have r': "r' = r\<lparr>dispatch := Some d2, dispentry := Some e2\<rparr>" by simp
    have tr': "\<exists>added. tr' = tr @ added \<and> staging added \<and> tcp_acquired added = tcp"
      using a1 a2 by (auto simp: engages_def)
    from cn de(1,2,4) r' tr' show ?thesis by blast
  qed
qed

lemma raw_again_NotRegistered:
  assumes h: "raw_again E mgr tcp share srcaddr dest dscpv fixedid msg False False r tr
             = NotRegistered res r' tr'"
  shows "res \<noteq> ISC_R_SUCCESS \<and> dispentry r' = dispentry r \<and> requestmgr r' = requestmgr r
         \<and> (\<exists>added. tr' = tr @ added \<and> staging added)"
proof -
  obtain res1 c1 d tr1 where
    g: "get_dispatch E tcp False share mgr srcaddr dest dscpv False tr = (res1, c1, d, tr1)"
    by (metis prod_cases4)
  from get_dispatch_trace [OF g] obtain a1 where a1: "tr1 = tr @ a1" "staging a1"
    by auto
  define idin where
    "idin = (if fixedid then Some (push_bit 8 (ucast (msg ! 0)) OR ucast (msg ! 1) :: dns_messageid)
             else None)"
  obtain res2 id2 e where ar: "dispatch_addresponse E tr1 d idin = (res2, id2, e)"
    by (metis prod_cases3)
  show ?thesis
  proof (cases "res1 = ISC_R_SUCCESS \<and> res2 \<noteq> ISC_R_SUCCESS \<and> fixedid")
    case False
    with h g ar have "res \<noteq> ISC_R_SUCCESS" "r' = r \<or> r' = r\<lparr>dispatch := Some d\<rparr>"
      "tr' = tr1 \<or> tr' = tr1 @ [DispatchAddResponse d idin]"
      by (auto simp add: raw_again_first Let_def idin_def split: if_splits)
    with a1 show ?thesis by (auto simp: engages_def)
  next
    case True
    with h g ar have
      again: "raw_again E mgr tcp share srcaddr dest dscpv fixedid msg True False
                (r\<lparr>dispatch := None\<rparr>)
                (tr1 @ [DispatchAddResponse d idin, DispatchDetach d])
              = NotRegistered res r' tr'"
      by (simp add: raw_again_first Let_def idin_def split: if_splits)
    from raw_again_newtcp_NotRegistered [OF again] obtain a2 where
      "res \<noteq> ISC_R_SUCCESS"
      "r' = r\<lparr>dispatch := None\<rparr> \<or> (\<exists>d. r' = r\<lparr>dispatch := None\<rparr>\<lparr>dispatch := Some d\<rparr>)"
      "tr' = (tr1 @ [DispatchAddResponse d idin, DispatchDetach d]) @ a2" "staging a2"
      by auto
    with a1 show ?thesis by (auto simp: engages_def)
  qed
qed

lemma req_destroy_unlinked:
  "\<not> requestmgr r \<Longrightarrow>
   req_destroy mgr r tr =
     Inr (mgr, tr @ (if event r \<noteq> None then [EventFree] else [])
                  @ (case dispentry r of None \<Rightarrow> [] | Some e \<Rightarrow> [DispatchRemoveResponse e])
                  @ (case dispatch r of None \<Rightarrow> [] | Some d \<Rightarrow> [DispatchDetach d])
                  @ (if timer r then [TimerDetach] else []) @ [MemPut])"
  by (simp add: req_destroy_def)

lemma cleanup_unlinked:
  "\<not> requestmgr r \<Longrightarrow>
   cleanup mgr r tclone res tr =
     Inr \<lparr>cr_result = res, cr_request = None, cr_mgr = mgr,
          cr_trace = tr @ (if tclone then [TaskDetach] else [])
                  @ (if event r \<noteq> None then [EventFree] else [])
                  @ (case dispentry r of None \<Rightarrow> [] | Some e \<Rightarrow> [DispatchRemoveResponse e])
                  @ (case dispatch r of None \<Rightarrow> [] | Some d \<Rightarrow> [DispatchDetach d])
                  @ (if timer r then [TimerDetach] else []) @ [MemPut]\<rparr>"
  by (simp add: cleanup_def req_destroy_unlinked)

lemma cleanup_Inr:
  assumes "cleanup mgr r tclone res tr = Inr c"
  shows "cr_result c = res \<and> cr_request c = None"
  using assms
  by (auto simp: cleanup_def split: sum.splits)

lemma unlink_Inr:
  assumes "unlink p mgr r res tr = Inr c"
  shows "cr_result c = res \<and> cr_request c = None"
  using assms by (auto simp: unlink_def dest!: cleanup_Inr)

lemma set_timer_trace:
  assumes "set_timer E timeout udpresend tr = (res, tr')"
  shows "res = ISC_R_SUCCESS \<longrightarrow>
           tr' = tr @ [TimerReset (if udpresend \<noteq> 0 then isc_timertype_limited
                                   else isc_timertype_once) timeout udpresend]"
  using assms by (auto simp: set_timer_def Let_def split: if_splits)

lemma req_getsocket_destaddr [simp]:
  "req_getsocket E (r\<lparr>destaddr := a\<rparr>) = req_getsocket E r"
  by (simp add: req_getsocket_def split: option.splits)

lemma arm_and_start_success:
  assumes "arm_and_start E p mgr r tcp connected timeout u dest sock tr = Inr c"
    and "cr_result c = ISC_R_SUCCESS"
  shows "cr_mgr c = mgr
    \<and> (\<exists>ev. cr_trace c = tr @ [TimerReset (if tcp \<or> u = 0 then isc_timertype_once
                                             else isc_timertype_limited)
                                 timeout (if tcp then 0 else u), ev]
         \<and> (if tcp \<and> \<not> connected
             then ev = SocketConnect sock dest
                  \<and> cr_request c = Some (r\<lparr>destaddr := dest,
                        flags := flags r OR (DNS_REQUEST_F_CONNECTING OR DNS_REQUEST_F_TCP)\<rparr>)
             else (\<exists>s q. req_getsocket E r = Inr (Some s) \<and> query r = Some q
                     \<and> ev = SocketSendto s q (if connected then None else Some dest))
                  \<and> cr_request c = Some (r\<lparr>destaddr := dest,
                        flags := flags r OR DNS_REQUEST_F_SENDING\<rparr>)))"
  using assms
  by (auto simp: arm_and_start_def Let_def
      split: prod.splits if_splits sum.splits
      dest!: set_timer_trace unlink_Inr req_send_Inr)

lemma arm_and_start_failure:
  assumes "arm_and_start E p mgr r tcp connected timeout u dest sock tr = Inr c"
    and "cr_result c \<noteq> ISC_R_SUCCESS"
  shows "cr_request c = None"
  using assms
  by (auto simp: arm_and_start_def Let_def
      split: prod.splits if_splits sum.splits
      dest!: unlink_Inr)

lemma req_render_cases:
  assumes "req_render E msgid options tr = (res, buf, tr')"
  shows "(\<exists>added. tr' = tr @ added \<and> staging added \<and> \<not> tcp_acquired added)
    \<and> (res = ISC_R_SUCCESS \<longrightarrow>
          rendered_query E (DNS_REQUESTOPT_CASE \<in> options) (DNS_REQUESTOPT_TCP \<in> options) buf)"
proof -
  have "res = ISC_R_SUCCESS \<longrightarrow>
          rendered_query E (DNS_REQUESTOPT_CASE \<in> options) (DNS_REQUESTOPT_TCP \<in> options) buf"
  proof
    assume ok: "res = ISC_R_SUCCESS"
    obtain result wire where mr:
      "message_render E tr msgid (DNS_REQUESTOPT_CASE \<in> options) = (result, wire)"
      by (cases "message_render E tr msgid (DNS_REQUESTOPT_CASE \<in> options)")
    from assms ok mr have "result = ISC_R_SUCCESS \<and> length wire \<le> 65535
        \<and> (DNS_REQUESTOPT_TCP \<notin> options \<longrightarrow> length wire \<le> 512)
        \<and> buf = (if DNS_REQUESTOPT_TCP \<in> options
                  then putuint16 (of_nat (length wire)) else []) @ wire"
      by (auto simp: req_render_def Let_def split: if_splits)
    with mr show "rendered_query E (DNS_REQUESTOPT_CASE \<in> options)
        (DNS_REQUESTOPT_TCP \<in> options) buf"
      unfolding rendered_query_def by blast
  qed
  moreover from assms
  have "\<exists>added. tr' = tr @ added \<and> staging added \<and> \<not> tcp_acquired added"
    by (auto simp: req_render_def Let_def engages_def split: prod.splits if_splits)
  ultimately show ?thesis by blast
qed

lemma via_use_tcp_tcp:
  "DNS_REQUESTOPT_TCP \<in> options \<Longrightarrow>
   via_use_tcp E mgr srcaddr dest dscpv options settsigkey connected r tr =
     (case get_dispatch E True False (DNS_REQUESTOPT_SHARE \<in> options) mgr srcaddr dest dscpv
             connected tr of
        (result, connected1, disp, tr1) \<Rightarrow>
          if result \<noteq> ISC_R_SUCCESS then Inr (NotRendered result r tr1)
          else
            (case dispatch_addresponse E tr1 disp None of
               (result2, msgid, entry) \<Rightarrow>
                 let tr2 = tr1 @ [DispatchAddResponse disp None];
                     r2 = r\<lparr>dispatch := Some disp, dispentry := Some entry\<rparr>
                 in if result2 \<noteq> ISC_R_SUCCESS
                    then Inr (NotRendered result2 (r\<lparr>dispatch := Some disp\<rparr>) tr2)
                    else
                      (case req_getsocket E r2 of
                         Inl f \<Rightarrow> Inl f
                       | Inr None \<Rightarrow> Inl AssertionFailed
                       | Inr (Some sock) \<Rightarrow>
                           let result3 = (if settsigkey then message_settsigkey E tr2
                                          else ISC_R_SUCCESS);
                               tr3 = (if settsigkey then tr2 @ [MessageSetTsigKey] else tr2)
                           in if result3 \<noteq> ISC_R_SUCCESS then Inr (NotRendered result3 r2 tr3)
                              else
                                (case req_render E msgid options tr3 of
                                   (result4, buf, tr4) \<Rightarrow>
                                     if result4 \<noteq> ISC_R_SUCCESS
                                     then Inr (NotRendered result4 r2 tr4)
                                     else Inr (Rendered (r2\<lparr>query := Some buf\<rparr>)
                                                 True connected1 sock tr4)))))"
  by (subst via_use_tcp.simps) (simp add: Let_def split: prod.splits sum.splits option.splits)

lemma via_use_tcp_udp:
  "DNS_REQUESTOPT_TCP \<notin> options \<Longrightarrow>
   via_use_tcp E mgr srcaddr dest dscpv options settsigkey connected r tr =
     (case get_dispatch E False False (DNS_REQUESTOPT_SHARE \<in> options) mgr srcaddr dest dscpv
             connected tr of
        (result, connected1, disp, tr1) \<Rightarrow>
          if result \<noteq> ISC_R_SUCCESS then Inr (NotRendered result r tr1)
          else
            (case dispatch_addresponse E tr1 disp None of
               (result2, msgid, entry) \<Rightarrow>
                 let tr2 = tr1 @ [DispatchAddResponse disp None];
                     r2 = r\<lparr>dispatch := Some disp, dispentry := Some entry\<rparr>
                 in if result2 \<noteq> ISC_R_SUCCESS
                    then Inr (NotRendered result2 (r\<lparr>dispatch := Some disp\<rparr>) tr2)
                    else
                      (case req_getsocket E r2 of
                         Inl f \<Rightarrow> Inl f
                       | Inr None \<Rightarrow> Inl AssertionFailed
                       | Inr (Some sock) \<Rightarrow>
                           let result3 = (if settsigkey then message_settsigkey E tr2
                                          else ISC_R_SUCCESS);
                               tr3 = (if settsigkey then tr2 @ [MessageSetTsigKey] else tr2)
                           in if result3 \<noteq> ISC_R_SUCCESS then Inr (NotRendered result3 r2 tr3)
                              else
                                (case req_render E msgid options tr3 of
                                   (result4, buf, tr4) \<Rightarrow>
                                     if result4 = DNS_R_USETCP
                                     then via_use_tcp E mgr srcaddr dest dscpv
                                            (insert DNS_REQUESTOPT_TCP options) False connected1
                                            (r\<lparr>dispentry := None, dispatch := None\<rparr>)
                                            (tr4 @ [MessageRenderReset,
                                                    DispatchRemoveResponse entry,
                                                    DispatchDetach disp])
                                     else if result4 \<noteq> ISC_R_SUCCESS
                                     then Inr (NotRendered result4 r2 tr4)
                                     else Inr (Rendered (r2\<lparr>query := Some buf\<rparr>)
                                                 False connected1 sock tr4)))))"
  apply (subst via_use_tcp.simps)
  apply (simp only: Let_def)
  apply (clarsimp split: prod.splits sum.splits option.splits)
  done

lemma via_use_tcp_tcp_Rendered:
  assumes tcpopt: "DNS_REQUESTOPT_TCP \<in> options"
    and h: "via_use_tcp E mgr srcaddr dest dscpv options settsigkey connected r tr
           = Inr (Rendered r' tcp conn sock tr')"
  shows "tcp \<and> (\<exists>d e buf. dispatch r' = Some d \<and> dispentry r' = Some e \<and> query r' = Some buf
                  \<and> r' = r\<lparr>dispatch := Some d, dispentry := Some e, query := Some buf\<rparr>
                  \<and> rendered_query E (DNS_REQUESTOPT_CASE \<in> options) True buf)
         \<and> (\<exists>added. tr' = tr @ added \<and> staging added \<and> tcp_acquired added)"
proof -
  obtain res c1 d tr1 where
    g: "get_dispatch E True False (DNS_REQUESTOPT_SHARE \<in> options) mgr srcaddr dest dscpv
          connected tr = (res, c1, d, tr1)"
    by (metis prod_cases4)
  from get_dispatch_trace [OF g] obtain a1 where
    a1: "tr1 = tr @ a1" "staging a1" "tcp_acquired a1"
    by auto
  obtain res2 msgid e where ar: "dispatch_addresponse E tr1 d None = (res2, msgid, e)"
    by (metis prod_cases3)
  define tr3 where "tr3 = (if settsigkey then tr1 @ [DispatchAddResponse d None, MessageSetTsigKey]
                           else tr1 @ [DispatchAddResponse d None])"
  obtain res4 buf tr4 where rr: "req_render E msgid options tr3 = (res4, buf, tr4)"
    by (metis prod_cases3)
  from h g ar rr have facts: "res4 = ISC_R_SUCCESS" "tcp"
    "r' = r\<lparr>dispatch := Some d, dispentry := Some e, query := Some buf\<rparr>" "tr' = tr4"
    unfolding via_use_tcp_tcp [OF tcpopt] tr3_def
    by (simp_all add: Let_def split: if_splits sum.splits option.splits)
  from req_render_cases [OF rr] facts tcpopt obtain a4 where
    a4: "tr4 = tr3 @ a4" "staging a4"
    and rq: "rendered_query E (DNS_REQUESTOPT_CASE \<in> options) True buf"
    by auto
  from facts a1 a4 rq show ?thesis
    by (auto simp: tr3_def engages_def)
qed

lemma via_use_tcp_tcp_NotRendered:
  assumes tcpopt: "DNS_REQUESTOPT_TCP \<in> options"
    and h: "via_use_tcp E mgr srcaddr dest dscpv options settsigkey connected r tr
           = Inr (NotRendered res r' tr')"
  shows "res \<noteq> ISC_R_SUCCESS \<and> requestmgr r' = requestmgr r
         \<and> (\<exists>added. tr' = tr @ added \<and> staging added)"
proof -
  obtain res1 c1 d tr1 where
    g: "get_dispatch E True False (DNS_REQUESTOPT_SHARE \<in> options) mgr srcaddr dest dscpv
          connected tr = (res1, c1, d, tr1)"
    by (metis prod_cases4)
  from get_dispatch_trace [OF g] obtain a1 where
    a1: "tr1 = tr @ a1" "staging a1"
    by auto
  obtain res2 msgid e where ar: "dispatch_addresponse E tr1 d None = (res2, msgid, e)"
    by (metis prod_cases3)
  define tr3 where "tr3 = (if settsigkey then tr1 @ [DispatchAddResponse d None, MessageSetTsigKey]
                           else tr1 @ [DispatchAddResponse d None])"
  obtain res4 buf tr4 where rr: "req_render E msgid options tr3 = (res4, buf, tr4)"
    by (metis prod_cases3)
  from req_render_cases [OF rr] obtain a4 where a4: "tr4 = tr3 @ a4" "staging a4"
    by auto
  from h g ar rr have "res \<noteq> ISC_R_SUCCESS \<and> requestmgr r' = requestmgr r
      \<and> tr' \<in> {tr1, tr1 @ [DispatchAddResponse d None], tr3, tr4}"
    unfolding via_use_tcp_tcp [OF tcpopt] tr3_def
    by (auto simp add: Let_def split: if_splits sum.splits option.splits)
  with a1 a4 show ?thesis
    by (auto simp: tr3_def engages_def)
qed

lemma via_use_tcp_Rendered:
  assumes h: "via_use_tcp E mgr srcaddr dest dscpv options settsigkey False r tr
           = Inr (Rendered r' tcp conn sock tr')"
  shows "(conn \<longrightarrow> tcp)
         \<and> (\<exists>d e buf. dispatch r' = Some d \<and> dispentry r' = Some e \<and> query r' = Some buf
                  \<and> r' = r\<lparr>dispatch := Some d, dispentry := Some e, query := Some buf\<rparr>
                  \<and> rendered_query E (DNS_REQUESTOPT_CASE \<in> options) tcp buf)
         \<and> (\<exists>added. tr' = tr @ added \<and> staging added \<and> tcp_acquired added = tcp)"
proof (cases "DNS_REQUESTOPT_TCP \<in> options")
  case True
  from via_use_tcp_tcp_Rendered [OF True h] show ?thesis by auto
next
  case False
  obtain res c1 d tr1 where
    g: "get_dispatch E False False (DNS_REQUESTOPT_SHARE \<in> options) mgr srcaddr dest dscpv
          False tr = (res, c1, d, tr1)"
    by (metis prod_cases4)
  from get_dispatch_trace [OF g] obtain a1 where
    a1: "tr1 = tr @ a1" "staging a1" "\<not> tcp_acquired a1" and c1: "\<not> c1"
    by auto
  obtain res2 msgid e where ar: "dispatch_addresponse E tr1 d None = (res2, msgid, e)"
    by (metis prod_cases3)
  define tr3 where "tr3 = (if settsigkey then tr1 @ [DispatchAddResponse d None, MessageSetTsigKey]
                           else tr1 @ [DispatchAddResponse d None])"
  obtain res4 buf tr4 where rr: "req_render E msgid options tr3 = (res4, buf, tr4)"
    by (metis prod_cases3)
  from req_render_cases [OF rr] obtain a4 where
    a4: "tr4 = tr3 @ a4" "staging a4" "\<not> tcp_acquired a4"
    and rq: "res4 = ISC_R_SUCCESS \<longrightarrow>
               rendered_query E (DNS_REQUESTOPT_CASE \<in> options) False buf"
    using False by auto
  show ?thesis
  proof (cases "res4 = DNS_R_USETCP")
    case True
    with h g ar rr c1 have
      again: "via_use_tcp E mgr srcaddr dest dscpv (insert DNS_REQUESTOPT_TCP options) False False
                (r\<lparr>dispentry := None, dispatch := None\<rparr>)
                (tr4 @ [MessageRenderReset, DispatchRemoveResponse e, DispatchDetach d])
              = Inr (Rendered r' tcp conn sock tr')"
      unfolding via_use_tcp_udp [OF False] tr3_def
      by (simp add: Let_def split: if_splits sum.splits option.splits)
    from via_use_tcp_tcp_Rendered [OF _ again] obtain d2 e2 buf2 a5 where
      "tcp" "r' = r\<lparr>dispentry := None, dispatch := None\<rparr>
                   \<lparr>dispatch := Some d2, dispentry := Some e2, query := Some buf2\<rparr>"
      "rendered_query E (DNS_REQUESTOPT_CASE \<in> options) True buf2"
      "tr' = (tr4 @ [MessageRenderReset, DispatchRemoveResponse e, DispatchDetach d]) @ a5"
      "staging a5" "tcp_acquired a5"
      by auto
    with a1 a4 show ?thesis by (auto simp: tr3_def engages_def)
  next
    case nt: False
    with h g ar rr have facts: "res4 = ISC_R_SUCCESS" "\<not> tcp" "conn = c1"
      "r' = r\<lparr>dispatch := Some d, dispentry := Some e, query := Some buf\<rparr>" "tr' = tr4"
      unfolding via_use_tcp_udp [OF False] tr3_def
      by (simp_all add: Let_def split: if_splits sum.splits option.splits)
    with a1 a4 rq c1 show ?thesis by (auto simp: tr3_def engages_def)
  qed
qed

lemma via_use_tcp_NotRendered:
  assumes h: "via_use_tcp E mgr srcaddr dest dscpv options settsigkey False r tr
           = Inr (NotRendered res r' tr')"
  shows "res \<noteq> ISC_R_SUCCESS \<and> requestmgr r' = requestmgr r
         \<and> (\<exists>added. tr' = tr @ added \<and> staging added)"
proof (cases "DNS_REQUESTOPT_TCP \<in> options")
  case True
  from via_use_tcp_tcp_NotRendered [OF True h] show ?thesis .
next
  case False
  obtain res1 c1 d tr1 where
    g: "get_dispatch E False False (DNS_REQUESTOPT_SHARE \<in> options) mgr srcaddr dest dscpv
          False tr = (res1, c1, d, tr1)"
    by (metis prod_cases4)
  from get_dispatch_trace [OF g] obtain a1 where
    a1: "tr1 = tr @ a1" "staging a1" and c1: "\<not> c1"
    by auto
  obtain res2 msgid e where ar: "dispatch_addresponse E tr1 d None = (res2, msgid, e)"
    by (metis prod_cases3)
  define tr3 where "tr3 = (if settsigkey then tr1 @ [DispatchAddResponse d None, MessageSetTsigKey]
                           else tr1 @ [DispatchAddResponse d None])"
  obtain res4 buf tr4 where rr: "req_render E msgid options tr3 = (res4, buf, tr4)"
    by (metis prod_cases3)
  from req_render_cases [OF rr] obtain a4 where a4: "tr4 = tr3 @ a4" "staging a4"
    by auto
  show ?thesis
  proof (cases "res1 = ISC_R_SUCCESS \<and> res2 = ISC_R_SUCCESS
                \<and> (settsigkey \<longrightarrow> message_settsigkey E (tr1 @ [DispatchAddResponse d None])
                      = ISC_R_SUCCESS)
                \<and> res4 = DNS_R_USETCP")
    case True
    with h g ar rr c1 have
      again: "via_use_tcp E mgr srcaddr dest dscpv (insert DNS_REQUESTOPT_TCP options) False False
                (r\<lparr>dispentry := None, dispatch := None\<rparr>)
                (tr4 @ [MessageRenderReset, DispatchRemoveResponse e, DispatchDetach d])
              = Inr (NotRendered res r' tr')"
      unfolding via_use_tcp_udp [OF False] tr3_def
      by (simp add: Let_def split: if_splits sum.splits option.splits)
    from via_use_tcp_tcp_NotRendered [OF _ again] obtain a5 where
      "res \<noteq> ISC_R_SUCCESS" "requestmgr r' = requestmgr r"
      "tr' = (tr4 @ [MessageRenderReset, DispatchRemoveResponse e, DispatchDetach d]) @ a5"
      "staging a5"
      by auto
    with a1 a4 show ?thesis by (auto simp: tr3_def engages_def)
  next
    case nt: False
    with h g ar rr have "res \<noteq> ISC_R_SUCCESS \<and> requestmgr r' = requestmgr r
      \<and> tr' \<in> {tr1, tr1 @ [DispatchAddResponse d None], tr3, tr4}"
      unfolding via_use_tcp_udp [OF False] tr3_def
      by (auto simp add: Let_def split: if_splits sum.splits option.splits)
    with a1 a4 show ?thesis by (auto simp: tr3_def engages_def)
  qed
qed

subsection \<open>The control paths of the factories\<close>

lemma createraw_cases [consumes 1, case_names blackholed notimer formerr notregistered refused admitted]:
  assumes c: "dns_request_createraw E mgr msgbuf srcaddr dest dscpv options timeout udptimeout
                udpretries tr = Inr c"
  obtains
    "c = \<lparr>cr_result = DNS_R_BLACKHOLED, cr_request = None, cr_mgr = mgr, cr_trace = tr\<rparr>"
  | p h a where "mem_get E tr = (p, h, a)" "timer_create E (tr @ [MemGet]) \<noteq> ISC_R_SUCCESS"
      "cleanup mgr ((new_request h a)\<lparr>udpcount := udpretries, dscp := dscpv\<rparr>) False
         (timer_create E (tr @ [MemGet])) (tr @ [MemGet, TimerCreate]) = Inr c"
  | p h a where "mem_get E tr = (p, h, a)"
      "cleanup mgr ((new_request h a)\<lparr>udpcount := udpretries, dscp := dscpv, timer := True,
                                 event := Some ISC_R_FAILURE\<rparr>) True DNS_R_FORMERR
         (tr @ [MemGet, TimerCreate, EventAllocate, TaskAttach]) = Inr c"
  | p h a res r2 tr2 where "mem_get E tr = (p, h, a)"
      "raw_again E mgr (DNS_REQUESTOPT_TCP \<in> options \<or> 512 < length msgbuf)
         (DNS_REQUESTOPT_SHARE \<in> options) srcaddr dest dscpv
         (DNS_REQUESTOPT_FIXEDID \<in> options) msgbuf False False
         ((new_request h a)\<lparr>udpcount := udpretries, dscp := dscpv, timer := True,
                        event := Some ISC_R_FAILURE\<rparr>)
         (tr @ [MemGet, TimerCreate, EventAllocate, TaskAttach]) = NotRegistered res r2 tr2"
      "cleanup mgr r2 True res tr2 = Inr c"
  | p h a r2 conn msgid tr2 sock where "mem_get E tr = (p, h, a)"
      "raw_again E mgr (DNS_REQUESTOPT_TCP \<in> options \<or> 512 < length msgbuf)
         (DNS_REQUESTOPT_SHARE \<in> options) srcaddr dest dscpv
         (DNS_REQUESTOPT_FIXEDID \<in> options) msgbuf False False
         ((new_request h a)\<lparr>udpcount := udpretries, dscp := dscpv, timer := True,
                        event := Some ISC_R_FAILURE\<rparr>)
         (tr @ [MemGet, TimerCreate, EventAllocate, TaskAttach]) = Registered r2 conn msgid tr2"
      "req_getsocket E r2 = Inr (Some sock)"
      "exiting mgr"
      "cleanup mgr
         (r2\<lparr>query := Some (raw_query (DNS_REQUESTOPT_TCP \<in> options \<or> 512 < length msgbuf)
                                msgid msgbuf)\<rparr>)
         True ISC_R_SHUTTINGDOWN (tr2 @ [MgrLock, MgrUnlock]) = Inr c"
  | p h a r2 conn msgid tr2 sock u where "mem_get E tr = (p, h, a)"
      "derive_udptimeout timeout udptimeout udpretries = Inr u"
      "DNS_MESSAGE_HEADERLEN \<le> length msgbuf" "length msgbuf \<le> 65535"
      "raw_again E mgr (DNS_REQUESTOPT_TCP \<in> options \<or> 512 < length msgbuf)
         (DNS_REQUESTOPT_SHARE \<in> options) srcaddr dest dscpv
         (DNS_REQUESTOPT_FIXEDID \<in> options) msgbuf False False
         ((new_request h a)\<lparr>udpcount := udpretries, dscp := dscpv, timer := True,
                        event := Some ISC_R_FAILURE\<rparr>)
         (tr @ [MemGet, TimerCreate, EventAllocate, TaskAttach]) = Registered r2 conn msgid tr2"
      "req_getsocket E r2 = Inr (Some sock)"
      "\<not> exiting mgr"
      "arm_and_start E p
         (mgr\<lparr>iref := iref mgr + 1, mgr_hash := mgr_hash mgr + 1,
              requests := requests mgr @ [p]\<rparr>)
         (r2\<lparr>query := Some (raw_query (DNS_REQUESTOPT_TCP \<in> options \<or> 512 < length msgbuf)
                                msgid msgbuf),
             requestmgr := True, hash := unat (mgr_hash mgr + 1) mod DNS_REQUEST_NLOCKS\<rparr>)
         (DNS_REQUESTOPT_TCP \<in> options \<or> 512 < length msgbuf) conn timeout u dest sock
         (tr2 @ [MgrLock, MgrUnlock]) = Inr c"
proof -
  note d = dns_request_createraw_def Let_def admit_def mgr_gethash_def
  have t: "0 < timeout"
    using c by (cases "0 < timeout") (simp_all add: d split del: if_split)
  have fam: "\<not> (case srcaddr of None \<Rightarrow> False | Some s \<Rightarrow> sa_family s \<noteq> sa_family dest)"
    using c t
    by (cases "case srcaddr of None \<Rightarrow> False | Some s \<Rightarrow> sa_family s \<noteq> sa_family dest")
       (simp_all add: d split del: if_split)
  show thesis
  proof (cases "isblackholed E dest")
    case True
    with c t fam
    have "c = \<lparr>cr_result = DNS_R_BLACKHOLED, cr_request = None, cr_mgr = mgr, cr_trace = tr\<rparr>"
      by (auto simp add: d split del: if_split)
    then show thesis by (rule that(1))
  next
    case nb: False
    obtain p h a where m: "mem_get E tr = (p, h, a)" by (metis prod_cases3)
    obtain u where u: "derive_udptimeout timeout udptimeout udpretries = Inr u"
    proof (cases "derive_udptimeout timeout udptimeout udpretries")
      case (Inl f)
      with c t fam nb m have False by (simp add: d split del: if_split)
      then show thesis ..
    next
      case (Inr u)
      then show thesis by (rule that)
    qed
    show thesis
    proof (cases "timer_create E (tr @ [MemGet]) = ISC_R_SUCCESS")
      case False
      with c t fam nb m u
      have "cleanup mgr ((new_request h a)\<lparr>udpcount := udpretries, dscp := dscpv\<rparr>) False
              (timer_create E (tr @ [MemGet])) (tr @ [MemGet, TimerCreate]) = Inr c"
        by (simp add: d split del: if_split)
      with m False show thesis by (rule that(2))
    next
      case tc: True
      show thesis
      proof (cases "length msgbuf < DNS_MESSAGE_HEADERLEN \<or> 65535 < length msgbuf")
        case True
        with c t fam nb m u tc
        have "cleanup mgr ((new_request h a)\<lparr>udpcount := udpretries, dscp := dscpv, timer := True,
                                 event := Some ISC_R_FAILURE\<rparr>) True DNS_R_FORMERR
                (tr @ [MemGet, TimerCreate, EventAllocate, TaskAttach]) = Inr c"
          by (simp add: d split del: if_split)
        with m show thesis by (rule that(3))
      next
        case len: False
        show thesis
        proof (cases "raw_again E mgr (DNS_REQUESTOPT_TCP \<in> options \<or> 512 < length msgbuf)
             (DNS_REQUESTOPT_SHARE \<in> options) srcaddr dest dscpv
             (DNS_REQUESTOPT_FIXEDID \<in> options) msgbuf False False
             ((new_request h a)\<lparr>udpcount := udpretries, dscp := dscpv, timer := True,
                            event := Some ISC_R_FAILURE\<rparr>)
             (tr @ [MemGet, TimerCreate, EventAllocate, TaskAttach])")
          case (NotRegistered res r2 tr2)
          with c t fam nb m u tc len have "cleanup mgr r2 True res tr2 = Inr c"
            by (simp add: d split del: if_split)
          with m NotRegistered show thesis by (rule that(4))
        next
          case (Registered r2 conn msgid tr2)
          obtain sock where sk: "req_getsocket E r2 = Inr (Some sock)"
          proof (cases "req_getsocket E r2")
            case (Inl f)
            with c t fam nb m u tc len Registered have False
              by (simp add: d split del: if_split)
            then show thesis ..
          next
            case (Inr so)
            show thesis
            proof (cases so)
              case None
              with Inr c t fam nb m u tc len Registered have False
                by (simp add: d split del: if_split)
              then show thesis ..
            next
              case (Some sock)
              with Inr show thesis by (simp add: that)
            qed
          qed
          show thesis
          proof (cases "exiting mgr")
            case True
            with c t fam nb m u tc len Registered sk
            have "cleanup mgr
                    (r2\<lparr>query := Some (raw_query
                          (DNS_REQUESTOPT_TCP \<in> options \<or> 512 < length msgbuf) msgid msgbuf)\<rparr>)
                    True ISC_R_SHUTTINGDOWN (tr2 @ [MgrLock, MgrUnlock]) = Inr c"
              by (simp add: d split del: if_split)
            with m Registered sk True show thesis by (rule that(5))
          next
            case ne: False
            with c t fam nb m u tc len Registered sk
            have "arm_and_start E p
                   (mgr\<lparr>iref := iref mgr + 1, mgr_hash := mgr_hash mgr + 1,
                        requests := requests mgr @ [p]\<rparr>)
                   (r2\<lparr>query := Some (raw_query
                          (DNS_REQUESTOPT_TCP \<in> options \<or> 512 < length msgbuf) msgid msgbuf),
                       requestmgr := True,
                       hash := unat (mgr_hash mgr + 1) mod DNS_REQUEST_NLOCKS\<rparr>)
                   (DNS_REQUESTOPT_TCP \<in> options \<or> 512 < length msgbuf) conn timeout u dest
                   sock (tr2 @ [MgrLock, MgrUnlock]) = Inr c"
              by (simp add: d split del: if_split)
            with m u len Registered sk ne show thesis by (intro that(6)) auto
          qed
        qed
      qed
    qed
  qed
qed

lemma createvia_cases [consumes 1, case_names mismatch blackholed notimer notrendered notsig refused admitted]:
  assumes c: "dns_request_createvia E mgr srcaddr dest dscpv options key timeout udptimeout
                udpretries tr = Inr c"
  obtains
    "c = \<lparr>cr_result = ISC_R_FAMILYMISMATCH, cr_request = None, cr_mgr = mgr, cr_trace = tr\<rparr>"
  | "c = \<lparr>cr_result = DNS_R_BLACKHOLED, cr_request = None, cr_mgr = mgr, cr_trace = tr\<rparr>"
  | p h a where "mem_get E tr = (p, h, a)" "timer_create E (tr @ [MemGet]) \<noteq> ISC_R_SUCCESS"
      "cleanup mgr ((new_request h a)\<lparr>udpcount := udpretries, dscp := dscpv\<rparr>) False
         (timer_create E (tr @ [MemGet])) (tr @ [MemGet, TimerCreate]) = Inr c"
  | p h a res r2 tr2 where "mem_get E tr = (p, h, a)"
      "via_use_tcp E mgr srcaddr dest dscpv options True False
         ((new_request h a)\<lparr>udpcount := udpretries, dscp := dscpv, timer := True,
                        event := Some ISC_R_FAILURE, tsigkey := key\<rparr>)
         (tr @ [MemGet, TimerCreate, EventAllocate, TaskAttach]) = Inr (NotRendered res r2 tr2)"
      "cleanup mgr r2 True res tr2 = Inr c"
  | p h a r2 tcp conn sock tr2 where "mem_get E tr = (p, h, a)"
      "via_use_tcp E mgr srcaddr dest dscpv options True False
         ((new_request h a)\<lparr>udpcount := udpretries, dscp := dscpv, timer := True,
                        event := Some ISC_R_FAILURE, tsigkey := key\<rparr>)
         (tr @ [MemGet, TimerCreate, EventAllocate, TaskAttach]) = Inr (Rendered r2 tcp conn sock tr2)"
      "fst (message_getquerytsig E tr2) \<noteq> ISC_R_SUCCESS"
      "cleanup mgr r2 True (fst (message_getquerytsig E tr2)) tr2 = Inr c"
  | p h a r2 tcp conn sock tr2 where "mem_get E tr = (p, h, a)"
      "via_use_tcp E mgr srcaddr dest dscpv options True False
         ((new_request h a)\<lparr>udpcount := udpretries, dscp := dscpv, timer := True,
                        event := Some ISC_R_FAILURE, tsigkey := key\<rparr>)
         (tr @ [MemGet, TimerCreate, EventAllocate, TaskAttach]) = Inr (Rendered r2 tcp conn sock tr2)"
      "fst (message_getquerytsig E tr2) = ISC_R_SUCCESS"
      "exiting mgr"
      "cleanup mgr (r2\<lparr>tsig := snd (message_getquerytsig E tr2)\<rparr>) True
         ISC_R_SHUTTINGDOWN (tr2 @ [MgrLock, MgrUnlock]) = Inr c"
  | p h a r2 tcp conn sock tr2 u where "mem_get E tr = (p, h, a)"
      "derive_udptimeout timeout udptimeout udpretries = Inr u"
      "via_use_tcp E mgr srcaddr dest dscpv options True False
         ((new_request h a)\<lparr>udpcount := udpretries, dscp := dscpv, timer := True,
                        event := Some ISC_R_FAILURE, tsigkey := key\<rparr>)
         (tr @ [MemGet, TimerCreate, EventAllocate, TaskAttach]) = Inr (Rendered r2 tcp conn sock tr2)"
      "fst (message_getquerytsig E tr2) = ISC_R_SUCCESS"
      "\<not> exiting mgr"
      "arm_and_start E p
         (mgr\<lparr>iref := iref mgr + 1, mgr_hash := mgr_hash mgr + 1,
              requests := requests mgr @ [p]\<rparr>)
         (r2\<lparr>tsig := snd (message_getquerytsig E tr2), requestmgr := True,
             hash := unat (mgr_hash mgr + 1) mod DNS_REQUEST_NLOCKS\<rparr>)
         tcp conn timeout u dest sock (tr2 @ [MgrLock, MgrUnlock]) = Inr c"
proof -
  note d = dns_request_createvia_def Let_def admit_def mgr_gethash_def
  have t: "0 < timeout"
    using c by (cases "0 < timeout") (simp_all add: d split del: if_split)
  show thesis
  proof (cases "case srcaddr of None \<Rightarrow> False | Some s \<Rightarrow> sa_family s \<noteq> sa_family dest")
    case True
    with c t
    have "c = \<lparr>cr_result = ISC_R_FAMILYMISMATCH, cr_request = None, cr_mgr = mgr,
                cr_trace = tr\<rparr>"
      by (auto simp add: d split del: if_split)
    then show thesis by (rule that(1))
  next
    case fam: False
    show thesis
    proof (cases "isblackholed E dest")
      case True
      with c t fam
      have "c = \<lparr>cr_result = DNS_R_BLACKHOLED, cr_request = None, cr_mgr = mgr, cr_trace = tr\<rparr>"
        by (auto simp add: d split del: if_split)
      then show thesis by (rule that(2))
    next
      case nb: False
      obtain p h a where m: "mem_get E tr = (p, h, a)" by (metis prod_cases3)
      obtain u where u: "derive_udptimeout timeout udptimeout udpretries = Inr u"
      proof (cases "derive_udptimeout timeout udptimeout udpretries")
        case (Inl f)
        with c t fam nb m have False by (simp add: d split del: if_split)
        then show thesis ..
      next
        case (Inr u)
        then show thesis by (rule that)
      qed
      show thesis
      proof (cases "timer_create E (tr @ [MemGet]) = ISC_R_SUCCESS")
        case False
        with c t fam nb m u
        have "cleanup mgr ((new_request h a)\<lparr>udpcount := udpretries, dscp := dscpv\<rparr>) False
                (timer_create E (tr @ [MemGet])) (tr @ [MemGet, TimerCreate]) = Inr c"
          by (simp add: d split del: if_split)
        with m False show thesis by (rule that(3))
      next
        case tc: True
        show thesis
        proof (cases "via_use_tcp E mgr srcaddr dest dscpv options True False
             ((new_request h a)\<lparr>udpcount := udpretries, dscp := dscpv, timer := True,
                            event := Some ISC_R_FAILURE, tsigkey := key\<rparr>)
             (tr @ [MemGet, TimerCreate, EventAllocate, TaskAttach])")
          case (Inl f)
          with c t fam nb m u tc have False by (simp add: d split del: if_split)
          then show thesis ..
        next
          case (Inr rend)
          show thesis
          proof (cases rend)
            case (NotRendered res r2 tr2)
            with Inr c t fam nb m u tc have "cleanup mgr r2 True res tr2 = Inr c"
              by (simp add: d split del: if_split)
            with m Inr NotRendered show thesis by (intro that(4)) auto
          next
            case (Rendered r2 tcp conn sock tr2)
            obtain res qt where q: "message_getquerytsig E tr2 = (res, qt)"
              by (cases "message_getquerytsig E tr2")
            show thesis
            proof (cases "res = ISC_R_SUCCESS")
              case False
              with Inr Rendered q c t fam nb m u tc have "cleanup mgr r2 True res tr2 = Inr c"
                by (simp add: d split del: if_split)
              with m Inr Rendered q False show thesis by (intro that(5)) auto
            next
              case ok: True
              show thesis
              proof (cases "exiting mgr")
                case True
                with Inr Rendered q ok c t fam nb m u tc
                have "cleanup mgr (r2\<lparr>tsig := qt\<rparr>) True ISC_R_SHUTTINGDOWN (tr2 @ [MgrLock, MgrUnlock]) = Inr c"
                  by (simp add: d split del: if_split)
                with m Inr Rendered q ok True show thesis by (intro that(6)) auto
              next
                case ne: False
                with Inr Rendered q ok c t fam nb m u tc
                have "arm_and_start E p
                       (mgr\<lparr>iref := iref mgr + 1, mgr_hash := mgr_hash mgr + 1,
                            requests := requests mgr @ [p]\<rparr>)
                       (r2\<lparr>tsig := qt, requestmgr := True,
                           hash := unat (mgr_hash mgr + 1) mod DNS_REQUEST_NLOCKS\<rparr>)
                       tcp conn timeout u dest sock (tr2 @ [MgrLock, MgrUnlock]) = Inr c"
                  by (simp add: d split del: if_split)
                with m Inr Rendered q ok ne u show thesis by (intro that(7)) auto
              qed
            qed
          qed
        qed
      qed
    qed
  qed
qed

subsection \<open>Creations that succeed\<close>

lemma req_getsocket_cong:
  "dispatch r = dispatch r' \<Longrightarrow> dispentry r = dispentry r' \<Longrightarrow>
   req_getsocket E r = req_getsocket E r'"
  by (simp add: req_getsocket_def split: option.splits)

lemma createraw_success [consumes 2, case_names success]:
  assumes c: "dns_request_createraw E mgr msgbuf srcaddr dest dscpv options timeout udptimeout
                udpretries tr = Inr c"
    and s: "cr_result c = ISC_R_SUCCESS"
  obtains p h a u d e msgid pre conn sock where
    "mem_get E tr = (p, h, a)"
    "derive_udptimeout timeout udptimeout udpretries = Inr u"
    "DNS_MESSAGE_HEADERLEN \<le> length msgbuf" "length msgbuf \<le> 65535"
    "\<not> exiting mgr"
    "staging pre"
    "tcp_acquired pre = (DNS_REQUESTOPT_TCP \<in> options \<or> 512 < length msgbuf)"
    "conn \<longrightarrow> tcp_acquired pre"
    "\<exists>hh idin. dispatch_addresponse E hh d idin = (ISC_R_SUCCESS, msgid, e)"
    "req_getsocket E ((new_request h a)\<lparr>dispatch := Some d, dispentry := Some e\<rparr>)
       = Inr (Some sock)"
    "arm_and_start E p
       (mgr\<lparr>iref := iref mgr + 1, mgr_hash := mgr_hash mgr + 1,
            requests := requests mgr @ [p]\<rparr>)
       ((new_request h a)\<lparr>udpcount := udpretries, dscp := dscpv, timer := True,
           event := Some ISC_R_FAILURE, dispatch := Some d, dispentry := Some e,
           query := Some (raw_query (tcp_acquired pre) msgid msgbuf),
           requestmgr := True, hash := unat (mgr_hash mgr + 1) mod DNS_REQUEST_NLOCKS\<rparr>)
       (tcp_acquired pre) conn timeout u dest sock
       (tr @ [MemGet, TimerCreate, EventAllocate, TaskAttach] @ pre @ [MgrLock, MgrUnlock])
     = Inr c"
  using c
proof (cases rule: createraw_cases)
  case blackholed
  with s show ?thesis by simp
next
  case (notimer p h a)
  from cleanup_Inr [OF notimer(3)] notimer(2) s show ?thesis by simp
next
  case (formerr p h a)
  from cleanup_Inr [OF formerr(2)] s show ?thesis by simp
next
  case (notregistered p h a res r2 tr2)
  from cleanup_Inr [OF notregistered(3)] raw_again_NotRegistered [OF notregistered(2)] s
  show ?thesis by simp
next
  case (refused p h a r2 conn msgid tr2 sock)
  from cleanup_Inr [OF refused(5)] s show ?thesis by simp
next
  case (admitted p h a r2 conn msgid tr2 sock u)
  note x = raw_again_Registered [OF admitted(5)]
  define tcp where "tcp = (DNS_REQUESTOPT_TCP \<in> options \<or> 512 < length msgbuf)"
  from x obtain d e where de:
    "r2 = (new_request h a)\<lparr>udpcount := udpretries, dscp := dscpv, timer := True,
                        event := Some ISC_R_FAILURE\<rparr>\<lparr>dispatch := Some d, dispentry := Some e\<rparr>"
    "\<exists>hh idin. dispatch_addresponse E hh d idin = (ISC_R_SUCCESS, msgid, e)"
    by blast
  from x obtain pre where pre:
    "tr2 = (tr @ [MemGet, TimerCreate, EventAllocate, TaskAttach]) @ pre" "staging pre"
    "tcp_acquired pre = tcp"
    unfolding tcp_def by blast
  from x have cn: "conn \<longrightarrow> tcp_acquired pre" using pre(3) unfolding tcp_def by simp
  have sk: "req_getsocket E ((new_request h a)\<lparr>dispatch := Some d, dispentry := Some e\<rparr>)
       = Inr (Some sock)"
    using admitted(6) unfolding de(1)
    by (subst req_getsocket_cong [where r' = "(new_request h a)\<lparr>udpcount := udpretries,
          dscp := dscpv, timer := True, event := Some ISC_R_FAILURE, dispatch := Some d,
          dispentry := Some e\<rparr>"]) simp_all
  show ?thesis
    apply (rule that [OF admitted(1) admitted(2) admitted(3) admitted(4) admitted(7) pre(2) _ cn de(2) sk])
    using pre(3) tcp_def apply simp
    using admitted(8) unfolding de(1) pre(1) pre(3) tcp_def [symmetric]
    apply simp
    done
qed

lemma createvia_success [consumes 2, case_names success]:
  assumes c: "dns_request_createvia E mgr srcaddr dest dscpv options key timeout udptimeout
                udpretries tr = Inr c"
    and s: "cr_result c = ISC_R_SUCCESS"
  obtains p h a u d e buf pre conn sock qt where
    "mem_get E tr = (p, h, a)"
    "derive_udptimeout timeout udptimeout udpretries = Inr u"
    "\<not> exiting mgr"
    "staging pre"
    "DNS_REQUESTOPT_TCP \<in> options \<longrightarrow> tcp_acquired pre"
    "conn \<longrightarrow> tcp_acquired pre"
    "rendered_query E (DNS_REQUESTOPT_CASE \<in> options) (tcp_acquired pre) buf"
    "arm_and_start E p
       (mgr\<lparr>iref := iref mgr + 1, mgr_hash := mgr_hash mgr + 1,
            requests := requests mgr @ [p]\<rparr>)
       ((new_request h a)\<lparr>udpcount := udpretries, dscp := dscpv, timer := True,
           event := Some ISC_R_FAILURE, tsigkey := key, dispatch := Some d,
           dispentry := Some e, query := Some buf, tsig := qt,
           requestmgr := True, hash := unat (mgr_hash mgr + 1) mod DNS_REQUEST_NLOCKS\<rparr>)
       (tcp_acquired pre) conn timeout u dest sock
       (tr @ [MemGet, TimerCreate, EventAllocate, TaskAttach] @ pre @ [MgrLock, MgrUnlock])
     = Inr c"
  using c
proof (cases rule: createvia_cases)
  case mismatch
  with s show ?thesis by simp
next
  case blackholed
  with s show ?thesis by simp
next
  case (notimer p h a)
  from cleanup_Inr [OF notimer(3)] notimer(2) s show ?thesis by simp
next
  case (notrendered p h a res r2 tr2)
  from cleanup_Inr [OF notrendered(3)] via_use_tcp_NotRendered [OF notrendered(2)] s
  show ?thesis by simp
next
  case (notsig p h a r2 tcp conn sock tr2)
  from cleanup_Inr [OF notsig(4)] notsig(3) s show ?thesis by simp
next
  case (refused p h a r2 tcp conn sock tr2)
  from cleanup_Inr [OF refused(5)] s show ?thesis by simp
next
  case (admitted p h a r2 tcp conn sock tr2 u)
  note x = via_use_tcp_Rendered [OF admitted(3)]
  from x obtain d e buf where de:
    "r2 = (new_request h a)\<lparr>udpcount := udpretries, dscp := dscpv, timer := True,
            event := Some ISC_R_FAILURE, tsigkey := key\<rparr>
            \<lparr>dispatch := Some d, dispentry := Some e, query := Some buf\<rparr>"
    "rendered_query E (DNS_REQUESTOPT_CASE \<in> options) tcp buf"
    by blast
  from x obtain pre where pre:
    "tr2 = (tr @ [MemGet, TimerCreate, EventAllocate, TaskAttach]) @ pre" "staging pre"
    "tcp_acquired pre = tcp"
    by blast
  from x have cn: "conn \<longrightarrow> tcp_acquired pre" using pre(3) by simp
  have topt: "DNS_REQUESTOPT_TCP \<in> options \<longrightarrow> tcp_acquired pre"
  proof
    assume t: "DNS_REQUESTOPT_TCP \<in> options"
    from via_use_tcp_tcp_Rendered [OF t admitted(3)] pre(3) show "tcp_acquired pre" by simp
  qed
  show ?thesis
    apply (rule that [OF admitted(1) admitted(2) admitted(5) pre(2) topt cn])
    using de(2) pre(3) apply simp
    using admitted(6) unfolding de(1) pre(1) pre(3) [symmetric]
    apply simp
    done
qed







lemmas factory_defs = dns_request_createraw_def dns_request_createvia_def isblackholed_def
  derive_udptimeout_def new_request_def cleanup_def unlink_def req_destroy_def
  requestmgr_detach_def admit_def mgr_gethash_def arm_and_start_def set_timer_def
  get_dispatch_def create_tcp_dispatch_def new_tcp_dispatch_def find_udp_dispatch_def
  req_render_def raw_query_def putuint16_def DNS_MESSAGE_HEADERLEN_def DNS_REQUEST_NLOCKS_def
  raw_again.simps via_use_tcp.simps req_getsocket_def req_send_def

subsection \<open>Refusal and admission\<close>








subsection \<open>What is sent\<close>

lemma payloads_simps [simp]:
  "payloads [] = []"
  "payloads (xs @ ys) = payloads xs @ payloads ys"
  "payloads (a # xs) = (case a of SocketSendto _ q _ \<Rightarrow> [q] | _ \<Rightarrow> []) @ payloads xs"
  by (simp_all add: payloads_def)

lemma preparing_payloads: "preparing xs \<Longrightarrow> payloads xs = []"
  by (induction xs) (auto simp: engages_def split: action.splits)

lemma payloads_cancel_actions [simp]: "payloads (cancel_actions r s) = []"
  by (simp add: cancel_actions_def split: option.splits)

lemma req_cancel_payloads:
  assumes "req_cancel E r tr = Inr (r', tr')"
  shows "query r' = query r \<and> (\<exists>added. tr' = tr @ added \<and> payloads added = [])"
  using assms
  by (auto simp: req_cancel_def Let_def split: option.splits if_splits)

lemma cancel_and_send_payloads:
  assumes "cancel_and_send E r res tr = Inr (r', tr')"
  shows "query r' = query r \<and> (\<exists>added. tr' = tr @ added \<and> payloads added = [])"
  using assms
  by (auto simp: cancel_and_send_def send_if_done_eq split: sum.splits if_splits
      dest!: req_cancel_payloads)

lemma handle_payloads:
  assumes "handle E i (r, tr) = Inr (r', tr')"
  shows "query r' = query r
         \<and> (\<exists>added. tr' = tr @ added \<and> (\<forall>q \<in> set (payloads added). query r = Some q))"
  using assms
  by (cases i)
     (auto simp: handler_defs Let_def send_if_done_eq
        split: sum.splits option.splits if_splits
        dest!: cancel_and_send_payloads req_send_Inr)

lemma run_payloads:
  "run E xs (r, tr) = Inr (r', tr')
     \<Longrightarrow> query r' = query r
         \<and> (\<exists>added. tr' = tr @ added \<and> (\<forall>q \<in> set (payloads added). query r = Some q))"
proof (induction xs arbitrary: r tr)
  case Nil
  then show ?case by simp
next
  case (Cons i xs)
  then obtain r1 tr1 where h: "handle E i (r, tr) = Inr (r1, tr1)"
    and rest: "run E xs (r1, tr1) = Inr (r', tr')"
    by (auto split: sum.splits)
  from handle_payloads [OF h] obtain a1 where
    a1: "query r1 = query r" "tr1 = tr @ a1" "\<forall>q \<in> set (payloads a1). query r = Some q"
    by blast
  from Cons.IH [OF rest] obtain a2 where
    a2: "query r' = query r1" "tr' = tr1 @ a2" "\<forall>q \<in> set (payloads a2). query r1 = Some q"
    by blast
  from a1 a2 show ?case by (intro conjI exI [of _ "a1 @ a2"]) auto
qed

lemma be16_low: "(ucast (w AND 0xff :: 16 word) :: byte) = ucast w"
proof -
  have m: "(0xff :: 16 word) = mask 8" by (simp add: mask_eq_exp_minus_1)
  show ?thesis unfolding m
    by (rule bit_eqI) (auto simp add: bit_simps)
qed

lemma raw_query_bytes:
  assumes "2 \<le> length msg"
  shows "raw_query tcp msgid msg
    = (if tcp then [ucast (drop_bit 8 (of_nat (length msg) :: 16 word)),
                    ucast (of_nat (length msg) :: 16 word)] else [])
      @ [ucast (drop_bit 8 msgid), ucast msgid] @ drop 2 msg"
proof -
  from assms obtain a b rest where m: "msg = a # b # rest"
    by (cases msg; cases "tl msg") auto
  show ?thesis unfolding m
    by (simp add: raw_query_def putuint16_def Let_def be16_low numeral_2_eq_2 numeral_3_eq_3)
qed

lemma factory_query:
  assumes "arm_and_start E p mgr' r tcp conn timeout u dest sock (tr @ front @ pre @ [MgrLock, MgrUnlock])
             = Inr c"
    and "cr_result c = ISC_R_SUCCESS"
    and "preparing front" "preparing pre" "tcp_acquired pre = tcp" "\<not> tcp_acquired front"
  shows "\<exists>r' pre' ev. cr_request c = Some r' \<and> cr_trace c = tr @ pre' @ [ev]
           \<and> tcp_acquired pre' = tcp \<and> payloads pre' = []
           \<and> query r' = query r \<and> dispatch r' = dispatch r \<and> dispentry r' = dispentry r
           \<and> (\<forall>q \<in> set (payloads [ev]). query r = Some q)"
proof -
  define ty where "ty = TimerReset (if tcp \<or> u = 0 then isc_timertype_once
                                   else isc_timertype_limited) timeout (if tcp then 0 else u)"
  define pre' where "pre' = front @ pre @ [MgrLock, MgrUnlock, ty]"
  from assms(3,4) have np: "payloads pre' = []"
    unfolding pre'_def ty_def by (simp add: preparing_payloads)
  from assms(5,6) have ta: "tcp_acquired pre' = tcp" unfolding pre'_def ty_def by simp
  from arm_and_start_success [OF assms(1,2)] obtain ev r' where
    t: "cr_trace c = tr @ pre' @ [ev]"
    and e: "cr_request c = Some r'" "query r' = query r" "dispatch r' = dispatch r"
      "dispentry r' = dispentry r" "\<forall>q \<in> set (payloads [ev]). query r = Some q"
    unfolding pre'_def ty_def by (auto split: if_splits)
  with np ta show ?thesis by blast
qed

subsection \<open>The registration loop of \<open>dns_request_createraw\<close>\<close>

lemma createraw_registration:
  assumes t: "0 < timeout"
    and fam: "\<forall>s. srcaddr = Some s \<longrightarrow> sa_family s = sa_family dest"
    and nb: "\<not> isblackholed E dest"
    and dv: "derive_udptimeout timeout udptimeout udpretries = Inr u"
    and tc: "timer_create E (tr @ [MemGet]) = ISC_R_SUCCESS"
    and len: "DNS_MESSAGE_HEADERLEN \<le> length msgbuf" "length msgbuf \<le> 65535"
    and m: "mem_get E tr = (p, h, a)"
  shows "dns_request_createraw E mgr msgbuf srcaddr dest dscpv options timeout udptimeout
           udpretries tr
    = (case raw_again E mgr (DNS_REQUESTOPT_TCP \<in> options \<or> 512 < length msgbuf)
              (DNS_REQUESTOPT_SHARE \<in> options) srcaddr dest dscpv
              (DNS_REQUESTOPT_FIXEDID \<in> options) msgbuf False False
              ((new_request h a)\<lparr>udpcount := udpretries, dscp := dscpv, timer := True,
                                  event := Some ISC_R_FAILURE\<rparr>)
              (tr @ [MemGet, TimerCreate, EventAllocate, TaskAttach]) of
         NotRegistered result r2 tr2 \<Rightarrow> cleanup mgr r2 True result tr2
       | Registered r2 connected msgid tr2 \<Rightarrow>
           (case req_getsocket E r2 of
              Inl f \<Rightarrow> Inl f
            | Inr None \<Rightarrow> Inl AssertionFailed
            | Inr (Some sock) \<Rightarrow>
                if exiting mgr
                then cleanup mgr
                       (r2\<lparr>query := Some (raw_query
                            (DNS_REQUESTOPT_TCP \<in> options \<or> 512 < length msgbuf) msgid msgbuf)\<rparr>)
                       True ISC_R_SHUTTINGDOWN (tr2 @ [MgrLock, MgrUnlock])
                else arm_and_start E p
                       (mgr\<lparr>iref := iref mgr + 1, mgr_hash := mgr_hash mgr + 1,
                            requests := requests mgr @ [p]\<rparr>)
                       (r2\<lparr>query := Some (raw_query
                            (DNS_REQUESTOPT_TCP \<in> options \<or> 512 < length msgbuf) msgid msgbuf),
                           requestmgr := True,
                           hash := unat (mgr_hash mgr + 1) mod DNS_REQUEST_NLOCKS\<rparr>)
                       (DNS_REQUESTOPT_TCP \<in> options \<or> 512 < length msgbuf) connected timeout u
                       dest sock (tr2 @ [MgrLock, MgrUnlock])))"
proof -
  have f: "\<not> (case srcaddr of None \<Rightarrow> False | Some s \<Rightarrow> sa_family s \<noteq> sa_family dest)"
    using fam by (cases srcaddr) auto
  have l: "\<not> (length msgbuf < DNS_MESSAGE_HEADERLEN \<or> 65535 < length msgbuf)"
    using len by auto
  show ?thesis
    using t f nb dv tc l m
    by (simp add: dns_request_createraw_def Let_def admit_def mgr_gethash_def
          split: registration.splits sum.splits option.splits)
qed

lemma raw_again_retry:
  assumes g1: "create_tcp_dispatch E False share srcaddr dest dscpv False tr
                 = (ISC_R_SUCCESS, conn1, d1, tr1)"
    and i: "i = push_bit 8 (ucast (msg ! 0)) OR ucast (msg ! 1)"
    and a1: "fst (dispatch_addresponse E tr1 d1 (Some i)) \<noteq> ISC_R_SUCCESS"
    and g2: "new_tcp_dispatch E srcaddr dest dscpv False
               (tr1 @ [DispatchAddResponse d1 (Some i), DispatchDetach d1])
               = (res3, conn3, d3, tr3)"
    and a2: "dispatch_addresponse E tr3 d3 (Some i) = (res4, msgid, e)"
  shows "raw_again E mgr True share srcaddr dest dscpv True msg False False r tr =
     (if res3 \<noteq> ISC_R_SUCCESS then NotRegistered res3 (r\<lparr>dispatch := None\<rparr>) tr3
      else if res4 \<noteq> ISC_R_SUCCESS
      then NotRegistered res4 (r\<lparr>dispatch := Some d3\<rparr>)
             (tr3 @ [DispatchAddResponse d3 (Some i)])
      else Registered (r\<lparr>dispatch := Some d3, dispentry := Some e\<rparr>) False msgid
             (tr3 @ [DispatchAddResponse d3 (Some i)]))"
proof -
  from new_tcp_dispatch_trace [OF g2] have c3: "conn3 = False" by simp
  obtain res2 i2 e2 where ar: "dispatch_addresponse E tr1 d1 (Some i) = (res2, i2, e2)"
    by (metis prod_cases3)
  with a1 have r2: "res2 \<noteq> ISC_R_SUCCESS" by simp
  have first: "raw_again E mgr True share srcaddr dest dscpv True msg False False r tr
      = raw_again E mgr True share srcaddr dest dscpv True msg True False (r\<lparr>dispatch := None\<rparr>)
          (tr1 @ [DispatchAddResponse d1 (Some i), DispatchDetach d1])"
    using g1 ar r2 unfolding raw_again_first
    by (simp add: get_dispatch_def Let_def i)
  show ?thesis
    unfolding first raw_again_newtcp
    using g2 a2 c3
    by (simp add: get_dispatch_def create_tcp_dispatch_def Let_def i)
qed

subsection \<open>The retransmission period\<close>

text \<open>
  Claim C3.  Both factories derive the retransmission period on \<open>unsigned int\<close>.  With a
  period of zero and \<open>UINT_MAX\<close> retries the divisor \<open>udpretries + 1\<close> wraps to zero: the
  factories divide by zero where \<open>max(1, timeout / (udpretries + 1))\<close> is 1.  (For every
  other input the period is the one of the formula, see \<open>derive_udptimeout_Inr\<close>.)
\<close>

theorem udp_period_division_by_zero:
  "dns_request_createraw env0 mgr0 msg0 None dest0 (- 1) {} 5 0 (- 1) [] = Inl DivideByZero
   \<and> dns_request_createvia env0 mgr0 None dest0 (- 1) {} None 5 0 (- 1) [] = Inl DivideByZero"
  by (simp add: factory_defs example_defs)

subsection \<open>Arming the timer\<close>




subsection \<open>The TCP flag\<close>



subsection \<open>Admission under the manager lock\<close>



subsection \<open>The query buffer\<close>

text \<open>
  Claim C6.  The request of a successful creation holds the query buffer, and everything
  that is handed to the socket for sending, by the factory and by every handler later,
  is that buffer.  For \<open>dns_request_createraw\<close> it is the caller's message with its first
  two bytes replaced by the message ID that the dispatcher assigned, high byte first; for
  \<open>dns_request_createvia\<close> it is a message as the renderer produced it.  When the
  transport is TCP the message is preceded by its length as two bytes, high byte first,
  and the length fits 16 bits; on UDP there is no prefix.
\<close>

theorem query_framing:
  defines "be16 \<equiv> (\<lambda>v :: 16 word. [ucast (drop_bit 8 v), ucast v] :: byte list)"
  shows
  "(dns_request_createraw E mgr msgbuf srcaddr dest dscpv options timeout udptimeout
      udpretries tr = Inr c \<and> cr_result c = ISC_R_SUCCESS \<longrightarrow>
      (\<exists>r pre ev msgid. cr_request c = Some r \<and> cr_trace c = tr @ pre @ [ev]
         \<and> payloads pre = [] \<and> (\<forall>q \<in> set (payloads [ev]). query r = Some q)
         \<and> (\<exists>hh d e idin. dispatch_addresponse E hh d idin = (ISC_R_SUCCESS, msgid, e)
                \<and> dispatch r = Some d \<and> dispentry r = Some e)
         \<and> unat (of_nat (length msgbuf) :: 16 word) = length msgbuf
         \<and> query r = Some ((if tcp_acquired pre then be16 (of_nat (length msgbuf)) else [])
                             @ be16 msgid @ drop 2 msgbuf)))
   \<and> (dns_request_createvia E mgr srcaddr dest dscpv options key timeout udptimeout
        udpretries tr = Inr c' \<and> cr_result c' = ISC_R_SUCCESS \<longrightarrow>
      (\<exists>r pre ev wire. cr_request c' = Some r \<and> cr_trace c' = tr @ pre @ [ev]
         \<and> payloads pre = [] \<and> (\<forall>q \<in> set (payloads [ev]). query r = Some q)
         \<and> (\<exists>hh msgid. message_render E hh msgid (DNS_REQUESTOPT_CASE \<in> options)
                            = (ISC_R_SUCCESS, wire))
         \<and> unat (of_nat (length wire) :: 16 word) = length wire
         \<and> query r = Some ((if tcp_acquired pre then be16 (of_nat (length wire)) else [])
                             @ wire)))
   \<and> (run E xs (r0, hist) = Inr (r1, hist1) \<longrightarrow>
        query r1 = query r0
        \<and> (\<exists>added. hist1 = hist @ added \<and> (\<forall>q \<in> set (payloads added). query r0 = Some q)))"
proof (intro conjI impI)
  assume "run E xs (r0, hist) = Inr (r1, hist1)"
  from run_payloads [OF this] show "query r1 = query r0" 
    "\<exists>added. hist1 = hist @ added \<and> (\<forall>q \<in> set (payloads added). query r0 = Some q)"
    by simp_all
next
  have front: "preparing [MemGet, TimerCreate, EventAllocate, TaskAttach]"
    "\<not> tcp_acquired [MemGet, TimerCreate, EventAllocate, TaskAttach]"
    by (simp_all add: engages_def)
  assume a: "dns_request_createraw E mgr msgbuf srcaddr dest dscpv options timeout udptimeout
      udpretries tr = Inr c \<and> cr_result c = ISC_R_SUCCESS"
  then have c: "dns_request_createraw E mgr msgbuf srcaddr dest dscpv options timeout udptimeout
      udpretries tr = Inr c" and s: "cr_result c = ISC_R_SUCCESS" by simp_all
  from c s show "\<exists>r pre ev msgid. cr_request c = Some r \<and> cr_trace c = tr @ pre @ [ev]
         \<and> payloads pre = [] \<and> (\<forall>q \<in> set (payloads [ev]). query r = Some q)
         \<and> (\<exists>hh d e idin. dispatch_addresponse E hh d idin = (ISC_R_SUCCESS, msgid, e)
                \<and> dispatch r = Some d \<and> dispentry r = Some e)
         \<and> unat (of_nat (length msgbuf) :: 16 word) = length msgbuf
         \<and> query r = Some ((if tcp_acquired pre then be16 (of_nat (length msgbuf)) else [])
                             @ be16 msgid @ drop 2 msgbuf)"
  proof (cases rule: createraw_success)
    case (success p h a u d e msgid pre conn sock)
    from success(3) have l2: "2 \<le> length msgbuf" by (simp add: DNS_MESSAGE_HEADERLEN_def)
    from success(4) have ln: "unat (of_nat (length msgbuf) :: 16 word) = length msgbuf"
      by (simp add: unat_of_nat take_bit_nat_eq_self)
    from factory_query [OF success(11) s front(1) staging_preparing [OF success(6)] refl front(2)]
    obtain r' pre' ev where f: "cr_request c = Some r'" "cr_trace c = tr @ pre' @ [ev]"
      "tcp_acquired pre' = tcp_acquired pre" "payloads pre' = []"
      "query r' = Some (raw_query (tcp_acquired pre) msgid msgbuf)"
      "dispatch r' = Some d" "dispentry r' = Some e"
      "\<forall>q \<in> set (payloads [ev]). query r' = Some q"
      by auto
    have q: "query r' = Some ((if tcp_acquired pre' then be16 (of_nat (length msgbuf)) else [])
                             @ be16 msgid @ drop 2 msgbuf)"
      unfolding f(5) f(3) raw_query_bytes [OF l2] be16_def by simp
    from success(9) f(6,7)
    have ar: "\<exists>hh d e idin. dispatch_addresponse E hh d idin = (ISC_R_SUCCESS, msgid, e)
                \<and> dispatch r' = Some d \<and> dispentry r' = Some e"
      by blast
    show ?thesis
      by (rule exI [of _ r'], rule exI [of _ pre'], rule exI [of _ ev], rule exI [of _ msgid])
         (intro conjI f(1) f(2) f(4) f(8) ar ln q)
  qed
next
  have front: "preparing [MemGet, TimerCreate, EventAllocate, TaskAttach]"
    "\<not> tcp_acquired [MemGet, TimerCreate, EventAllocate, TaskAttach]"
    by (simp_all add: engages_def)
  assume a: "dns_request_createvia E mgr srcaddr dest dscpv options key timeout udptimeout
        udpretries tr = Inr c' \<and> cr_result c' = ISC_R_SUCCESS"
  then have c: "dns_request_createvia E mgr srcaddr dest dscpv options key timeout udptimeout
        udpretries tr = Inr c'" and s: "cr_result c' = ISC_R_SUCCESS" by simp_all
  from c s show "\<exists>r pre ev wire. cr_request c' = Some r \<and> cr_trace c' = tr @ pre @ [ev]
         \<and> payloads pre = [] \<and> (\<forall>q \<in> set (payloads [ev]). query r = Some q)
         \<and> (\<exists>hh msgid. message_render E hh msgid (DNS_REQUESTOPT_CASE \<in> options)
                            = (ISC_R_SUCCESS, wire))
         \<and> unat (of_nat (length wire) :: 16 word) = length wire
         \<and> query r = Some ((if tcp_acquired pre then be16 (of_nat (length wire)) else [])
                             @ wire)"
  proof (cases rule: createvia_success)
    case (success p h a u d e buf pre conn sock qt)
    from success(7) obtain hh msgid wire where
      w: "message_render E hh msgid (DNS_REQUESTOPT_CASE \<in> options) = (ISC_R_SUCCESS, wire)"
      "length wire \<le> 65535"
      "buf = (if tcp_acquired pre then putuint16 (of_nat (length wire)) else []) @ wire"
      unfolding rendered_query_def by blast
    from w(2) have ln: "unat (of_nat (length wire) :: 16 word) = length wire"
      by (simp add: unat_of_nat take_bit_nat_eq_self)
    from factory_query [OF success(8) s front(1) staging_preparing [OF success(4)] refl front(2)]
    obtain r' pre' ev where f: "cr_request c' = Some r'" "cr_trace c' = tr @ pre' @ [ev]"
      "tcp_acquired pre' = tcp_acquired pre" "payloads pre' = []"
      "query r' = Some buf"
      "\<forall>q \<in> set (payloads [ev]). query r' = Some q"
      by auto
    have q: "query r' = Some ((if tcp_acquired pre' then be16 (of_nat (length wire)) else [])
                             @ wire)"
      unfolding f(5) f(3) w(3) be16_def putuint16_def by simp
    from w(1) have mr: "\<exists>hh msgid. message_render E hh msgid (DNS_REQUESTOPT_CASE \<in> options)
                            = (ISC_R_SUCCESS, wire)"
      by blast
    show ?thesis
      by (rule exI [of _ r'], rule exI [of _ pre'], rule exI [of _ ev], rule exI [of _ wire])
         (intro conjI f(1) f(2) f(4) f(6) mr ln q)
  qed
qed

theorem query_framing_witness:
  "(\<exists>c r. dns_request_createraw env_connected mgr0 msg0 None dest0 (- 1) {DNS_REQUESTOPT_TCP}
             5 0 0 [] = Inr c
        \<and> cr_result c = ISC_R_SUCCESS \<and> cr_request c = Some r
        \<and> query r = Some [0, 12, 0xBE, 0xEF, 1, 0, 0, 1, 0, 0, 0, 0, 0, 0]
        \<and> payloads (cr_trace c) = [[0, 12, 0xBE, 0xEF, 1, 0, 0, 1, 0, 0, 0, 0, 0, 0]])
   \<and> (\<exists>c r. dns_request_createvia env0 mgr0 None dest0 (- 1) {} None 5 0 0 [] = Inr c
        \<and> cr_result c = ISC_R_SUCCESS \<and> cr_request c = Some r
        \<and> query r = Some [0xBE, 0xEF, 1, 0, 0, 1, 0, 0, 0, 0, 0, 0]
        \<and> payloads (cr_trace c) = [[0xBE, 0xEF, 1, 0, 0, 1, 0, 0, 0, 0, 0, 0]])
   \<and> (\<exists>r' tr'. run env0 [Timer ISC_TIMEREVENT_TICK] (waiting_request, []) = Inr (r', tr')
        \<and> query r' = Some msg0 \<and> payloads tr' = [msg0])"
proof -
  define r1 where "r1 = \<lparr>hash = 1, flags = DNS_REQUEST_F_SENDING,
               query = Some [0, 12, 0xBE, 0xEF, 1, 0, 0, 1, 0, 0, 0, 0, 0, 0], answer = None,
               event = Some ISC_R_FAILURE, dispatch = Some 9, dispentry = Some 5, timer = True,
               requestmgr = True, tsig = None, tsigkey = None, canceling = False,
               destaddr = dest0, udpcount = 0, dscp = - 1\<rparr>"
  define c1 where "c1 = \<lparr>cr_result = ISC_R_SUCCESS, cr_request = Some r1,
            cr_mgr = mgr0\<lparr>iref := 1, mgr_hash := 1, requests := [100]\<rparr>,
            cr_trace = [MemGet, TimerCreate, EventAllocate, TaskAttach,
                        DispatchGetTcp dest0 False, DispatchAddResponse 9 None,
                        MgrLock, MgrUnlock, TimerReset isc_timertype_once 5 0,
                        SocketSendto 7 [0, 12, 0xBE, 0xEF, 1, 0, 0, 1, 0, 0, 0, 0, 0, 0]
                          None]\<rparr>"
  define r3 where "r3 = \<lparr>hash = 1, flags = DNS_REQUEST_F_SENDING,
               query = Some [0xBE, 0xEF, 1, 0, 0, 1, 0, 0, 0, 0, 0, 0], answer = None,
               event = Some ISC_R_FAILURE, dispatch = Some 1, dispentry = Some 5, timer = True,
               requestmgr = True, tsig = None, tsigkey = None, canceling = False,
               destaddr = dest0, udpcount = 0, dscp = - 1\<rparr>"
  define c3 where "c3 = \<lparr>cr_result = ISC_R_SUCCESS, cr_request = Some r3,
            cr_mgr = mgr0\<lparr>iref := 1, mgr_hash := 1, requests := [100]\<rparr>,
            cr_trace = [MemGet, TimerCreate, EventAllocate, TaskAttach, DispatchAttach 1,
                        DispatchAddResponse 1 None, MessageSetTsigKey, MessageRender False,
                        MgrLock, MgrUnlock, TimerReset isc_timertype_once 5 0,
                        SocketSendto 7 [0xBE, 0xEF, 1, 0, 0, 1, 0, 0, 0, 0, 0, 0]
                          (Some dest0)]\<rparr>"
  have h1: "dns_request_createraw env_connected mgr0 msg0 None dest0 (- 1) {DNS_REQUESTOPT_TCP}
             5 0 0 [] = Inr c1"
    unfolding c1_def r1_def by (simp add: factory_defs example_defs Let_def flag_defs)
  have h3: "dns_request_createvia env0 mgr0 None dest0 (- 1) {} None 5 0 0 [] = Inr c3"
    unfolding c3_def r3_def by (simp add: factory_defs example_defs Let_def flag_defs)
  have h4: "run env0 [Timer ISC_TIMEREVENT_TICK] (waiting_request, [])
     = Inr (waiting_request\<lparr>udpcount := 1, flags := DNS_REQUEST_F_SENDING\<rparr>,
            [SocketSendto 7 msg0 (Some dest0)])"
    by (simp add: req_timeout_def helper_defs example_defs test_defs flag_defs Let_def)
  have s: "cr_result c1 = ISC_R_SUCCESS" "cr_result c3 = ISC_R_SUCCESS"
    "cr_request c1 = Some r1" "cr_request c3 = Some r3"
    "query r1 = Some [0, 12, 0xBE, 0xEF, 1, 0, 0, 1, 0, 0, 0, 0, 0, 0]"
    "query r3 = Some [0xBE, 0xEF, 1, 0, 0, 1, 0, 0, 0, 0, 0, 0]"
    "payloads (cr_trace c1) = [[0, 12, 0xBE, 0xEF, 1, 0, 0, 1, 0, 0, 0, 0, 0, 0]]"
    "payloads (cr_trace c3) = [[0xBE, 0xEF, 1, 0, 0, 1, 0, 0, 0, 0, 0, 0]]"
    unfolding c1_def c3_def r1_def r3_def by simp_all
  have s4: "query (waiting_request\<lparr>udpcount := 1, flags := DNS_REQUEST_F_SENDING\<rparr>) = Some msg0"
    "payloads [SocketSendto 7 msg0 (Some dest0)] = [msg0]"
    by (simp_all add: waiting_request_def)
  note t1 = query_framing [where E = env_connected and mgr = mgr0 and msgbuf = msg0
      and srcaddr = None and dest = dest0 and dscpv = "- 1" and timeout = 5 and udptimeout = 0
      and udpretries = 0 and tr = "[]" and options = "{DNS_REQUESTOPT_TCP}"
      and c = c1, THEN conjunct1]
  note t3 = query_framing [where E = env0 and mgr = mgr0
      and srcaddr = None and dest = dest0 and dscpv = "- 1" and timeout = 5 and udptimeout = 0
      and udpretries = 0 and tr = "[]" and options = "{}" and key = None
      and c' = c3, THEN conjunct2, THEN conjunct1]
  note t4 = query_framing [where E = env0 and xs = "[Timer ISC_TIMEREVENT_TICK]"
      and ?r0.0 = waiting_request and hist = "[]", THEN conjunct2, THEN conjunct2]
  from t1 t3 t4 h1 h3 h4 s s4 show ?thesis by blast
qed

subsection \<open>The retry on a fixed message ID\<close>

text \<open>
  Claim C7.  \<open>dns_request_createraw\<close> with \<open>DNS_REQUESTOPT_FIXEDID\<close> over TCP, with valid
  arguments and a first TCP dispatch on which the registration of the response fails
  (it may be a connected one): the dispatch is detached and exactly one more attempt is
  made, on a dispatch newly created from a fresh socket and taken as not connected.  If
  that dispatch cannot be created, or the registration fails on it too, creation fails
  with that result and is unwound (task, event, dispatch, timer, memory), with no third
  attempt; if it succeeds and the creation does, the request is on the new dispatch and
  the creation ends with the connect.
\<close>

theorem fixedid_retry_once:
  fixes msgbuf :: "byte list"
  defines "idin \<equiv> Some (push_bit 8 (ucast (msgbuf ! 0)) OR ucast (msgbuf ! 1) :: dns_messageid)"
  assumes t: "0 < timeout"
    and fam: "\<forall>s. srcaddr = Some s \<longrightarrow> sa_family s = sa_family dest"
    and nb: "\<not> isblackholed E dest"
    and dv: "\<not> (udptimeout = 0 \<and> udpretries = - 1)"
    and tc: "timer_create E (tr @ [MemGet]) = ISC_R_SUCCESS"
    and len: "DNS_MESSAGE_HEADERLEN \<le> length msgbuf" "length msgbuf \<le> 65535"
    and fx: "DNS_REQUESTOPT_FIXEDID \<in> options"
    and tcp: "DNS_REQUESTOPT_TCP \<in> options \<or> 512 < length msgbuf"
    and g1: "create_tcp_dispatch E False (DNS_REQUESTOPT_SHARE \<in> options) srcaddr dest dscpv
               False (tr @ [MemGet, TimerCreate, EventAllocate, TaskAttach])
             = (ISC_R_SUCCESS, conn1, d1, tr1)"
    and a1: "fst (dispatch_addresponse E tr1 d1 idin) \<noteq> ISC_R_SUCCESS"
    and g2: "new_tcp_dispatch E srcaddr dest dscpv False
               (tr1 @ [DispatchAddResponse d1 idin, DispatchDetach d1])
             = (res3, conn3, d3, tr3)"
    and a2: "dispatch_addresponse E tr3 d3 idin = (res4, msgid, e)"
  shows "(res3 \<noteq> ISC_R_SUCCESS \<longrightarrow>
            dns_request_createraw E mgr msgbuf srcaddr dest dscpv options timeout udptimeout
              udpretries tr
            = Inr \<lparr>cr_result = res3, cr_request = None, cr_mgr = mgr,
                   cr_trace = tr3 @ [TaskDetach, EventFree, TimerDetach, MemPut]\<rparr>)
     \<and> (res3 = ISC_R_SUCCESS \<and> res4 \<noteq> ISC_R_SUCCESS \<longrightarrow>
            dns_request_createraw E mgr msgbuf srcaddr dest dscpv options timeout udptimeout
              udpretries tr
            = Inr \<lparr>cr_result = res4, cr_request = None, cr_mgr = mgr,
                   cr_trace = tr3 @ [DispatchAddResponse d3 idin, TaskDetach, EventFree,
                                     DispatchDetach d3, TimerDetach, MemPut]\<rparr>)
     \<and> (res3 = ISC_R_SUCCESS \<and> res4 = ISC_R_SUCCESS
          \<and> dns_request_createraw E mgr msgbuf srcaddr dest dscpv options timeout udptimeout
                udpretries tr = Inr c
          \<and> cr_result c = ISC_R_SUCCESS \<longrightarrow>
            (\<exists>r s. cr_request c = Some r \<and> dispatch r = Some d3 \<and> dispentry r = Some e
               \<and> flags r = DNS_REQUEST_F_CONNECTING OR DNS_REQUEST_F_TCP
               \<and> cr_trace c = tr3 @ [DispatchAddResponse d3 idin, MgrLock, MgrUnlock,
                                       TimerReset isc_timertype_once timeout 0,
                                       SocketConnect s dest]))"
proof -
  obtain p h a where m: "mem_get E tr = (p, h, a)" by (metis prod_cases3)
  have "\<exists>u. derive_udptimeout timeout udptimeout udpretries = Inr u"
  proof (cases "udptimeout = 0 \<and> udpretries \<noteq> 0")
    case True
    with dv have "udpretries + 1 \<noteq> 0" by (simp add: eq_neg_iff_add_eq_0)
    with True show ?thesis by (simp add: derive_udptimeout_def Let_def)
  next
    case False
    then show ?thesis by (auto simp add: derive_udptimeout_def)
  qed
  then obtain u where u: "derive_udptimeout timeout udptimeout udpretries = Inr u" by blast
  define r1 where "r1 = (new_request h a)\<lparr>udpcount := udpretries, dscp := dscpv, timer := True,
                                  event := Some ISC_R_FAILURE\<rparr>"
  define i where "i = (push_bit 8 (ucast (msgbuf ! 0)) OR ucast (msgbuf ! 1) :: dns_messageid)"
  have idin: "idin = Some i" unfolding idin_def i_def by simp
  note cr = createraw_registration [where mgr = mgr and dscpv = dscpv and options = options,
      OF t fam nb u tc len m, folded r1_def]
  have tcp': "(DNS_REQUESTOPT_TCP \<in> options \<or> 512 < length msgbuf) = True" using tcp by simp
  have fx': "(DNS_REQUESTOPT_FIXEDID \<in> options) = True" using fx by simp
  note ra = raw_again_retry [where mgr = mgr and r = r1,
      OF g1 i_def a1 [unfolded idin] g2 [unfolded idin] a2 [unfolded idin]]
  have nr: "\<not> requestmgr (r1\<lparr>dispatch := None\<rparr>)" "\<not> requestmgr (r1\<lparr>dispatch := Some d3\<rparr>)"
    unfolding r1_def by (simp_all add: new_request_def)
  have c1: "res3 \<noteq> ISC_R_SUCCESS \<longrightarrow>
            dns_request_createraw E mgr msgbuf srcaddr dest dscpv options timeout udptimeout
              udpretries tr
            = Inr \<lparr>cr_result = res3, cr_request = None, cr_mgr = mgr,
                   cr_trace = tr3 @ [TaskDetach, EventFree, TimerDetach, MemPut]\<rparr>"
    unfolding cr tcp' fx' ra
    by (simp add: cleanup_unlinked [OF nr(1)]) (simp add: r1_def new_request_def)
  have c2: "res3 = ISC_R_SUCCESS \<and> res4 \<noteq> ISC_R_SUCCESS \<longrightarrow>
            dns_request_createraw E mgr msgbuf srcaddr dest dscpv options timeout udptimeout
              udpretries tr
            = Inr \<lparr>cr_result = res4, cr_request = None, cr_mgr = mgr,
                   cr_trace = tr3 @ [DispatchAddResponse d3 idin, TaskDetach, EventFree,
                                     DispatchDetach d3, TimerDetach, MemPut]\<rparr>"
    unfolding cr tcp' fx' ra idin
    by (simp add: cleanup_unlinked [OF nr(2)]) (simp add: r1_def new_request_def)
  have c3: "res3 = ISC_R_SUCCESS \<and> res4 = ISC_R_SUCCESS
          \<and> dns_request_createraw E mgr msgbuf srcaddr dest dscpv options timeout udptimeout
                udpretries tr = Inr c
          \<and> cr_result c = ISC_R_SUCCESS \<longrightarrow>
            (\<exists>r s. cr_request c = Some r \<and> dispatch r = Some d3 \<and> dispentry r = Some e
               \<and> flags r = DNS_REQUEST_F_CONNECTING OR DNS_REQUEST_F_TCP
               \<and> cr_trace c = tr3 @ [DispatchAddResponse d3 idin, MgrLock, MgrUnlock,
                                       TimerReset isc_timertype_once timeout 0,
                                       SocketConnect s dest])"
  proof (intro impI, elim conjE)
    assume ok: "res3 = ISC_R_SUCCESS" "res4 = ISC_R_SUCCESS"
      and c: "dns_request_createraw E mgr msgbuf srcaddr dest dscpv options timeout udptimeout
                udpretries tr = Inr c"
      and s: "cr_result c = ISC_R_SUCCESS"
    define r2 where "r2 = r1\<lparr>dispatch := Some d3, dispentry := Some e\<rparr>"
    define r3 where "r3 = r2\<lparr>query := Some (raw_query True msgid msgbuf)\<rparr>"
    from c ok have k: "(case req_getsocket E r2 of
              Inl f \<Rightarrow> Inl f
            | Inr None \<Rightarrow> Inl AssertionFailed
            | Inr (Some sock) \<Rightarrow>
                if exiting mgr
                then cleanup mgr r3 True ISC_R_SHUTTINGDOWN
                       ((tr3 @ [DispatchAddResponse d3 (Some i)]) @ [MgrLock, MgrUnlock])
                else arm_and_start E p
                       (mgr\<lparr>iref := iref mgr + 1, mgr_hash := mgr_hash mgr + 1,
                            requests := requests mgr @ [p]\<rparr>)
                       (r3\<lparr>requestmgr := True,
                           hash := unat (mgr_hash mgr + 1) mod DNS_REQUEST_NLOCKS\<rparr>)
                       True False timeout u dest sock
                       ((tr3 @ [DispatchAddResponse d3 (Some i)]) @ [MgrLock, MgrUnlock])) = Inr c"
      unfolding cr tcp' fx' ra r2_def r3_def by simp
    then obtain sock where sk: "req_getsocket E r2 = Inr (Some sock)"
      by (cases "req_getsocket E r2") (auto split: option.splits)
    have ne: "\<not> exiting mgr"
    proof
      assume "exiting mgr"
      with k sk have "cleanup mgr r3 True ISC_R_SHUTTINGDOWN
                       ((tr3 @ [DispatchAddResponse d3 (Some i)]) @ [MgrLock, MgrUnlock]) = Inr c"
        by simp
      from cleanup_Inr [OF this] s show False by simp
    qed
    with k sk have as: "arm_and_start E p
                       (mgr\<lparr>iref := iref mgr + 1, mgr_hash := mgr_hash mgr + 1,
                            requests := requests mgr @ [p]\<rparr>)
                       (r3\<lparr>requestmgr := True,
                           hash := unat (mgr_hash mgr + 1) mod DNS_REQUEST_NLOCKS\<rparr>)
                       True False timeout u dest sock
                       ((tr3 @ [DispatchAddResponse d3 (Some i)]) @ [MgrLock, MgrUnlock]) = Inr c"
      by simp
    from arm_and_start_success [OF as s]
    show "\<exists>r s. cr_request c = Some r \<and> dispatch r = Some d3 \<and> dispentry r = Some e
               \<and> flags r = DNS_REQUEST_F_CONNECTING OR DNS_REQUEST_F_TCP
               \<and> cr_trace c = tr3 @ [DispatchAddResponse d3 idin, MgrLock, MgrUnlock,
                                       TimerReset isc_timertype_once timeout 0,
                                       SocketConnect s dest]"
      unfolding idin r3_def r2_def r1_def by (auto simp: new_request_def)
  qed
  from c1 c2 c3 show ?thesis by blast
qed

theorem fixedid_retry_once_witness:
  "dns_request_createraw env_collision mgr0 msg0 None dest0 (- 1)
       {DNS_REQUESTOPT_TCP, DNS_REQUESTOPT_FIXEDID} 5 0 0 []
     = Inr \<lparr>cr_result = ISC_R_SUCCESS,
            cr_request = Some
              \<lparr>hash = 1, flags = DNS_REQUEST_F_CONNECTING OR DNS_REQUEST_F_TCP,
               query = Some [0, 12, 0x12, 0x34, 1, 0, 0, 1, 0, 0, 0, 0, 0, 0], answer = None,
               event = Some ISC_R_FAILURE, dispatch = Some 6, dispentry = Some 5, timer = True,
               requestmgr = True, tsig = None, tsigkey = None, canceling = False,
               destaddr = dest0, udpcount = 0, dscp = - 1\<rparr>,
            cr_mgr = mgr0\<lparr>iref := 1, mgr_hash := 1, requests := [100]\<rparr>,
            cr_trace = [MemGet, TimerCreate, EventAllocate, TaskAttach,
                        DispatchGetTcp dest0 False, DispatchAddResponse 3 (Some 0x1234),
                        DispatchDetach 3, SocketCreate PF_INET, SocketBind 7 None,
                        SocketDscp 7 (- 1), DispatchCreateTcp 7, SocketDetach 7,
                        DispatchAddResponse 6 (Some 0x1234), MgrLock, MgrUnlock,
                        TimerReset isc_timertype_once 5 0, SocketConnect 7 dest0]\<rparr>
   \<and> dns_request_createraw env_collision_twice mgr0 msg0 None dest0 (- 1)
       {DNS_REQUESTOPT_TCP, DNS_REQUESTOPT_FIXEDID} 5 0 0 []
     = Inr \<lparr>cr_result = ISC_R_OTHER 1, cr_request = None, cr_mgr = mgr0,
            cr_trace = [MemGet, TimerCreate, EventAllocate, TaskAttach,
                        DispatchGetTcp dest0 False, DispatchAddResponse 3 (Some 0x1234),
                        DispatchDetach 3, SocketCreate PF_INET, SocketBind 7 None,
                        SocketDscp 7 (- 1), DispatchCreateTcp 7, SocketDetach 7,
                        DispatchAddResponse 6 (Some 0x1234), TaskDetach, EventFree,
                        DispatchDetach 6, TimerDetach, MemPut]\<rparr>"
proof -
  define front where "front = [MemGet, TimerCreate, EventAllocate, TaskAttach]"
  define tr1 where "tr1 = front @ [DispatchGetTcp dest0 False]"
  define tr3 where "tr3 = tr1 @ [DispatchAddResponse 3 (Some 0x1234), DispatchDetach 3,
                      SocketCreate PF_INET, SocketBind 7 None, SocketDscp 7 (- 1),
                      DispatchCreateTcp 7, SocketDetach 7]"
  have i: "(push_bit 8 (ucast (msg0 ! 0)) OR ucast (msg0 ! 1) :: dns_messageid) = 0x1234"
    by (simp add: msg0_def)
  have g: "0 < (5 :: uint)"
      "\<forall>s. (None :: isc_sockaddr option) = Some s \<longrightarrow> sa_family s = sa_family dest0"
      "\<not> isblackholed env_collision_twice dest0"
      "\<not> ((0 :: uint) = 0 \<and> (0 :: uint) = - 1)"
      "timer_create env_collision_twice ([] @ [MemGet]) = ISC_R_SUCCESS"
      "DNS_MESSAGE_HEADERLEN \<le> length msg0" "length msg0 \<le> 65535"
      "DNS_REQUESTOPT_FIXEDID \<in> {DNS_REQUESTOPT_TCP, DNS_REQUESTOPT_FIXEDID}"
      "DNS_REQUESTOPT_TCP \<in> {DNS_REQUESTOPT_TCP, DNS_REQUESTOPT_FIXEDID} \<or> 512 < length msg0"
    by (simp_all add: example_defs isblackholed_def DNS_MESSAGE_HEADERLEN_def)
  have g1: "create_tcp_dispatch env_collision_twice False
            (DNS_REQUESTOPT_SHARE \<in> {DNS_REQUESTOPT_TCP, DNS_REQUESTOPT_FIXEDID}) None dest0
            (- 1) False ([] @ [MemGet, TimerCreate, EventAllocate, TaskAttach])
          = (ISC_R_SUCCESS, True, 3, tr1)"
    unfolding tr1_def front_def
    by (simp add: example_defs create_tcp_dispatch_def)
  have a1: "fst (dispatch_addresponse env_collision_twice tr1 3
             (Some (push_bit 8 (ucast (msg0 ! 0)) OR ucast (msg0 ! 1)))) \<noteq> ISC_R_SUCCESS"
    by (simp add: example_defs)
  have g2: "new_tcp_dispatch env_collision_twice None dest0 (- 1) False
            (tr1 @ [DispatchAddResponse 3
                      (Some (push_bit 8 (ucast (msg0 ! 0)) OR ucast (msg0 ! 1))),
                    DispatchDetach 3])
          = (ISC_R_SUCCESS, False, 6, tr3)"
    unfolding i tr3_def tr1_def front_def
    by (simp add: example_defs new_tcp_dispatch_def Let_def)
  have k: "0 < (5 :: uint)"
      "\<forall>s. (None :: isc_sockaddr option) = Some s \<longrightarrow> sa_family s = sa_family dest0"
      "\<not> isblackholed env_collision dest0"
      "\<not> ((0 :: uint) = 0 \<and> (0 :: uint) = - 1)"
      "timer_create env_collision ([] @ [MemGet]) = ISC_R_SUCCESS"
      "DNS_MESSAGE_HEADERLEN \<le> length msg0" "length msg0 \<le> 65535"
      "DNS_REQUESTOPT_FIXEDID \<in> {DNS_REQUESTOPT_TCP, DNS_REQUESTOPT_FIXEDID}"
      "DNS_REQUESTOPT_TCP \<in> {DNS_REQUESTOPT_TCP, DNS_REQUESTOPT_FIXEDID} \<or> 512 < length msg0"
    by (simp_all add: example_defs isblackholed_def DNS_MESSAGE_HEADERLEN_def)
  have k1: "create_tcp_dispatch env_collision False
            (DNS_REQUESTOPT_SHARE \<in> {DNS_REQUESTOPT_TCP, DNS_REQUESTOPT_FIXEDID}) None dest0
            (- 1) False ([] @ [MemGet, TimerCreate, EventAllocate, TaskAttach])
          = (ISC_R_SUCCESS, True, 3, tr1)"
    unfolding tr1_def front_def
    by (simp add: example_defs create_tcp_dispatch_def)
  have b1: "fst (dispatch_addresponse env_collision tr1 3
             (Some (push_bit 8 (ucast (msg0 ! 0)) OR ucast (msg0 ! 1)))) \<noteq> ISC_R_SUCCESS"
    by (simp add: example_defs)
  have k2: "new_tcp_dispatch env_collision None dest0 (- 1) False
            (tr1 @ [DispatchAddResponse 3
                      (Some (push_bit 8 (ucast (msg0 ! 0)) OR ucast (msg0 ! 1))),
                    DispatchDetach 3])
          = (ISC_R_SUCCESS, False, 6, tr3)"
    unfolding i tr3_def tr1_def front_def
    by (simp add: example_defs new_tcp_dispatch_def Let_def)
  have a2: "dispatch_addresponse env_collision tr3 6
              (Some (push_bit 8 (ucast (msg0 ! 0)) OR ucast (msg0 ! 1))) = (ISC_R_SUCCESS, 0x1234, 5)"
    unfolding i by (simp add: example_defs)
  have a2': "dispatch_addresponse env_collision_twice tr3 6
              (Some (push_bit 8 (ucast (msg0 ! 0)) OR ucast (msg0 ! 1))) = (ISC_R_OTHER 1, 0, 0)"
    unfolding i by (simp add: example_defs)
  have h1: "dns_request_createraw env_collision mgr0 msg0 None dest0 (- 1)
       {DNS_REQUESTOPT_TCP, DNS_REQUESTOPT_FIXEDID} 5 0 0 []
     = Inr \<lparr>cr_result = ISC_R_SUCCESS,
            cr_request = Some
              \<lparr>hash = 1, flags = DNS_REQUEST_F_CONNECTING OR DNS_REQUEST_F_TCP,
               query = Some [0, 12, 0x12, 0x34, 1, 0, 0, 1, 0, 0, 0, 0, 0, 0], answer = None,
               event = Some ISC_R_FAILURE, dispatch = Some 6, dispentry = Some 5, timer = True,
               requestmgr = True, tsig = None, tsigkey = None, canceling = False,
               destaddr = dest0, udpcount = 0, dscp = - 1\<rparr>,
            cr_mgr = mgr0\<lparr>iref := 1, mgr_hash := 1, requests := [100]\<rparr>,
            cr_trace = tr3 @ [DispatchAddResponse 6 (Some 0x1234), MgrLock, MgrUnlock,
                        TimerReset isc_timertype_once 5 0, SocketConnect 7 dest0]\<rparr>"
    unfolding tr3_def tr1_def front_def
    by (simp add: factory_defs example_defs Let_def flag_defs)
  note t = fixedid_retry_once [where E = env_collision_twice and mgr = mgr0 and msgbuf = msg0
      and srcaddr = None and dest = dest0 and dscpv = "- 1" and timeout = 5 and udptimeout = 0
      and udpretries = 0 and tr = "[]"
      and options = "{DNS_REQUESTOPT_TCP, DNS_REQUESTOPT_FIXEDID}",
      OF g g1 a1 g2 a2', THEN conjunct2, THEN conjunct1]
  from t
  have h2: "dns_request_createraw env_collision_twice mgr0 msg0 None dest0 (- 1)
       {DNS_REQUESTOPT_TCP, DNS_REQUESTOPT_FIXEDID} 5 0 0 []
     = Inr \<lparr>cr_result = ISC_R_OTHER 1, cr_request = None, cr_mgr = mgr0,
            cr_trace = tr3 @ [DispatchAddResponse 6 (Some 0x1234), TaskDetach, EventFree,
                        DispatchDetach 6, TimerDetach, MemPut]\<rparr>"
    unfolding i by simp
  note t' = fixedid_retry_once [where E = env_collision and mgr = mgr0 and msgbuf = msg0
      and srcaddr = None and dest = dest0 and dscpv = "- 1" and timeout = 5 and udptimeout = 0
      and udpretries = 0 and tr = "[]"
      and options = "{DNS_REQUESTOPT_TCP, DNS_REQUESTOPT_FIXEDID}",
      OF k k1 b1 k2 a2, THEN conjunct2, THEN conjunct2]
  from t' h1 h2 show ?thesis unfolding tr3_def tr1_def front_def by simp
qed

end
